theory Spec2Isabelle
  imports Complex_Main
begin

section \<open>JavaScript values, numbers and dates used by the birthday pipeline\<close>

text \<open>
  The services under \<open>src/services\<close> are written in JavaScript. The fragment of the
  language they rely on is embedded as follows.
  \<^item> A number is \<open>NaN\<close>, an infinity or a finite value. Finite values are rationals;
    multiplication and addition round the exact result to the nearest double (binary64,
    ties to even, overflow to an infinity), so that on doubles they are the operations of
    the language. The sign of zero is not kept.
  \<^item> A \<open>Date\<close> is either the invalid date (time value \<open>NaN\<close>) or a time value: an integral
    number of milliseconds since 1970-01-01T00:00:00Z.
  \<^item> The time zone of the host is the function \<open>LocalTZA(t, isUTC)\<close> of ECMAScript: the
    offset in milliseconds in force at the instant \<open>t\<close> (\<open>isUTC\<close> true) or chosen for the
    local time \<open>t\<close> (\<open>isUTC\<close> false). It may vary with \<open>t\<close>, as the offsets of a zone
    do over its history and with daylight saving.
  \<^item> A text is a \<open>string\<close>, a list of code units in the range 0 to 255 (Latin-1).
    Texts with other code units are outside the model.
\<close>

datatype jsnum = NaN | PosInf | NegInf | Fin rat

datatype jsdate = InvalidDate | TimeValue int

datatype jsval =
    VUndefined
  | VNull
  | VBool bool
  | VNum jsnum
  | VStr string
  | VDate jsdate
  | VObject

text \<open>\<open>!value\<close>: the falsy values are \<open>undefined\<close>, \<open>null\<close>, \<open>false\<close>, \<open>0\<close>, \<open>NaN\<close> and \<open>""\<close>.\<close>

fun falsy :: "jsval \<Rightarrow> bool" where
  "falsy VUndefined = True"
| "falsy VNull = True"
| "falsy (VBool b) = (\<not> b)"
| "falsy (VNum NaN) = True"
| "falsy (VNum (Fin x)) = (x = 0)"
| "falsy (VNum PosInf) = False"
| "falsy (VNum NegInf) = False"
| "falsy (VStr s) = (s = [])"
| "falsy (VDate d) = False"
| "falsy VObject = False"

fun isNaN :: "jsnum \<Rightarrow> bool" where
  "isNaN NaN = True"
| "isNaN PosInf = False"
| "isNaN NegInf = False"
| "isNaN (Fin x) = False"

text \<open>
  Rounding of a rational to the nearest double. For a positive \<open>x\<close>, \<open>floorLog2 x\<close> is the
  exponent \<open>e\<close> with \<open>pow2 e \<le> x < pow2 (e + 1)\<close>; the doubles around \<open>x\<close> are the
  multiples of \<open>pow2 q\<close> with \<open>q = e - 52\<close>, or \<open>q = - 1074\<close> in the subnormal range, and
  \<open>x\<close> is rounded to the nearest multiple \<open>n\<close>, to the even one of two equally near.
  The result is an infinity when it reaches \<open>pow2 1024\<close>, which is when \<open>q\<close> exceeds
  971, or is 971 with \<open>n\<close> rounded up to \<open>2 ^ 53\<close>.
\<close>

function log2floor :: "int \<Rightarrow> int" where
  "log2floor n = (if n < 2 then 0 else log2floor (n div 2) + 1)"
  by pat_completeness auto
termination
  by (relation "measure nat") auto

declare log2floor.simps [simp del]

definition pow2 :: "int \<Rightarrow> rat" where
  "pow2 e = (if 0 \<le> e then 2 ^ nat e else 1 / 2 ^ nat (- e))"

definition floorLog2 :: "rat \<Rightarrow> int" where
  "floorLog2 x =
     (case quotient_of x of
        (p, q) \<Rightarrow>
          (let d = log2floor p - log2floor q
           in if pow2 d \<le> x then d else d - 1))"

definition roundHalfEven :: "rat \<Rightarrow> int" where
  "roundHalfEven m =
     (let f = \<lfloor>m\<rfloor>; r = m - of_int f
      in if r < 1 / 2 then f
         else if 1 / 2 < r then f + 1
         else if even f then f else f + 1)"

definition roundToDouble :: "rat \<Rightarrow> jsnum" where
  "roundToDouble x =
     (if x = 0 then Fin 0
      else
        (let a = \<bar>x\<bar>;
             q = max (floorLog2 a - 52) (- 1074);
             n = roundHalfEven (a / pow2 q);
             y = of_int n * pow2 q
         in if 971 < q \<or> (q = 971 \<and> 2 ^ 53 \<le> n) then (if 0 < x then PosInf else NegInf)
            else Fin (if 0 < x then y else - y)))"

text \<open>Multiplication and addition of numbers, with the IEEE rules for \<open>NaN\<close> and infinities.\<close>

fun jsMul :: "jsnum \<Rightarrow> jsnum \<Rightarrow> jsnum" where
  "jsMul (Fin x) (Fin y) = roundToDouble (x * y)"
| "jsMul NaN b = NaN"
| "jsMul a NaN = NaN"
| "jsMul PosInf (Fin y) = (if y = 0 then NaN else if 0 < y then PosInf else NegInf)"
| "jsMul NegInf (Fin y) = (if y = 0 then NaN else if 0 < y then NegInf else PosInf)"
| "jsMul (Fin x) PosInf = (if x = 0 then NaN else if 0 < x then PosInf else NegInf)"
| "jsMul (Fin x) NegInf = (if x = 0 then NaN else if 0 < x then NegInf else PosInf)"
| "jsMul PosInf PosInf = PosInf"
| "jsMul NegInf NegInf = PosInf"
| "jsMul PosInf NegInf = NegInf"
| "jsMul NegInf PosInf = NegInf"

fun jsAdd :: "jsnum \<Rightarrow> jsnum \<Rightarrow> jsnum" where
  "jsAdd (Fin x) (Fin y) = roundToDouble (x + y)"
| "jsAdd NaN b = NaN"
| "jsAdd a NaN = NaN"
| "jsAdd PosInf NegInf = NaN"
| "jsAdd NegInf PosInf = NaN"
| "jsAdd PosInf b = PosInf"
| "jsAdd NegInf b = NegInf"
| "jsAdd a PosInf = PosInf"
| "jsAdd a NegInf = NegInf"

subsection \<open>Day numbers and calendar fields (ECMAScript, Date objects)\<close>

definition msPerDay :: int where
  "msPerDay = 24 * 60 * 60 * 1000"

definition Day :: "int \<Rightarrow> int" where
  "Day t = t div msPerDay"

definition DayFromYear :: "int \<Rightarrow> int" where
  "DayFromYear y =
     365 * (y - 1970) + (y - 1969) div 4 - (y - 1901) div 100 + (y - 1601) div 400"

definition leapYear :: "int \<Rightarrow> bool" where
  "leapYear y = (y mod 4 = 0 \<and> (y mod 100 \<noteq> 0 \<or> y mod 400 = 0))"

text \<open>
  \<open>YearFromTime\<close> is the largest year whose first day is not after the given day. It is
  computed by a search upwards from a year that is not after the result.
\<close>

lemma year_step:
  fixes y a a' b b' c c' :: int
  assumes "a \<le> a'" "b' \<le> b + 1" "c \<le> c'"
  shows "365 * (y - 1970) + a - b + c < 365 * (y + 1 - 1970) + a' - b' + c'"
  using assms by arith

lemma DayFromYear_less_Suc: "DayFromYear y < DayFromYear (y + 1)"
proof -
  have a: "(y - 1969) div 4 \<le> (y + 1 - 1969) div 4"
    by (rule zdiv_mono1) simp_all
  have "(y + 1 - 1901) div 100 \<le> (y - 1901 + 100) div 100"
    by (rule zdiv_mono1) simp_all
  then have b: "(y + 1 - 1901) div 100 \<le> (y - 1901) div 100 + 1"
    by simp
  have c: "(y - 1601) div 400 \<le> (y + 1 - 1601) div 400"
    by (rule zdiv_mono1) simp_all
  show ?thesis
    unfolding DayFromYear_def by (rule year_step [OF a b c])
qed

function yearSearch :: "int \<Rightarrow> int \<Rightarrow> int" where
  "yearSearch d y = (if DayFromYear (y + 1) \<le> d then yearSearch d (y + 1) else y)"
  by pat_completeness auto
termination
proof (relation "measure (\<lambda>(d, y). nat (d + 1 - DayFromYear (y + 1)))")
  show "wf (measure (\<lambda>(d, y). nat (d + 1 - DayFromYear (y + 1))))"
    by simp
next
  fix d y :: int
  assume le: "DayFromYear (y + 1) \<le> d"
  from DayFromYear_less_Suc [of "y + 1"] le
  show "((d, y + 1), (d, y)) \<in> measure (\<lambda>(d, y). nat (d + 1 - DayFromYear (y + 1)))"
    by simp
qed

declare yearSearch.simps [simp del]

definition YearFromDay :: "int \<Rightarrow> int" where
  "YearFromDay d = yearSearch d (1970 + (if 0 \<le> d then d div 366 else d div 365))"

definition YearFromTime :: "int \<Rightarrow> int" where
  "YearFromTime t = YearFromDay (Day t)"

definition DayWithinYear :: "int \<Rightarrow> int" where
  "DayWithinYear t = Day t - DayFromYear (YearFromTime t)"

definition InLeapYear :: "int \<Rightarrow> int" where
  "InLeapYear t = (if leapYear (YearFromTime t) then 1 else 0)"

definition MonthFromTime :: "int \<Rightarrow> int" where
  "MonthFromTime t =
     (let d = DayWithinYear t; l = InLeapYear t in
      if d < 31 then 0
      else if d < 59 + l then 1
      else if d < 90 + l then 2
      else if d < 120 + l then 3
      else if d < 151 + l then 4
      else if d < 181 + l then 5
      else if d < 212 + l then 6
      else if d < 243 + l then 7
      else if d < 273 + l then 8
      else if d < 304 + l then 9
      else if d < 334 + l then 10
      else 11)"

definition DateFromTime :: "int \<Rightarrow> int" where
  "DateFromTime t =
     (let d = DayWithinYear t; l = InLeapYear t; m = MonthFromTime t in
      if m = 0 then d + 1
      else if m = 1 then d - 30
      else if m = 2 then d - 58 - l
      else if m = 3 then d - 89 - l
      else if m = 4 then d - 119 - l
      else if m = 5 then d - 150 - l
      else if m = 6 then d - 180 - l
      else if m = 7 then d - 211 - l
      else if m = 8 then d - 242 - l
      else if m = 9 then d - 272 - l
      else if m = 10 then d - 303 - l
      else d - 333 - l)"

text \<open>Number of days of the year before the first day of month \<open>mn\<close> (0-based).\<close>

definition monthStart :: "int \<Rightarrow> bool \<Rightarrow> int" where
  "monthStart mn leap =
     (let l = (if leap then 1 else 0) in
      if mn = 0 then 0
      else if mn = 1 then 31
      else if mn = 2 then 59 + l
      else if mn = 3 then 90 + l
      else if mn = 4 then 120 + l
      else if mn = 5 then 151 + l
      else if mn = 6 then 181 + l
      else if mn = 7 then 212 + l
      else if mn = 8 then 243 + l
      else if mn = 9 then 273 + l
      else if mn = 10 then 304 + l
      else 334 + l)"

text \<open>
  \<open>MakeDay\<close>: months beyond 0..11 carry into the year, and a day of the month beyond the
  month's length carries into the following months (no combination is rejected).
\<close>

definition MakeDay :: "int \<Rightarrow> int \<Rightarrow> int \<Rightarrow> int" where
  "MakeDay year month date =
     (let ym = year + month div 12; mn = month mod 12 in
      DayFromYear ym + monthStart mn (leapYear ym) + date - 1)"

definition MakeDate :: "int \<Rightarrow> int \<Rightarrow> int" where
  "MakeDate day time = day * msPerDay + time"

text \<open>
  \<open>LocalTZA(t, isUTC)\<close>, \<open>LocalTime(t)\<close> for an instant and \<open>UTC(t)\<close> for a local time. The
  examples use \<open>utc\<close>, the zone of offset 0, and \<open>formerLocalMeanTime\<close>, a zone like
  \<open>Asia/Shanghai\<close>: 8 h 5 min 43 s ahead of UTC until the end of 1900 and 8 h since.
\<close>

type_synonym zone = "int \<Rightarrow> bool \<Rightarrow> int"

definition LocalTime :: "zone \<Rightarrow> int \<Rightarrow> int" where
  "LocalTime tza t = t + tza t True"

definition UTC :: "zone \<Rightarrow> int \<Rightarrow> int" where
  "UTC tza t = t - tza t False"

definition utc :: zone where
  "utc = (\<lambda>t isUTC. 0)"


text \<open>\<open>TimeClip\<close>: out of range is invalid, otherwise the fraction of a millisecond is dropped.\<close>

definition truncateNumber :: "rat \<Rightarrow> int" where
  "truncateNumber x = (if 0 \<le> x then \<lfloor>x\<rfloor> else \<lceil>x\<rceil>)"

fun TimeClip :: "jsnum \<Rightarrow> jsdate" where
  "TimeClip (Fin x) =
     (if \<bar>x\<bar> > 8640000000000000 then InvalidDate else TimeValue (truncateNumber x))"
| "TimeClip NaN = InvalidDate"
| "TimeClip PosInf = InvalidDate"
| "TimeClip NegInf = InvalidDate"

text \<open>\<open>new Date(value)\<close> for a number.\<close>

definition newDateValue :: "jsnum \<Rightarrow> jsdate" where
  "newDateValue v = TimeClip v"

text \<open>\<open>new Date(year, month, day)\<close> for integers, in local time; years 0..99 mean 1900..1999.\<close>

definition newDate :: "zone \<Rightarrow> int \<Rightarrow> int \<Rightarrow> int \<Rightarrow> jsdate" where
  "newDate tza year month day =
     (let yr = (if 0 \<le> year \<and> year \<le> 99 then 1900 + year else year) in
      TimeClip (Fin (of_int (UTC tza (MakeDate (MakeDay yr month day) 0)))))"

fun getTime :: "jsdate \<Rightarrow> jsnum" where
  "getTime InvalidDate = NaN"
| "getTime (TimeValue t) = Fin (of_int t)"

text \<open>The local calendar fields; \<open>None\<close> stands for \<open>NaN\<close>.\<close>

fun getFullYear :: "zone \<Rightarrow> jsdate \<Rightarrow> int option" where
  "getFullYear tza InvalidDate = None"
| "getFullYear tza (TimeValue t) = Some (YearFromTime (LocalTime tza t))"

fun getMonth :: "zone \<Rightarrow> jsdate \<Rightarrow> int option" where
  "getMonth tza InvalidDate = None"
| "getMonth tza (TimeValue t) = Some (MonthFromTime (LocalTime tza t))"

fun getDate :: "zone \<Rightarrow> jsdate \<Rightarrow> int option" where
  "getDate tza InvalidDate = None"
| "getDate tza (TimeValue t) = Some (DateFromTime (LocalTime tza t))"

text \<open>\<open>a === b\<close> on numbers that may be \<open>NaN\<close>: \<open>NaN\<close> equals nothing, itself included.\<close>

definition strictEq :: "int option \<Rightarrow> int option \<Rightarrow> bool" where
  "strictEq a b = (a \<noteq> None \<and> a = b)"


subsection \<open>Texts\<close>

text \<open>
  \<open>String.prototype.trim\<close> removes white space and line terminators from both ends. Among
  the code units 0 to 255 these are the tab, line feed, vertical tab, form feed, carriage
  return, space and no-break space. The class \<open>\s\<close> of regular expressions is the same
  set.
\<close>

definition isWhiteSpace :: "char \<Rightarrow> bool" where
  "isWhiteSpace c =
     (c \<in> set [CHR 0x20, CHR 0x09, CHR 0x0A, CHR 0x0B, CHR 0x0C, CHR 0x0D, CHR 0xA0])"

definition trim :: "string \<Rightarrow> string" where
  "trim s = rev (dropWhile isWhiteSpace (rev (dropWhile isWhiteSpace s)))"

fun startsWith :: "string \<Rightarrow> string \<Rightarrow> bool" where
  "startsWith s [] = True"
| "startsWith [] (p # ps) = False"
| "startsWith (c # cs) (p # ps) = (c = p \<and> startsWith cs ps)"

fun includesText :: "string \<Rightarrow> string \<Rightarrow> bool" where
  "includesText [] sub = (sub = [])"
| "includesText (c # cs) sub = (startsWith (c # cs) sub \<or> includesText cs sub)"

definition isDigit :: "char \<Rightarrow> bool" where
  "isDigit c = (c \<in> set ''0123456789'')"

text \<open>
  \<open>parseInt\<close> is only applied to groups matched by \<open>\d{1,2}\<close> or \<open>\d{4}\<close>; on decimal
  digits it is the decimal value.
\<close>

definition digitValue :: "char \<Rightarrow> int" where
  "digitValue c = int (of_char c) - 48"

definition parseInt :: "string \<Rightarrow> int" where
  "parseInt s = foldl (\<lambda>acc c. 10 * acc + digitValue c) 0 s"

fun splitOn :: "char \<Rightarrow> string \<Rightarrow> string list" where
  "splitOn sep [] = [[]]"
| "splitOn sep (c # cs) =
     (if c = sep then [] # splitOn sep cs
      else (case splitOn sep cs of
              [] \<Rightarrow> [[c]]
            | part # parts \<Rightarrow> (c # part) # parts))"

section \<open>ExcelParser: date normalisation\<close>

text \<open>
  The three regular expressions of \<open>parseDate\<close>, in the order of the array
  \<open>datePatterns\<close>. \<open>patternSource\<close> is the text \<open>pattern.toString()\<close> returns, and
  \<open>regexMatch\<close> is \<open>trimmed.match(pattern)\<close>: the match array (whole match and the three
  groups) or \<open>None\<close> for \<open>null\<close>.
\<close>

datatype datePattern = SlashYearLast | HyphenYearFirst | HyphenYearLast

definition backslash :: char where
  "backslash = CHR 0x5C"

fun patternSource :: "datePattern \<Rightarrow> string" where
  "patternSource SlashYearLast =
     ''/^('' @ [backslash] @ ''d{1,2})'' @ [backslash] @ ''/('' @ [backslash] @ ''d{1,2})''
       @ [backslash] @ ''/('' @ [backslash] @ ''d{4})$/''"
| "patternSource HyphenYearFirst =
     ''/^('' @ [backslash] @ ''d{4})-('' @ [backslash] @ ''d{1,2})-('' @ [backslash]
       @ ''d{1,2})$/''"
| "patternSource HyphenYearLast =
     ''/^('' @ [backslash] @ ''d{1,2})-('' @ [backslash] @ ''d{1,2})-('' @ [backslash]
       @ ''d{4})$/''"

definition digits :: "nat \<Rightarrow> nat \<Rightarrow> string \<Rightarrow> bool" where
  "digits lo hi s = (lo \<le> length s \<and> length s \<le> hi \<and> list_all isDigit s)"

definition matchThree ::
  "char \<Rightarrow> (nat \<times> nat) \<Rightarrow> (nat \<times> nat) \<Rightarrow> (nat \<times> nat) \<Rightarrow> string \<Rightarrow> string list option" where
  "matchThree sep r1 r2 r3 s =
     (case splitOn sep s of
        [a, b, c] \<Rightarrow>
          if digits (fst r1) (snd r1) a \<and> digits (fst r2) (snd r2) b \<and> digits (fst r3) (snd r3) c
          then Some [s, a, b, c] else None
      | _ \<Rightarrow> None)"

fun regexMatch :: "datePattern \<Rightarrow> string \<Rightarrow> string list option" where
  "regexMatch SlashYearLast s = matchThree (CHR ''/'') (1, 2) (1, 2) (4, 4) s"
| "regexMatch HyphenYearFirst s = matchThree (CHR ''-'') (4, 4) (1, 2) (1, 2) s"
| "regexMatch HyphenYearLast s = matchThree (CHR ''-'') (1, 2) (1, 2) (4, 4) s"

definition datePatterns :: "datePattern list" where
  "datePatterns = [SlashYearLast, HyphenYearFirst, HyphenYearLast]"

text \<open>
  \<open>parseMatchedDate(match, pattern)\<close>. The first branch is guarded by
  \<open>patternStr.includes('YYYY') && patternStr.startsWith('/^(\\d{4})')\<close>. Nothing in the
  body throws on a match array, so the \<open>catch\<close> returning \<open>null\<close> is not reached and the
  result is always a \<open>Date\<close>.
\<close>

definition parseMatchedDate :: "zone \<Rightarrow> string list \<Rightarrow> datePattern \<Rightarrow> jsdate option" where
  "parseMatchedDate tza match pattern =
     (let patternStr = patternSource pattern in
      if includesText patternStr ''YYYY'' \<and> startsWith patternStr (''/^('' @ [backslash] @ ''d{4})'')
      then
        (let year = parseInt (match ! 1);
             month = parseInt (match ! 2) - 1;
             day = parseInt (match ! 3)
         in Some (newDate tza year month day))
      else
        (let first = parseInt (match ! 1);
             second = parseInt (match ! 2);
             year = parseInt (match ! 3)
         in if first > 12 then Some (newDate tza year (second - 1) first)
            else if second > 12 then Some (newDate tza year (first - 1) second)
            else Some (newDate tza year (first - 1) second)))"

text \<open>
  \<open>excelSerialToDate(serial)\<close>: the epoch is local midnight of 30 December 1899, taken with
  the offset the zone has for that local time; the product and the sum are those of
  doubles.
\<close>

definition excelSerialToDate :: "zone \<Rightarrow> jsnum \<Rightarrow> jsdate" where
  "excelSerialToDate tza serial =
     (let excelEpoch = newDate tza 1899 11 30;
          msPerDay' = Fin (of_int (24 * 60 * 60 * 1000))
      in newDateValue (jsAdd (getTime excelEpoch) (jsMul serial msPerDay')))"

text \<open>The loop of \<open>parseDate\<close> over \<open>datePatterns\<close>.\<close>

fun tryPatterns :: "zone \<Rightarrow> string \<Rightarrow> datePattern list \<Rightarrow> jsdate option" where
  "tryPatterns tza trimmed [] = None"
| "tryPatterns tza trimmed (pattern # rest) =
     (case regexMatch pattern trimmed of
        None \<Rightarrow> tryPatterns tza trimmed rest
      | Some match \<Rightarrow>
          (case parseMatchedDate tza match pattern of
             None \<Rightarrow> tryPatterns tza trimmed rest
           | Some date \<Rightarrow>
               if \<not> isNaN (getTime date) then Some date
               else tryPatterns tza trimmed rest))"

text \<open>
  \<open>parseDate(value)\<close>; \<open>None\<close> is \<open>null\<close>. \<open>dateParse\<close> is the host's \<open>new Date(text)\<close>,
  whose result on a text that is not in the ISO format is implementation-defined.
\<close>

definition parseDate :: "zone \<Rightarrow> (string \<Rightarrow> jsdate) \<Rightarrow> jsval \<Rightarrow> jsdate option" where
  "parseDate tza dateParse v =
     (if falsy v then None
      else case v of
        VDate d \<Rightarrow> if isNaN (getTime d) then None else Some d
      | VNum n \<Rightarrow>
          (let date = excelSerialToDate tza n in
           if isNaN (getTime date) then None else Some date)
      | VStr s \<Rightarrow>
          (let trimmed = trim s; parsed = dateParse trimmed in
           if \<not> isNaN (getTime parsed) then Some parsed
           else tryPatterns tza trimmed datePatterns)
      | _ \<Rightarrow> None)"


section \<open>Associate and DateMatcher\<close>

text \<open>
  An \<open>Associate\<close> object. The date of birth is kept as a value: \<open>findBirthdaysOnDate\<close>
  tests whether it is present and whether it is a \<open>Date\<close>. The elements of an array of
  associates are objects.
\<close>

record associate =
  name :: string
  dateOfBirth :: jsval
  rowNumber :: nat

text \<open>The callback given to \<open>associates.filter\<close> in \<open>findBirthdaysOnDate\<close>.\<close>

definition birthdayOn :: "zone \<Rightarrow> int option \<Rightarrow> int option \<Rightarrow> associate \<Rightarrow> bool" where
  "birthdayOn tza targetMonth targetDay a =
     (if falsy (dateOfBirth a) then False
      else case dateOfBirth a of
        VDate b \<Rightarrow> strictEq (getMonth tza b) targetMonth \<and> strictEq (getDate tza b) targetDay
      | _ \<Rightarrow> False)"

text \<open>
  \<open>findBirthdaysOnDate(associates, date)\<close>. The first argument is \<open>None\<close> when it is
  \<open>null\<close>, \<open>undefined\<close> or not an array.
\<close>

definition findBirthdaysOnDate :: "zone \<Rightarrow> associate list option \<Rightarrow> jsval \<Rightarrow> associate list" where
  "findBirthdaysOnDate tza associates date =
     (case associates of
        None \<Rightarrow> []
      | Some arr \<Rightarrow>
          (if falsy date then []
           else case date of
             VDate d \<Rightarrow>
               if isNaN (getTime d) then []
               else (let targetMonth = getMonth tza d; targetDay = getDate tza d
                     in filter (birthdayOn tza targetMonth targetDay) arr)
           | _ \<Rightarrow> []))"

text \<open>\<open>findBirthdaysToday(associates)\<close>; \<open>now\<close> is the time value of \<open>new Date()\<close>.\<close>

definition findBirthdaysToday :: "zone \<Rightarrow> int \<Rightarrow> associate list option \<Rightarrow> associate list" where
  "findBirthdaysToday tza now associates =
     (case associates of
        None \<Rightarrow> []
      | Some arr \<Rightarrow> findBirthdaysOnDate tza (Some arr) (VDate (TimeValue now)))"


section \<open>The surroundings of the services\<close>

text \<open>
  What the services read is a \<open>host\<close>: the process environment, the file system and the
  path functions, the clock, the time zone and the text-to-date parse, and the
  answers of the messaging endpoint (one per request, in the order the requests are
  made). What a run leaves behind is a \<open>trace\<close>: the requests posted and the pauses
  taken, the calls of \<open>sendBirthdayNotification\<close>, and the lines handed to the logger.
\<close>

record responseData =
  data_messageId :: "string option"
  data_id :: "string option"
  data_status :: "string option"

record errorData =
  data_message :: "string option"
  data_error :: "string option"

text \<open>
  What \<open>await axios.post(...)\<close> does: it resolves with a status and a body (\<open>None\<close> when
  the body is absent), or rejects with a response (\<open>error.response\<close>), without a response
  although the request was made (\<open>error.request\<close>), or before any request was made.
\<close>

datatype axiosOutcome =
    Resolved int "responseData option"
  | RejectedResponse int "errorData option"
  | RejectedNoResponse
  | RejectedSetup string

record httpRequest =
  req_url :: string
  req_to :: string
  req_from :: string
  req_message :: string
  req_authorization :: string
  req_timeout :: nat

text \<open>What happens on the network side of a run, in order: a request or a pause.\<close>

datatype event = Posted httpRequest | Slept nat

type_synonym row = "jsval list option"

type_synonym workbook = "(string \<times> row list) list"

record host =
  environment :: "string \<Rightarrow> string option"
  existsSync :: "string \<Rightarrow> bool"
  resolvePath :: "string \<Rightarrow> string"
  extname :: "string \<Rightarrow> string"
  readWorkbook :: "string \<Rightarrow> string + workbook"
  localTZA :: zone
  dateParser :: "string \<Rightarrow> jsdate"
  clock :: int
  responses :: "nat \<Rightarrow> axiosOutcome"

type_synonym logLine = "string \<times> string"

record trace =
  events :: "event list"
  notifications :: "associate list option list"
  logged :: "logLine list"

text \<open>Decimal text of a number, as a template literal inserts it.\<close>

fun showNat :: "nat \<Rightarrow> string" where
  "showNat n =
     (if n < 10 then [char_of (48 + n)]
      else showNat (n div 10) @ [char_of (48 + n mod 10)])"

declare showNat.simps [simp del]

definition showInt :: "int \<Rightarrow> string" where
  "showInt i = (if i < 0 then ''-'' @ showNat (nat (- i)) else showNat (nat i))"

text \<open>\<open>a || b\<close> on optional texts: an absent or empty text is falsy.\<close>

definition orElse :: "string option \<Rightarrow> string option \<Rightarrow> string option" where
  "orElse a b = (case a of Some s \<Rightarrow> (if s = [] then b else Some s) | None \<Rightarrow> b)"

definition newline :: char where
  "newline = CHR 0x0A"

definition apostrophe :: char where
  "apostrophe = CHR 0x27"

section \<open>SMSService\<close>

record smsService =
  apiUrl :: string
  apiKey :: string
  senderId :: string
  recipientNumber :: string

text \<open>The result of \<open>sendSMS\<close> when it returns.\<close>

record apiResult =
  api_messageId :: string
  api_status :: string

text \<open>
  The result object of \<open>sendBirthdayNotification\<close> and \<open>sendWithRetry\<close>; a property that
  the object literal does not set is \<open>None\<close>.
\<close>

record smsResult =
  success :: bool
  messageId :: "string option"
  error :: "string option"
  timestamp :: int
  attempts :: "nat option"

text \<open>The requests posted so far.\<close>

fun posted :: "event list \<Rightarrow> httpRequest list" where
  "posted [] = []"
| "posted (Posted r # es) = r # posted es"
| "posted (Slept ms # es) = posted es"

text \<open>The message of the \<open>TypeError\<close> raised by reading a property of an absent body.\<close>

definition typeErrorMessageId :: string where
  "typeErrorMessageId = ''Cannot read properties of undefined (reading '' @ [apostrophe]
     @ ''messageId'' @ [apostrophe] @ '')''"

text \<open>
  The part of \<open>sendSMS\<close> after the \<open>await\<close>: the \<open>try\<close> block on a resolved request and
  the \<open>catch\<close> block on a rejected one or on an error thrown by the \<open>try\<close> block itself.
  \<open>Inl\<close> is the message of the error thrown to the caller.
\<close>

definition errorText :: "errorData option \<Rightarrow> string" where
  "errorText body =
     (case orElse (case body of None \<Rightarrow> None | Some d \<Rightarrow> data_message d)
             (orElse (case body of None \<Rightarrow> None | Some d \<Rightarrow> data_error d)
                (Some ''Unknown error'')) of
        Some s \<Rightarrow> s | None \<Rightarrow> ''Unknown error'')"

definition catchSetup :: "string \<Rightarrow> string + apiResult" where
  "catchSetup message = Inl (''SMS sending failed: '' @ message)"

fun handleOutcome :: "axiosOutcome \<Rightarrow> string + apiResult" where
  "handleOutcome (Resolved status body) =
     (if status \<ge> 200 \<and> status < 300 then
        (case body of
           None \<Rightarrow> catchSetup typeErrorMessageId
         | Some d \<Rightarrow>
             Inr \<lparr>api_messageId =
                    (case orElse (data_messageId d) (orElse (data_id d) (Some ''unknown'')) of
                       Some s \<Rightarrow> s | None \<Rightarrow> ''unknown''),
                  api_status =
                    (case orElse (data_status d) (Some ''sent'') of
                       Some s \<Rightarrow> s | None \<Rightarrow> ''sent'')\<rparr>)
      else catchSetup (''SMS API returned status '' @ showInt status))"
| "handleOutcome (RejectedResponse status body) =
     (let message = errorText body
      in if status = 401 \<or> status = 403 then Inl (''Authentication failed: '' @ message)
         else if status = 400 then Inl (''Invalid request: '' @ message)
         else Inl (''API error ('' @ showInt status @ ''): '' @ message))"
| "handleOutcome RejectedNoResponse = Inl ''Network error: Unable to reach SMS API''"
| "handleOutcome (RejectedSetup message) = catchSetup message"

text \<open>\<open>sendSMS(message)\<close>: one request is posted and its outcome handled.\<close>

definition request :: "smsService \<Rightarrow> string \<Rightarrow> httpRequest" where
  "request svc message =
     \<lparr>req_url = apiUrl svc, req_to = recipientNumber svc, req_from = senderId svc,
      req_message = message, req_authorization = ''Bearer '' @ apiKey svc,
      req_timeout = 10000\<rparr>"

definition sendSMS ::
  "smsService \<Rightarrow> string \<Rightarrow> host \<Rightarrow> trace \<Rightarrow> trace \<times> (string + apiResult)" where
  "sendSMS svc message h tr =
     (let outcome = responses h (length (posted (events tr)));
          tr' = tr\<lparr>events := events tr @ [Posted (request svc message)]\<rparr>
      in (tr', handleOutcome outcome))"

text \<open>\<open>delay(ms)\<close>: the pause is recorded.\<close>

definition delay :: "nat \<Rightarrow> trace \<Rightarrow> trace" where
  "delay ms tr = tr\<lparr>events := events tr @ [Slept ms]\<rparr>"

text \<open>\<open>sendWithRetry(message, timestamp, attempt)\<close>, with \<open>maxAttempts = 3\<close>.\<close>

function sendWithRetry ::
  "smsService \<Rightarrow> string \<Rightarrow> int \<Rightarrow> nat \<Rightarrow> host \<Rightarrow> trace \<Rightarrow> trace \<times> smsResult" where
  "sendWithRetry svc message ts attempt h tr =
     (let maxAttempts = 3 in
      case sendSMS svc message h tr of
        (tr', Inr result) \<Rightarrow>
          (tr', \<lparr>success = True, messageId = Some (api_messageId result), error = None,
                 timestamp = ts, attempts = Some attempt\<rparr>)
      | (tr', Inl errorMessage) \<Rightarrow>
          if attempt \<ge> maxAttempts then
            (tr', \<lparr>success = False, messageId = None, error = Some errorMessage,
                   timestamp = ts, attempts = Some attempt\<rparr>)
          else
            (let delayMs = 2 ^ attempt * 1000 in
             sendWithRetry svc message ts (attempt + 1) h (delay delayMs tr')))"
  by pat_completeness auto
termination
  by (relation "measure (\<lambda>(svc, message, ts, attempt, h, tr). 3 - attempt)") auto

declare sendWithRetry.simps [simp del]

text \<open>\<open>formatMessage(associates)\<close>.\<close>

definition formatMessage :: "associate list option \<Rightarrow> string" where
  "formatMessage associates =
     (case associates of
        None \<Rightarrow> []
      | Some arr \<Rightarrow>
          if length arr = 0 then []
          else trim (foldl (\<lambda>message a. message @ ''- '' @ name a @ [newline])
                       (''Birthday Alert! Today'' @ [apostrophe] @ ''s birthdays:'' @ [newline])
                       arr))"

text \<open>\<open>sendBirthdayNotification(associates)\<close>; every call is recorded.\<close>

definition sendBirthdayNotification ::
  "smsService \<Rightarrow> associate list option \<Rightarrow> host \<Rightarrow> trace \<Rightarrow> trace \<times> smsResult" where
  "sendBirthdayNotification svc associates h tr0 =
     (let tr = tr0\<lparr>notifications := notifications tr0 @ [associates]\<rparr>;
          ts = clock h
      in if associates = None \<or> associates = Some [] then
           (tr, \<lparr>success = False, messageId = None,
                 error = Some ''No associates provided for notification'',
                 timestamp = ts, attempts = None\<rparr>)
         else
           (let message = formatMessage associates
            in sendWithRetry svc message ts 1 h tr))"

section \<open>ExcelParser: reading the rows of the first sheet\<close>

text \<open>
  A logger writes lines of a level and a message. A service without a logger writes
  nothing. The lines a method writes are returned in order and appended to the log of
  the run by \<open>logs\<close>.
\<close>

definition logIf :: "bool \<Rightarrow> string \<Rightarrow> string \<Rightarrow> logLine list" where
  "logIf hasLogger level message = (if hasLogger then [(level, message)] else [])"

definition logs :: "logLine list \<Rightarrow> trace \<Rightarrow> trace" where
  "logs lines tr = tr\<lparr>logged := logged tr @ lines\<rparr>"

record excelParser =
  parser_logger :: bool

text \<open>\<open>row[i]\<close>: beyond the end of the array it is \<open>undefined\<close>.\<close>

definition cell :: "jsval list \<Rightarrow> nat \<Rightarrow> jsval" where
  "cell cells i = (if i < length cells then cells ! i else VUndefined)"

text \<open>\<open>!name || typeof name !== 'string' || name.trim() === ''\<close>.\<close>

definition invalidName :: "jsval \<Rightarrow> bool" where
  "invalidName v = (falsy v \<or> (case v of VStr s \<Rightarrow> trim s = [] | _ \<Rightarrow> True))"

definition textOf :: "jsval \<Rightarrow> string" where
  "textOf v = (case v of VStr s \<Rightarrow> s | _ \<Rightarrow> [])"

definition doubleQuote :: char where
  "doubleQuote = CHR 0x22"

text \<open>
  The local variables of the loop of \<open>parseFile\<close>: the associates collected so far and the
  two counters.
\<close>

record ingestion =
  collected :: "associate list"
  validRows :: nat
  skippedRows :: nat

text \<open>
  The body of the loop for the row at index \<open>i\<close>: the new values of the local variables
  and the lines written.
\<close>

definition parseRow ::
  "zone \<Rightarrow> (string \<Rightarrow> jsdate) \<Rightarrow> excelParser \<Rightarrow> nat \<Rightarrow> row \<Rightarrow> ingestion
     \<Rightarrow> ingestion \<times> logLine list" where
  "parseRow tza hostParse parser i row acc =
     (let rowNumber = i + 1 in
      case row of
        None \<Rightarrow> (acc, [])
      | Some cells \<Rightarrow>
          if length cells = 0 \<or> (length cells = 1 \<and> falsy (cell cells 0)) then (acc, [])
          else
            (let nameCell = cell cells 0; dobValue = cell cells 1 in
             if invalidName nameCell then
               (acc\<lparr>skippedRows := skippedRows acc + 1\<rparr>,
                logIf (parser_logger parser) ''WARN''
                  (''Row '' @ showNat rowNumber @ '': Missing or invalid name, skipping row''))
             else
               (case parseDate tza hostParse dobValue of
                  None \<Rightarrow>
                    (acc\<lparr>skippedRows := skippedRows acc + 1\<rparr>,
                     logIf (parser_logger parser) ''WARN''
                       (''Row '' @ showNat rowNumber @ '': Invalid or missing date of birth for ''
                          @ [doubleQuote] @ textOf nameCell @ [doubleQuote] @ '', skipping row''))
                | Some date \<Rightarrow>
                    (acc\<lparr>collected := collected acc
                            @ [\<lparr>name = trim (textOf nameCell), dateOfBirth = VDate date,
                                 rowNumber = rowNumber\<rparr>],
                          validRows := validRows acc + 1\<rparr>,
                     []))))"

fun parseRows ::
  "zone \<Rightarrow> (string \<Rightarrow> jsdate) \<Rightarrow> excelParser \<Rightarrow> nat \<Rightarrow> row list \<Rightarrow> ingestion
     \<Rightarrow> ingestion \<times> logLine list" where
  "parseRows tza hostParse parser i [] acc = (acc, [])"
| "parseRows tza hostParse parser i (row # rows) acc =
     (case parseRow tza hostParse parser i row acc of
        (acc', lines) \<Rightarrow>
          (case parseRows tza hostParse parser (i + 1) rows acc' of
             (acc'', lines') \<Rightarrow> (acc'', lines @ lines')))"

text \<open>
  \<open>toLowerCase\<close> on the code units 0 to 255: the letters A to Z and the accented capitals
  (192 to 222 without the multiplication sign 215) move 32 places up.
\<close>

definition toLowerCase :: "string \<Rightarrow> string" where
  "toLowerCase s =
     map (\<lambda>c. let n = (of_char c :: nat)
              in if (65 \<le> n \<and> n \<le> 90) \<or> (192 \<le> n \<and> n \<le> 222 \<and> n \<noteq> 215)
                 then char_of (n + 32) else c) s"

text \<open>
  \<open>parseFile(filePath)\<close>: the lines written and either the message of the error thrown
  (\<open>Inl\<close>) or the associates. \<open>readWorkbook\<close> stands for \<open>xlsx.readFile\<close> followed by
  \<open>sheet_to_json\<close> with the options \<open>header: 1, raw: false\<close>; it returns the sheets in
  order, each with its name and rows, or the message of the error it throws. Only the
  first sheet is read. With \<open>raw: false\<close> the library hands over the cells as formatted
  texts; the model lets a cell be any value.
\<close>

definition parseFileTry ::
  "excelParser \<Rightarrow> string \<Rightarrow> host \<Rightarrow> logLine list \<times> (string + associate list)" where
  "parseFileTry parser filePath h =
     (let lg = parser_logger parser; resolvedPath = resolvePath h filePath in
      if \<not> existsSync h resolvedPath then
        ([], Inl (''Excel file not found at path: '' @ filePath))
      else
        (let ext = toLowerCase (extname h resolvedPath) in
         if ext \<noteq> ''.xlsx'' \<and> ext \<noteq> ''.xls'' then
           ([], Inl (''Invalid file format: '' @ ext @ ''. Expected .xlsx or .xls''))
         else
           (let l1 = logIf lg ''INFO'' (''Reading Excel file: '' @ filePath) in
            case readWorkbook h resolvedPath of
              Inl message \<Rightarrow> (l1, Inl message)
            | Inr [] \<Rightarrow> (l1, Inl ''Excel file contains no worksheets'')
            | Inr ((firstSheetName, rows) # others) \<Rightarrow>
                if firstSheetName = [] then (l1, Inl ''Excel file contains no worksheets'')
                else
                  (let l2 = logIf lg ''INFO'' (''Processing worksheet: '' @ firstSheetName) in
                   case parseRows (localTZA h) (dateParser h) parser 0 rows
                          \<lparr>collected = [], validRows = 0, skippedRows = 0\<rparr> of
                     (acc, lines) \<Rightarrow>
                       (l1 @ l2 @ lines
                          @ logIf lg ''INFO''
                              (''Parsing complete: '' @ showNat (validRows acc)
                                 @ '' valid associates, '' @ showNat (skippedRows acc)
                                 @ '' rows skipped''),
                        Inr (collected acc))))))"

definition parseFile ::
  "excelParser \<Rightarrow> string \<Rightarrow> host \<Rightarrow> logLine list \<times> (string + associate list)" where
  "parseFile parser filePath h =
     (case parseFileTry parser filePath h of
        (lines, Inr associates) \<Rightarrow> (lines, Inr associates)
      | (lines, Inl message) \<Rightarrow>
          if includesText message ''Excel file not found''
             \<or> includesText message ''Invalid file format''
             \<or> includesText message ''no worksheets''
          then (lines, Inl message)
          else (lines, Inl (''Failed to parse Excel file: '' @ message)))"


section \<open>Configuration\<close>

record configuration =
  excelFilePath :: string
  recipientMobileNumber :: string
  smsApiUrl :: string
  smsApiKey :: string
  smsSenderId :: string
  scheduledTime :: string
  logLevel :: string
  logFilePath :: string

text \<open>\<open>process.env.NAME || fallback\<close>.\<close>

definition envOr :: "host \<Rightarrow> string \<Rightarrow> string \<Rightarrow> string" where
  "envOr h var fallback =
     (case environment h var of
        None \<Rightarrow> fallback
      | Some s \<Rightarrow> if s = [] then fallback else s)"

definition loadFromEnvironment :: "host \<Rightarrow> configuration" where
  "loadFromEnvironment h =
     \<lparr>excelFilePath = envOr h ''EXCEL_FILE_PATH'' [],
      recipientMobileNumber = envOr h ''RECIPIENT_MOBILE_NUMBER'' [],
      smsApiUrl = envOr h ''SMS_API_URL'' [],
      smsApiKey = envOr h ''SMS_API_KEY'' [],
      smsSenderId = envOr h ''SMS_SENDER_ID'' [],
      scheduledTime = envOr h ''SCHEDULED_TIME'' ''09:00'',
      logLevel = envOr h ''LOG_LEVEL'' ''INFO'',
      logFilePath = envOr h ''LOG_FILE_PATH'' ''./logs/birthday-system.log''\<rparr>"

text \<open>
  \<open>validateMobileNumber\<close>: white space and hyphens are removed, then the text must be
  \<open>+\<close> followed by 10 to 15 digits.
\<close>

definition validateMobileNumber :: "string \<Rightarrow> bool" where
  "validateMobileNumber mobileNumber =
     (if mobileNumber = [] then False
      else (case filter (\<lambda>c. \<not> isWhiteSpace c \<and> c \<noteq> CHR ''-'') mobileNumber of
              [] \<Rightarrow> False
            | c # ds \<Rightarrow> c = CHR ''+'' \<and> digits 10 15 ds))"

definition validateFilePath :: "host \<Rightarrow> string \<Rightarrow> bool" where
  "validateFilePath h filePath =
     (if filePath = [] then False else existsSync h (resolvePath h filePath))"

text \<open>\<open>validateScheduledTime\<close>: the pattern \<open>^([0-1]?[0-9]|2[0-3]):[0-5][0-9]$\<close>.\<close>

definition hourText :: "string \<Rightarrow> bool" where
  "hourText h =
     (case h of
        [a] \<Rightarrow> isDigit a
      | [a, b] \<Rightarrow> (a \<in> set ''01'' \<and> isDigit b) \<or> (a = CHR ''2'' \<and> b \<in> set ''0123'')
      | _ \<Rightarrow> False)"

definition minuteText :: "string \<Rightarrow> bool" where
  "minuteText m = (case m of [a, b] \<Rightarrow> a \<in> set ''012345'' \<and> isDigit b | _ \<Rightarrow> False)"

definition validateScheduledTime :: "string \<Rightarrow> bool" where
  "validateScheduledTime time =
     (if time = [] then False
      else (case splitOn (CHR '':'') time of
              [h, m] \<Rightarrow> hourText h \<and> minuteText m
            | _ \<Rightarrow> False))"

text \<open>\<open>validate()\<close>: the list \<open>errors\<close>; the configuration is valid when it is empty.\<close>

definition validate :: "host \<Rightarrow> configuration \<Rightarrow> string list" where
  "validate h cfg =
     (if excelFilePath cfg = [] then [''Excel file path is required (EXCEL_FILE_PATH)'']
      else if \<not> validateFilePath h (excelFilePath cfg)
        then [''Excel file not found at path: '' @ excelFilePath cfg]
      else [])
     @ (if recipientMobileNumber cfg = []
          then [''Recipient mobile number is required (RECIPIENT_MOBILE_NUMBER)'']
        else if \<not> validateMobileNumber (recipientMobileNumber cfg)
          then [''Recipient mobile number format is invalid. Expected format: +[country code][number] (e.g., +1234567890)'']
        else [])
     @ (if smsApiUrl cfg = [] then [''SMS API URL is required (SMS_API_URL)''] else [])
     @ (if smsApiKey cfg = [] then [''SMS API key is required (SMS_API_KEY)''] else [])
     @ (if smsSenderId cfg = [] then [''SMS sender ID is required (SMS_SENDER_ID)''] else [])
     @ (if \<not> validateScheduledTime (scheduledTime cfg)
          then [''Scheduled time format is invalid. Expected format: HH:MM (e.g., 09:00)'']
        else [])"

definition maskMobileNumber :: "string \<Rightarrow> string" where
  "maskMobileNumber mobileNumber =
     (if mobileNumber = [] \<or> length mobileNumber < 4 then ''****''
      else take 3 mobileNumber @ ''****'' @ drop (length mobileNumber - 2) mobileNumber)"

text \<open>\<open>errors.map(err => `  - ${err}`).join('\n')\<close>.\<close>

fun joinLines :: "string list \<Rightarrow> string" where
  "joinLines [] = []"
| "joinLines [x] = x"
| "joinLines (x # y # ys) = x @ [newline] @ joinLines (y # ys)"

definition bulletLines :: "string list \<Rightarrow> string" where
  "bulletLines errs = joinLines (map (\<lambda>err. ''  - '' @ err) errs)"

text \<open>The constructor of \<open>SMSService\<close> with its \<open>validateConfiguration\<close>.\<close>

definition newSMSService :: "configuration \<Rightarrow> string + smsService" where
  "newSMSService cfg =
     (let errs =
        (if smsApiUrl cfg = [] then [''SMS API URL is required''] else [])
        @ (if smsApiKey cfg = [] then [''SMS API key is required''] else [])
        @ (if smsSenderId cfg = [] then [''SMS sender ID is required''] else [])
        @ (if recipientMobileNumber cfg = [] then [''Recipient mobile number is required'']
           else [])
      in if length errs > 0 then
           Inl (''SMS Service configuration validation failed:'' @ [newline] @ bulletLines errs)
         else
           Inr \<lparr>apiUrl = smsApiUrl cfg, apiKey = smsApiKey cfg, senderId = smsSenderId cfg,
                recipientNumber = recipientMobileNumber cfg\<rparr>)"

text \<open>\<open>Date.prototype.toISOString\<close> of a valid date.\<close>

definition padZero :: "nat \<Rightarrow> string \<Rightarrow> string" where
  "padZero n s = replicate (n - length s) (CHR ''0'') @ s"

definition toISOString :: "int \<Rightarrow> string" where
  "toISOString t =
     (let y = YearFromTime t;
          yearText = (if 0 \<le> y \<and> y \<le> 9999 then padZero 4 (showNat (nat y))
                      else (if y < 0 then ''-'' else ''+'') @ padZero 6 (showNat (nat \<bar>y\<bar>)))
      in yearText @ ''-'' @ padZero 2 (showNat (nat (MonthFromTime t + 1)))
           @ ''-'' @ padZero 2 (showNat (nat (DateFromTime t)))
           @ ''T'' @ padZero 2 (showNat (nat ((t div 3600000) mod 24)))
           @ '':'' @ padZero 2 (showNat (nat ((t div 60000) mod 60)))
           @ '':'' @ padZero 2 (showNat (nat ((t div 1000) mod 60)))
           @ ''.'' @ padZero 3 (showNat (nat (t mod 1000))) @ ''Z'')"

section \<open>BirthdayCheckService\<close>

text \<open>
  The fields of the service; a component that has not been created is \<open>None\<close> (or
  \<open>False\<close> for the date matcher, which has no fields of its own). The logger given
  to the constructor is absent (\<open>False\<close>) or a \<open>Logger\<close> of the repository
  (\<open>True\<close>): its \<open>log\<close> sanitises and formats the message, prints it and appends it to
  a file inside a \<open>try\<close> whose \<open>catch\<close> only prints, so it returns for every level and
  message. The lines handed to it are what the trace records.
\<close>

record birthdayCheckService =
  logger :: bool
  config :: "configuration option"
  excelParser :: "excelParser option"
  dateMatcher :: bool
  smsService :: "smsService option"

record checkResult =
  totalAssociatesChecked :: nat
  birthdaysFound :: "associate list"
  notificationSent :: bool
  errors :: "string list"

text \<open>The message of the \<open>TypeError\<close> raised by calling a method of \<open>null\<close>.\<close>

definition typeErrorNull :: "string \<Rightarrow> string" where
  "typeErrorNull property =
     ''Cannot read properties of null (reading '' @ [apostrophe] @ property @ [apostrophe]
       @ '')''"

text \<open>
  \<open>initialize()\<close>: the service afterwards, the lines written, and \<open>Inl\<close> with the
  message of the error thrown or \<open>Inr\<close> on return. The configuration is stored before
  it is validated.
\<close>

definition initialize ::
  "birthdayCheckService \<Rightarrow> host \<Rightarrow> birthdayCheckService \<times> logLine list \<times> (string + unit)" where
  "initialize svc h =
     (let lg = logger svc;
          l1 = logIf lg ''INFO'' ''Initializing Birthday Check Service...'';
          cfg = loadFromEnvironment h;
          svc1 = svc\<lparr>config := Some cfg\<rparr>;
          validation = validate h cfg
      in if validation \<noteq> [] then
           (let errorMessage = ''Configuration validation failed:'' @ [newline]
                                 @ bulletLines validation
            in (svc1,
                l1 @ logIf lg ''ERROR'' errorMessage
                   @ logIf lg ''ERROR'' (''Initialization failed: '' @ errorMessage),
                Inl errorMessage))
         else
           (let l2 = logIf lg ''INFO'' ''Configuration loaded and validated successfully'';
                svc2 = svc1\<lparr>excelParser := Some \<lparr>parser_logger = lg\<rparr>, dateMatcher := True\<rparr>
            in case newSMSService cfg of
                 Inl message \<Rightarrow>
                   (svc2, l1 @ l2 @ logIf lg ''ERROR'' (''Initialization failed: '' @ message),
                    Inl message)
               | Inr sms \<Rightarrow>
                   (svc2\<lparr>smsService := Some sms\<rparr>,
                    l1 @ l2 @ logIf lg ''INFO'' ''All components initialized successfully'',
                    Inr ())))"

text \<open>Step 1 of \<open>performDailyCheck\<close>: \<open>if (!this.config) await this.initialize()\<close>.\<close>

definition ensureInitialized ::
  "birthdayCheckService \<Rightarrow> host \<Rightarrow> birthdayCheckService \<times> logLine list \<times> (string + unit)" where
  "ensureInitialized svc h =
     (if config svc = None then initialize svc h else (svc, [], Inr ()))"

text \<open>
  Step 2: the call of \<open>parseFile\<close> inside its \<open>try\<close>; \<open>Inl\<close> is the message of the error
  that the \<open>catch\<close> of step 2 receives.
\<close>

definition loadAssociates ::
  "birthdayCheckService \<Rightarrow> configuration \<Rightarrow> host \<Rightarrow> logLine list \<times> (string + associate list)" where
  "loadAssociates svc cfg h =
     (let lg = logger svc;
          l1 = logIf lg ''INFO'' (''Loading associate data from: '' @ excelFilePath cfg)
      in case excelParser svc of
           None \<Rightarrow> (l1, Inl (typeErrorNull ''parseFile''))
         | Some parser \<Rightarrow>
             (case parseFile parser (excelFilePath cfg) h of
                (lines, Inl message) \<Rightarrow> (l1 @ lines, Inl message)
              | (lines, Inr associates) \<Rightarrow>
                  (l1 @ lines
                     @ logIf lg ''INFO''
                         (''Successfully loaded '' @ showNat (length associates)
                            @ '' associates''),
                   Inr associates)))"

text \<open>Step 3: the call of \<open>findBirthdaysToday\<close> inside its \<open>try\<close>.\<close>

definition matchBirthdays ::
  "birthdayCheckService \<Rightarrow> associate list \<Rightarrow> host \<Rightarrow> logLine list \<times> (string + associate list)" where
  "matchBirthdays svc associates h =
     (let lg = logger svc;
          l1 = logIf lg ''INFO'' ''Checking for birthdays today...''
      in if \<not> dateMatcher svc then (l1, Inl (typeErrorNull ''findBirthdaysToday''))
         else
           (let found = findBirthdaysToday (localTZA h) (clock h) (Some associates) in
            if length found > 0 then
              (l1 @ logIf lg ''INFO''
                      (''Found '' @ showNat (length found) @ '' birthday(s) today:'')
                  @ concat (map (\<lambda>a. logIf lg ''INFO'' (''  - '' @ name a)) found),
               Inr found)
            else (l1 @ logIf lg ''INFO'' ''No birthdays found today'', Inr found)))"

text \<open>
  Step 4, entered only with at least one birthday: the trace afterwards, the new value of
  \<open>notificationSent\<close> and the messages pushed to \<open>errors\<close>.
\<close>

definition deliver ::
  "birthdayCheckService \<Rightarrow> configuration \<Rightarrow> associate list \<Rightarrow> host \<Rightarrow> trace
     \<Rightarrow> trace \<times> bool \<times> string list" where
  "deliver svc cfg found h tr =
     (let lg = logger svc;
          tr1 = logs (logIf lg ''INFO'' ''Sending birthday notification SMS...'') tr
      in case smsService svc of
           None \<Rightarrow>
             (let errorMsg = ''Failed to send SMS notification: ''
                               @ typeErrorNull ''sendBirthdayNotification''
              in (logs (logIf lg ''ERROR'' errorMsg) tr1, False, [errorMsg]))
         | Some sms \<Rightarrow>
             (case sendBirthdayNotification sms (Some found) h tr1 of
                (tr2, smsResult) \<Rightarrow>
                  if success smsResult then
                    (logs
                       (logIf lg ''INFO''
                          (''SMS notification sent successfully to ''
                             @ maskMobileNumber (recipientMobileNumber cfg) @ '' at ''
                             @ toISOString (timestamp smsResult))
                        @ (case messageId smsResult of
                             None \<Rightarrow> []
                           | Some i \<Rightarrow>
                               if i = [] then [] else logIf lg ''INFO'' (''Message ID: '' @ i))
                        @ (case attempts smsResult of
                             None \<Rightarrow> []
                           | Some n \<Rightarrow>
                               if n > 1 then
                                 logIf lg ''INFO''
                                   (''Delivery succeeded after '' @ showNat n @ '' attempt(s)'')
                               else []))
                       tr2,
                     True, [])
                  else
                    (let errorMsg = ''SMS notification failed: ''
                                      @ (case error smsResult of
                                           None \<Rightarrow> ''undefined'' | Some e \<Rightarrow> e)
                     in (logs
                           (logIf lg ''ERROR'' errorMsg
                            @ (case attempts smsResult of
                                 None \<Rightarrow> []
                               | Some n \<Rightarrow>
                                   if n \<noteq> 0 then
                                     logIf lg ''ERROR''
                                       (''Failed after '' @ showNat n @ '' attempt(s)'')
                                   else []))
                           tr2,
                         False, [errorMsg]))))"

text \<open>Step 5 and the final \<open>return\<close>.\<close>

definition summarize ::
  "birthdayCheckService \<Rightarrow> associate list \<Rightarrow> associate list \<Rightarrow> bool \<Rightarrow> string list
     \<Rightarrow> logLine list \<times> checkResult" where
  "summarize svc associates found sent errs =
     (let lg = logger svc in
      (logIf lg ''INFO'' ''=== Daily Birthday Check Complete ===''
       @ logIf lg ''INFO'' (''Total associates checked: '' @ showNat (length associates))
       @ logIf lg ''INFO'' (''Birthdays found: '' @ showNat (length found))
       @ logIf lg ''INFO'' (''Notification sent: '' @ (if sent then ''Yes'' else ''No''))
       @ (if length errs > 0
          then logIf lg ''WARN'' (''Errors encountered: '' @ showNat (length errs))
          else []),
       \<lparr>totalAssociatesChecked = length associates, birthdaysFound = found,
        notificationSent = sent, errors = errs\<rparr>))"

text \<open>
  The outer \<open>catch\<close> of \<open>performDailyCheck\<close>, with the values the local variables
  \<open>associates\<close>, \<open>birthdaysFound\<close>, \<open>notificationSent\<close> and \<open>errors\<close> have when the error is
  caught.
\<close>

definition catchUnexpected ::
  "bool \<Rightarrow> string \<Rightarrow> associate list \<Rightarrow> associate list \<Rightarrow> bool \<Rightarrow> string list
     \<Rightarrow> logLine list \<times> checkResult" where
  "catchUnexpected lg message associates found sent errs =
     (let errorMsg = ''Unexpected error during birthday check: '' @ message in
      (logIf lg ''ERROR'' errorMsg,
       \<lparr>totalAssociatesChecked = length associates, birthdaysFound = found,
        notificationSent = sent, errors = errs @ [errorMsg]\<rparr>))"

text \<open>
  \<open>performDailyCheck()\<close>: the service and the trace afterwards, and \<open>Inr\<close> with the
  object returned, or \<open>Inl\<close> with the message of an error that leaves the method. The
  outer \<open>catch\<close> is reached from step 1 and from reading the path of an absent
  configuration, where the local variables still have their initial values; the errors
  of steps 2 to 4 are caught by the \<open>catch\<close> of their own step.
\<close>

definition performDailyCheck ::
  "birthdayCheckService \<Rightarrow> host \<Rightarrow> trace
     \<Rightarrow> birthdayCheckService \<times> trace \<times> (string + checkResult)" where
  "performDailyCheck svc h tr0 =
     (let lg = logger svc;
          tr = logs (logIf lg ''INFO'' ''=== Starting Daily Birthday Check ==='') tr0;
          unexpected = (\<lambda>svc' tr' message.
            (case catchUnexpected lg message [] [] False [] of
               (lines, result) \<Rightarrow> (svc', logs lines tr', Inr result)))
      in case ensureInitialized svc h of
           (svc1, l1, Inl message) \<Rightarrow> unexpected svc1 (logs l1 tr) message
         | (svc1, l1, Inr u) \<Rightarrow>
             (case config svc1 of
                None \<Rightarrow> unexpected svc1 (logs l1 tr) (typeErrorNull ''excelFilePath'')
              | Some cfg \<Rightarrow>
                  (case loadAssociates svc1 cfg h of
                     (l2, Inl message) \<Rightarrow>
                       (let errorMsg = ''Failed to parse Excel file: '' @ message in
                        (svc1, logs (l1 @ l2 @ logIf lg ''ERROR'' errorMsg) tr,
                         Inr \<lparr>totalAssociatesChecked = 0, birthdaysFound = [],
                              notificationSent = False, errors = [errorMsg]\<rparr>))
                   | (l2, Inr associates) \<Rightarrow>
                       (case matchBirthdays svc1 associates h of
                          (l3, Inl message) \<Rightarrow>
                            (let errorMsg = ''Failed to match birthdays: '' @ message in
                             (svc1, logs (l1 @ l2 @ l3 @ logIf lg ''ERROR'' errorMsg) tr,
                              Inr \<lparr>totalAssociatesChecked = length associates,
                                   birthdaysFound = [], notificationSent = False,
                                   errors = [errorMsg]\<rparr>))
                        | (l3, Inr found) \<Rightarrow>
                            (case (if length found > 0
                                   then deliver svc1 cfg found h (logs (l1 @ l2 @ l3) tr)
                                   else (logs (l1 @ l2 @ l3) tr, False, [])) of
                               (tr4, sent, errs) \<Rightarrow>
                                 (case summarize svc1 associates found sent errs of
                                    (l5, result) \<Rightarrow> (svc1, logs l5 tr4, Inr result)))))))"

section \<open>Facts about the calendar functions\<close>

text \<open>
  The year computed by \<open>YearFromDay\<close> is the one the language definition asks for: the
  year whose first day is not after the given day and whose successor's first day is.
\<close>

lemma div_succ:
  fixes a k :: int
  assumes k: "0 < k"
  shows "(a + 1) div k = a div k + (if (a + 1) mod k = 0 then 1 else 0)"
proof (cases "a mod k + 1 < k")
  case True
  have r: "0 \<le> a mod k" using k by simp
  have eq: "a + 1 = k * (a div k) + (a mod k + 1)" by simp
  have d: "(a + 1) div k = a div k"
    by (rule int_div_pos_eq [OF eq]) (use r True in simp_all)
  have m: "(a + 1) mod k = a mod k + 1"
    by (rule int_mod_pos_eq [OF eq]) (use r True in simp_all)
  show ?thesis using d m r by simp
next
  case False
  have r: "a mod k < k" using k by simp
  with False have rk: "a mod k + 1 = k" by simp
  have "a + 1 = k * (a div k) + (a mod k + 1)" by simp
  also have "\<dots> = k * (a div k) + k" by (simp only: rk)
  also have "\<dots> = k * (a div k + 1) + 0" by (simp add: algebra_simps)
  finally have eq: "a + 1 = k * (a div k + 1) + 0" .
  have d: "(a + 1) div k = a div k + 1"
    by (rule int_div_pos_eq [OF eq]) (use k in simp_all)
  have m: "(a + 1) mod k = 0"
    by (rule int_mod_pos_eq [OF eq]) (use k in simp_all)
  show ?thesis using d m by simp
qed


lemma mod_shift4: "((y::int) - 1968) mod 4 = y mod 4"
proof -
  have "(y - 1968) mod 4 = (y + 4 * (-492)) mod 4" by simp
  also have "\<dots> = y mod 4" by (rule mod_mult_self2)
  finally show ?thesis .
qed

lemma mod_shift100: "((y::int) - 1900) mod 100 = y mod 100"
proof -
  have "(y - 1900) mod 100 = (y + 100 * (-19)) mod 100" by simp
  also have "\<dots> = y mod 100" by (rule mod_mult_self2)
  finally show ?thesis .
qed

lemma mod_shift400: "((y::int) - 1600) mod 400 = y mod 400"
proof -
  have "(y - 1600) mod 400 = (y + 400 * (-4)) mod 400" by simp
  also have "\<dots> = y mod 400" by (rule mod_mult_self2)
  finally show ?thesis .
qed

lemma leap_count:
  fixes P4 P100 P400 :: bool
  assumes "P400 \<Longrightarrow> P100" "P100 \<Longrightarrow> P4"
  shows "(365::int) + (if P4 then 1 else 0) - (if P100 then 1 else 0) + (if P400 then 1 else 0)
           = (if P4 \<and> (\<not> P100 \<or> P400) then 366 else 365)"
proof (cases P400)
  case True
  with assms have "P100" "P4" by blast+
  with True show ?thesis by simp
next
  case n400: False
  show ?thesis
  proof (cases P100)
    case True
    with assms have "P4" by blast
    with True n400 show ?thesis by simp
  next
    case False
    with n400 show ?thesis by simp
  qed
qed

lemma sum_step:
  fixes y A B C i j k :: int
  shows "365 * (y + 1 - 1970) + (A + i) - (B + j) + (C + k)
           = (365 * (y - 1970) + A - B + C) + (365 + i - j + k)"
  by simp


lemma DayFromYear_Suc:
  "DayFromYear (y + 1) = DayFromYear y + (if leapYear y then 366 else 365)"
proof -
  have a: "(y + 1 - 1969) div 4 = (y - 1969) div 4 + (if y mod 4 = 0 then 1 else 0)"
  proof -
    have "y + 1 - 1969 = (y - 1969) + 1" "y - 1969 + 1 = y - 1968" by simp_all
    then show ?thesis using div_succ [of 4 "y - 1969"] mod_shift4 [of y] by simp
  qed
  have b: "(y + 1 - 1901) div 100 = (y - 1901) div 100 + (if y mod 100 = 0 then 1 else 0)"
  proof -
    have "y + 1 - 1901 = (y - 1901) + 1" "y - 1901 + 1 = y - 1900" by simp_all
    then show ?thesis using div_succ [of 100 "y - 1901"] mod_shift100 [of y] by simp
  qed
  have c: "(y + 1 - 1601) div 400 = (y - 1601) div 400 + (if y mod 400 = 0 then 1 else 0)"
  proof -
    have "y + 1 - 1601 = (y - 1601) + 1" "y - 1601 + 1 = y - 1600" by simp_all
    then show ?thesis using div_succ [of 400 "y - 1601"] mod_shift400 [of y] by simp
  qed
  have d: "y mod 400 = 0 \<Longrightarrow> y mod 100 = 0"
    using mod_mod_cancel [of 100 400 y] by simp
  have e: "y mod 100 = 0 \<Longrightarrow> y mod 4 = 0"
    using mod_mod_cancel [of 4 100 y] by simp
  have "DayFromYear (y + 1) = DayFromYear y +
      (365 + (if y mod 4 = 0 then 1 else 0) - (if y mod 100 = 0 then 1 else 0)
           + (if y mod 400 = 0 then 1 else 0))"
    unfolding DayFromYear_def a b c by (rule sum_step)
  also have "365 + (if y mod 4 = 0 then 1 else 0) - (if y mod 100 = 0 then 1 else 0)
           + (if y mod 400 = 0 then 1 else 0) = (if leapYear y then 366 else (365::int))"
    unfolding leapYear_def by (rule leap_count [OF d e])
  finally show ?thesis .
qed


lemma DayFromYear_mono: "y \<le> y' \<Longrightarrow> DayFromYear y \<le> DayFromYear y'"
proof (induction y' rule: int_ge_induct)
  case base
  show ?case by simp
next
  case (step i)
  from step.IH DayFromYear_less_Suc [of i] show ?case by simp
qed

lemma DayFromYear_strict: "y < y' \<Longrightarrow> DayFromYear y < DayFromYear y'"
  using DayFromYear_mono [of "y + 1" y'] DayFromYear_less_Suc [of y] by simp

lemma yearSearch_bounds:
  "DayFromYear y \<le> d \<Longrightarrow>
     DayFromYear (yearSearch d y) \<le> d \<and> d < DayFromYear (yearSearch d y + 1)"
proof (induction d y rule: yearSearch.induct)
  case (1 d y)
  show ?case
  proof (cases "DayFromYear (y + 1) \<le> d")
    case True
    with "1.IH" have "DayFromYear (yearSearch d (y + 1)) \<le> d
        \<and> d < DayFromYear (yearSearch d (y + 1) + 1)" by simp
    moreover from True have "yearSearch d y = yearSearch d (y + 1)"
      by (subst yearSearch.simps) simp
    ultimately show ?thesis by simp
  next
    case False
    then have "yearSearch d y = y" by (subst yearSearch.simps) simp
    with False "1.prems" show ?thesis by simp
  qed
qed

lemma DayFromYear_1970: "DayFromYear 1970 = 0"
  by (simp add: DayFromYear_def)

lemma DayFromYear_upper: "0 \<le> k \<Longrightarrow> DayFromYear (1970 + k) \<le> 366 * k"
proof (induction k rule: int_ge_induct)
  case base
  show ?case by (simp add: DayFromYear_1970)
next
  case (step i)
  have "DayFromYear (1970 + i + 1) \<le> DayFromYear (1970 + i) + 366"
    by (simp only: DayFromYear_Suc) simp
  moreover have "1970 + (i + 1) = 1970 + i + 1" by simp
  ultimately have "DayFromYear (1970 + (i + 1)) \<le> DayFromYear (1970 + i) + 366" by simp
  with step.IH show ?case by (simp add: algebra_simps)
qed

lemma DayFromYear_lower: "k \<le> 0 \<Longrightarrow> DayFromYear (1970 + k) \<le> 365 * k"
proof (induction k rule: int_le_induct)
  case base
  show ?case by (simp add: DayFromYear_1970)
next
  case (step i)
  have "DayFromYear (1970 + (i - 1) + 1) \<ge> DayFromYear (1970 + (i - 1)) + 365"
    by (simp only: DayFromYear_Suc) simp
  moreover have "1970 + (i - 1) + 1 = 1970 + i" by simp
  ultimately have "DayFromYear (1970 + (i - 1)) + 365 \<le> DayFromYear (1970 + i)" by simp
  with step.IH show ?case by (simp add: algebra_simps)
qed

lemma YearFromDay_bounds:
  "DayFromYear (YearFromDay d) \<le> d \<and> d < DayFromYear (YearFromDay d + 1)"
proof -
  let ?k = "if 0 \<le> d then d div 366 else d div 365"
  have "DayFromYear (1970 + ?k) \<le> d"
  proof (cases "0 \<le> d")
    case True
    then have k: "0 \<le> d div 366" by (simp add: pos_imp_zdiv_nonneg_iff)
    have "366 * (d div 366) \<le> d"
      using mult_div_mod_eq [of 366 d] pos_mod_sign [of 366 d] by linarith
    with DayFromYear_upper [OF k] True show ?thesis by simp
  next
    case False
    then have k: "d div 365 \<le> 0" by (simp add: div_nonpos_pos_le0) 
    have "365 * (d div 365) \<le> d"
      using mult_div_mod_eq [of 365 d] pos_mod_sign [of 365 d] by linarith
    with DayFromYear_lower [OF k] False show ?thesis by simp
  qed
  then show ?thesis unfolding YearFromDay_def by (rule yearSearch_bounds)
qed

lemma YearFromDay_unique:
  assumes "DayFromYear y \<le> d" "d < DayFromYear (y + 1)"
  shows "YearFromDay d = y"
proof (rule ccontr)
  let ?z = "YearFromDay d"
  assume ne: "?z \<noteq> y"
  have b: "DayFromYear ?z \<le> d" "d < DayFromYear (?z + 1)"
    using YearFromDay_bounds [of d] by simp_all
  show False
  proof (cases "?z < y")
    case True
    then have "DayFromYear (?z + 1) \<le> DayFromYear y" by (intro DayFromYear_mono) simp
    with b assms show False by simp
  next
    case False
    with ne have "y + 1 \<le> ?z" by simp
    then have "DayFromYear (y + 1) \<le> DayFromYear ?z" by (rule DayFromYear_mono)
    with b assms show False by simp
  qed
qed

lemma YearFromDay_offset:
  assumes "0 \<le> n" "n < (if leapYear y then 366 else 365)"
  shows "YearFromDay (DayFromYear y + n) = y"
  by (rule YearFromDay_unique) (use assms in \<open>simp_all add: DayFromYear_Suc\<close>)




text \<open>The length of month \<open>m\<close> (0-based) of a leap or common year.\<close>

definition daysInMonth :: "bool \<Rightarrow> int \<Rightarrow> int" where
  "daysInMonth leap m =
     (if m = 1 then (if leap then 29 else 28)
      else if m = 3 \<or> m = 5 \<or> m = 8 \<or> m = 10 then 30
      else 31)"

lemma monthStart_numeral:
  "monthStart 0 leap = 0"
  "monthStart 1 leap = 31"
  "monthStart 2 leap = 59 + (if leap then 1 else 0)"
  "monthStart 3 leap = 90 + (if leap then 1 else 0)"
  "monthStart 4 leap = 120 + (if leap then 1 else 0)"
  "monthStart 5 leap = 151 + (if leap then 1 else 0)"
  "monthStart 6 leap = 181 + (if leap then 1 else 0)"
  "monthStart 7 leap = 212 + (if leap then 1 else 0)"
  "monthStart 8 leap = 243 + (if leap then 1 else 0)"
  "monthStart 9 leap = 273 + (if leap then 1 else 0)"
  "monthStart 10 leap = 304 + (if leap then 1 else 0)"
  "monthStart 11 leap = 334 + (if leap then 1 else 0)"
  by (simp_all add: monthStart_def)

lemma daysInMonth_numeral:
  "daysInMonth leap 0 = 31"
  "daysInMonth leap 1 = (if leap then 29 else 28)"
  "daysInMonth leap 2 = 31"
  "daysInMonth leap 3 = 30"
  "daysInMonth leap 4 = 31"
  "daysInMonth leap 5 = 30"
  "daysInMonth leap 6 = 31"
  "daysInMonth leap 7 = 31"
  "daysInMonth leap 8 = 30"
  "daysInMonth leap 9 = 31"
  "daysInMonth leap 10 = 30"
  "daysInMonth leap 11 = 31"
  by (simp_all add: daysInMonth_def)


lemma month_cases:
  fixes m :: int
  assumes "0 \<le> m" "m \<le> 11"
  shows "m = 0 \<or> m = 1 \<or> m = 2 \<or> m = 3 \<or> m = 4 \<or> m = 5 \<or> m = 6 \<or> m = 7
     \<or> m = 8 \<or> m = 9 \<or> m = 10 \<or> m = 11"
proof -
  have l: "[0..11::int] = [0, 1, 2, 3, 4, 5, 6, 7, 8, 9, 10, 11]" by code_simp
  from assms have "m \<in> set [0..11]" by simp
  then show ?thesis unfolding l by simp
qed

lemma MakeDay_in_year:
  assumes "0 \<le> m" "m \<le> 11"
  shows "MakeDay y m d = DayFromYear y + (monthStart m (leapYear y) + d - 1)"
proof -
  from assms have "m div 12 = 0" "m mod 12 = m" by simp_all
  then show ?thesis by (simp add: MakeDay_def)
qed

lemma Day_MakeDate: "Day (MakeDate D 0) = D"
  by (simp add: Day_def MakeDate_def msPerDay_def)

lemma day_of_year_range:
  assumes m: "0 \<le> m" "m \<le> 11" and d: "1 \<le> d" "d \<le> daysInMonth leap m"
  shows "0 \<le> monthStart m leap + d - 1 \<and> monthStart m leap + d - 1 < (if leap then 366 else 365)"
  using month_cases [OF m] d
  by (elim disjE) (simp_all add: monthStart_numeral daysInMonth_numeral split: if_split_asm)


lemma month_date_of_offset:
  assumes m: "0 \<le> m" "m \<le> 11" and d: "1 \<le> d" "d \<le> daysInMonth leap m"
    and n: "n = monthStart m leap + d - 1" and l: "l = (if leap then 1 else 0)"
  shows "(if n < 31 then 0
      else if n < 59 + l then 1
      else if n < 90 + l then 2
      else if n < 120 + l then 3
      else if n < 151 + l then 4
      else if n < 181 + l then 5
      else if n < 212 + l then 6
      else if n < 243 + l then 7
      else if n < 273 + l then 8
      else if n < 304 + l then 9
      else if n < 334 + l then 10
      else 11) = m"
  using month_cases [OF m] d n l
  by (elim disjE) (simp_all add: monthStart_numeral daysInMonth_numeral split: if_split_asm)

lemma date_of_offset:
  assumes m: "0 \<le> m" "m \<le> 11"
    and n: "n = monthStart m leap + d - 1" and l: "l = (if leap then 1 else 0)"
  shows "(if m = 0 then n + 1
      else if m = 1 then n - 30
      else if m = 2 then n - 58 - l
      else if m = 3 then n - 89 - l
      else if m = 4 then n - 119 - l
      else if m = 5 then n - 150 - l
      else if m = 6 then n - 180 - l
      else if m = 7 then n - 211 - l
      else if m = 8 then n - 242 - l
      else if m = 9 then n - 272 - l
      else if m = 10 then n - 303 - l
      else n - 333 - l) = d"
  using month_cases [OF m] n l
  by (elim disjE) (simp_all add: monthStart_numeral)

lemma fields_of_MakeDay:
  assumes m: "0 \<le> m" "m \<le> 11" and d: "1 \<le> d" "d \<le> daysInMonth (leapYear y) m"
  shows "YearFromTime (MakeDate (MakeDay y m d) 0) = y
    \<and> MonthFromTime (MakeDate (MakeDay y m d) 0) = m
    \<and> DateFromTime (MakeDate (MakeDay y m d) 0) = d"
proof -
  let ?n = "monthStart m (leapYear y) + d - 1"
  let ?t = "MakeDate (MakeDay y m d) 0"
  have D: "Day ?t = DayFromYear y + ?n"
    by (simp only: Day_MakeDate MakeDay_in_year [OF m])
  have rng: "0 \<le> ?n" "?n < (if leapYear y then 366 else 365)"
    using day_of_year_range [OF m d] by simp_all
  have yr: "YearFromTime ?t = y"
    unfolding YearFromTime_def D by (rule YearFromDay_offset [OF rng])
  have dwy: "DayWithinYear ?t = ?n"
    unfolding DayWithinYear_def yr D by simp
  have leap: "InLeapYear ?t = (if leapYear y then 1 else 0)"
    unfolding InLeapYear_def yr by simp
  have mo: "MonthFromTime ?t = m"
    unfolding MonthFromTime_def Let_def
    by (rule month_date_of_offset [OF m d dwy leap])
  have "DateFromTime ?t = d"
    unfolding DateFromTime_def Let_def mo
    by (rule date_of_offset [OF m dwy leap])
  with yr mo show ?thesis by simp
qed

subsection \<open>Texts, matches and the range of dates\<close>

lemma digitValue_range: "isDigit c \<Longrightarrow> 0 \<le> digitValue c \<and> digitValue c \<le> 9"
  by (auto simp: isDigit_def digitValue_def)

lemma parseInt_snoc: "parseInt (s @ [c]) = 10 * parseInt s + digitValue c"
  by (simp add: parseInt_def)

lemma parseInt_bounds:
  "list_all isDigit s \<Longrightarrow> 0 \<le> parseInt s \<and> parseInt s < 10 ^ length s"
proof (induction s rule: rev_induct)
  case Nil
  show ?case by (simp add: parseInt_def)
next
  case (snoc c s)
  then have ih: "0 \<le> parseInt s" "parseInt s < 10 ^ length s" and c: "isDigit c"
    by simp_all
  from ih(2) have "parseInt s + 1 \<le> 10 ^ length s" by simp
  then have "10 * (parseInt s + 1) \<le> 10 * 10 ^ length s" by simp
  with ih(1) digitValue_range [OF c] show ?case
    by (simp add: parseInt_snoc)
qed

lemma splitOn_not_Nil: "splitOn sep s \<noteq> []"
  by (induction s) (auto split: list.splits)

lemma splitOn_chars: "set s \<subseteq> (\<Union>p \<in> set (splitOn sep s). set p) \<union> {sep}"
proof (induction s)
  case Nil
  show ?case by simp
next
  case (Cons c cs)
  show ?case
  proof (cases "c = sep")
    case True
    with Cons show ?thesis by auto
  next
    case False
    obtain part parts where sp: "splitOn sep cs = part # parts"
      using splitOn_not_Nil [of sep cs] by (cases "splitOn sep cs") auto
    with False Cons show ?thesis by auto
  qed
qed

lemma splitOn_no_sep: "sep \<notin> set s \<Longrightarrow> splitOn sep s = [s]"
  by (induction s) auto


lemma matchThree_SomeD:
  assumes "matchThree sep r1 r2 r3 s = Some m"
  shows "\<exists>a b c. splitOn sep s = [a, b, c] \<and> m = [s, a, b, c]
           \<and> digits (fst r1) (snd r1) a \<and> digits (fst r2) (snd r2) b \<and> digits (fst r3) (snd r3) c"
  using assms unfolding matchThree_def
  by (auto split: list.splits if_splits)

lemma monthStart_range: "0 \<le> monthStart mn leap \<and> monthStart mn leap \<le> 335"
  by (simp add: monthStart_def Let_def)

lemma TimeClip_of_int:
  "\<bar>z\<bar> \<le> 8640000000000000 \<Longrightarrow> TimeClip (Fin (of_int z)) = TimeValue z"
proof -
  assume a: "\<bar>z\<bar> \<le> 8640000000000000"
  have "\<bar>(of_int z :: rat)\<bar> = of_int \<bar>z\<bar>" by simp
  also have "\<dots> \<le> of_int 8640000000000000" using a by (simp only: of_int_le_iff)
  finally have "\<not> \<bar>(of_int z :: rat)\<bar> > 8640000000000000" by simp
  moreover have "truncateNumber (of_int z) = z" by (simp add: truncateNumber_def)
  ultimately show ?thesis by simp
qed

lemma utc_apply: "utc t isUTC = 0"
  by (simp add: utc_def)

lemma utc_bounded: "\<forall>t isUTC. \<bar>utc t isUTC\<bar> \<le> msPerDay"
  by (simp add: utc_apply msPerDay_def)

lemma utc_same: "utc t True = utc t' False"
  by (simp add: utc_def)

text \<open>The year that \<open>new Date(year, month, day)\<close> takes for its first argument.\<close>

definition fullYear :: "int \<Rightarrow> int" where
  "fullYear year = (if 0 \<le> year \<and> year \<le> 99 then 1900 + year else year)"

lemma DayFromYear_99: "DayFromYear 99 = - 683368"
  by (simp add: DayFromYear_def)

lemma DayFromYear_10833: "DayFromYear 10833 = 3237145"
  by (simp add: DayFromYear_def)

lemma MakeDay_range:
  assumes "100 \<le> yr" "yr \<le> 9999" "- 1 \<le> m" "m \<le> 9999" "0 \<le> d" "d \<le> 9999"
  shows "- 683369 \<le> MakeDay yr m d \<and> MakeDay yr m d \<le> 3247478"
proof -
  let ?ym = "yr + m div 12"
  have "- 1 \<le> m div 12" using assms(3) by simp
  moreover have "m div 12 \<le> 833" using assms(4) by simp
  ultimately have ym: "99 \<le> ?ym" "?ym \<le> 10833" using assms(1,2) by simp_all
  have lo: "- 683368 \<le> DayFromYear ?ym"
    using DayFromYear_mono [OF ym(1)] by (simp only: DayFromYear_99)
  have hi: "DayFromYear ?ym \<le> 3237145"
    using DayFromYear_mono [OF ym(2)] by (simp only: DayFromYear_10833)
  from lo hi monthStart_range [of "m mod 12" "leapYear ?ym"] assms(5,6)
  show ?thesis by (simp add: MakeDay_def Let_def)
qed

lemma newDate_TimeValue:
  assumes "0 \<le> year" "year \<le> 9999" "- 1 \<le> m" "m \<le> 9999" "0 \<le> d" "d \<le> 9999"
    and tza: "\<forall>t isUTC. \<bar>tza t isUTC\<bar> \<le> msPerDay"
  shows "newDate tza year m d = TimeValue (UTC tza (MakeDate (MakeDay (fullYear year) m d) 0))"
proof -
  let ?L = "MakeDate (MakeDay (fullYear year) m d) 0"
  have yr: "100 \<le> fullYear year" "fullYear year \<le> 9999"
    using assms(1,2) by (simp_all add: fullYear_def)
  from MakeDay_range [OF yr assms(3-6)] tza [rule_format, of ?L False]
  have "\<bar>?L - tza ?L False\<bar> \<le> 8640000000000000"
    unfolding MakeDate_def msPerDay_def by linarith
  then have "TimeClip (Fin (of_int (?L - tza ?L False))) = TimeValue (?L - tza ?L False)"
    by (rule TimeClip_of_int)
  then show ?thesis
    by (simp only: newDate_def Let_def UTC_def fullYear_def)
qed

subsection \<open>Matched texts always yield a date\<close>

lemma patternSource_no_YYYY: "includesText (patternSource p) ''YYYY'' = False"
  by (cases p) (simp_all add: backslash_def)

lemma parseMatchedDate_eq:
  "parseMatchedDate tza match p =
     (let first = parseInt (match ! 1); second = parseInt (match ! 2);
          year = parseInt (match ! 3)
      in if first > 12 then Some (newDate tza year (second - 1) first)
         else Some (newDate tza year (first - 1) second))"
  by (simp add: parseMatchedDate_def patternSource_no_YYYY Let_def)

lemma digits_parseInt:
  assumes "digits lo hi s" "hi \<le> 4"
  shows "0 \<le> parseInt s \<and> parseInt s \<le> 9999"
proof -
  from assms have d: "list_all isDigit s" and l: "length s \<le> 4" by (simp_all add: digits_def)
  have "(10::int) ^ length s \<le> 10 ^ 4" using l by (intro power_increasing) simp_all
  with parseInt_bounds [OF d] show ?thesis by simp
qed

lemma regexMatch_groups:
  assumes "regexMatch p s = Some match"
  shows "\<exists>a b c. match = [s, a, b, c] \<and> digits 1 4 a \<and> digits 1 4 b \<and> digits 1 4 c"
  using assms
  by (cases p) (auto dest!: matchThree_SomeD simp: digits_def)

lemma parseMatchedDate_valid:
  assumes m: "regexMatch p s = Some match" and tza: "\<forall>t isUTC. \<bar>tza t isUTC\<bar> \<le> msPerDay"
  shows "\<exists>t. parseMatchedDate tza match p = Some (TimeValue t)"
proof -
  from regexMatch_groups [OF m] obtain a b c where
    mt: "match = [s, a, b, c]" and da: "digits 1 4 a" and db: "digits 1 4 b" and dc: "digits 1 4 c"
    by blast
  have ra: "0 \<le> parseInt a" "parseInt a \<le> 9999" using digits_parseInt [OF da] by simp_all
  have rb: "0 \<le> parseInt b" "parseInt b \<le> 9999" using digits_parseInt [OF db] by simp_all
  have rc: "0 \<le> parseInt c" "parseInt c \<le> 9999" using digits_parseInt [OF dc] by simp_all
  have 1: "newDate tza (parseInt c) (parseInt b - 1) (parseInt a)
      = TimeValue (UTC tza (MakeDate (MakeDay (fullYear (parseInt c)) (parseInt b - 1) (parseInt a)) 0))"
    by (rule newDate_TimeValue) (use ra rb rc tza in simp_all)
  have 2: "newDate tza (parseInt c) (parseInt a - 1) (parseInt b)
      = TimeValue (UTC tza (MakeDate (MakeDay (fullYear (parseInt c)) (parseInt a - 1) (parseInt b)) 0))"
    by (rule newDate_TimeValue) (use ra rb rc tza in simp_all)
  show ?thesis
    unfolding parseMatchedDate_eq mt using 1 2 by (simp add: Let_def)
qed


lemma tryPatterns_Some:
  assumes tza: "\<forall>t isUTC. \<bar>tza t isUTC\<bar> \<le> msPerDay"
  shows "\<exists>p \<in> set ps. regexMatch p s \<noteq> None \<Longrightarrow> \<exists>t. tryPatterns tza s ps = Some (TimeValue t)"
proof (induction ps)
  case Nil
  then show ?case by simp
next
  case (Cons p ps)
  show ?case
  proof (cases "regexMatch p s")
    case None
    with Cons show ?thesis by simp
  next
    case (Some match)
    from parseMatchedDate_valid [OF Some tza] obtain t where
      "parseMatchedDate tza match p = Some (TimeValue t)" by blast
    with Some show ?thesis by simp
  qed
qed

section \<open>BirthdayMatcher: \<open>DateMatcher.findBirthdaysOnDate\<close>\<close>

text \<open>
  The (month, day) pair of a value, in local time, when the value is a valid \<open>Date\<close>; this
  is the pair the specification compares. Months count from 0, so February is 1.
\<close>

definition monthDayOf :: "zone \<Rightarrow> jsval \<Rightarrow> (int \<times> int) option" where
  "monthDayOf tza v =
     (case v of
        VDate (TimeValue t) \<Rightarrow>
          Some (MonthFromTime (LocalTime tza t), DateFromTime (LocalTime tza t))
      | _ \<Rightarrow> None)"

definition leapBaby :: associate where
  "leapBaby =
     \<lparr>name = ''Leap Year Baby'', dateOfBirth = VDate (newDate utc 2000 1 29), rowNumber = 1\<rparr>"

definition feb28Birthday :: associate where
  "feb28Birthday =
     \<lparr>name = ''Feb 28 Birthday'', dateOfBirth = VDate (newDate utc 1990 1 28), rowNumber = 2\<rparr>"

lemma birthdayOn_monthDayOf:
  "birthdayOn tza (Some m) (Some d) a = (monthDayOf tza (dateOfBirth a) = Some (m, d))"
proof (cases "dateOfBirth a")
  case (VDate b)
  then show ?thesis
    by (cases b) (auto simp: birthdayOn_def monthDayOf_def strictEq_def)
qed (auto simp: birthdayOn_def monthDayOf_def)

lemma findBirthdaysOnDate_filter:
  "findBirthdaysOnDate tza (Some records) (VDate (TimeValue t)) =
     filter (\<lambda>r. monthDayOf tza (dateOfBirth r) = monthDayOf tza (VDate (TimeValue t))) records"
proof -
  let ?m = "MonthFromTime (LocalTime tza t)" and ?d = "DateFromTime (LocalTime tza t)"
  have target: "monthDayOf tza (VDate (TimeValue t)) = Some (?m, ?d)"
    by (simp add: monthDayOf_def)
  have "findBirthdaysOnDate tza (Some records) (VDate (TimeValue t)) =
      filter (birthdayOn tza (Some ?m) (Some ?d)) records"
    by (simp add: findBirthdaysOnDate_def)
  also have "birthdayOn tza (Some ?m) (Some ?d) =
      (\<lambda>r. monthDayOf tza (dateOfBirth r) = Some (?m, ?d))"
    by (rule ext) (rule birthdayOn_monthDayOf)
  finally show ?thesis
    by (simp only: target)
qed

lemma newDate_2000_02_29: "newDate utc 2000 1 29 = TimeValue 951782400000"
  by code_simp

lemma newDate_1990_02_28: "newDate utc 1990 1 28 = TimeValue 636163200000"
  by code_simp

lemma newDate_2024_02_29: "newDate utc 2024 1 29 = TimeValue 1709164800000"
  by code_simp

lemma newDate_2023_02_28: "newDate utc 2023 1 28 = TimeValue 1677542400000"
  by code_simp

lemma newDate_2023_03_01: "newDate utc 2023 2 1 = TimeValue 1677628800000"
  by code_simp

lemma monthDayOf_2000_02_29: "monthDayOf utc (VDate (TimeValue 951782400000)) = Some (1, 29)"
  by code_simp

lemma monthDayOf_1990_02_28: "monthDayOf utc (VDate (TimeValue 636163200000)) = Some (1, 28)"
  by code_simp

lemma monthDayOf_2024_02_29: "monthDayOf utc (VDate (TimeValue 1709164800000)) = Some (1, 29)"
  by code_simp

lemma monthDayOf_2023_02_28: "monthDayOf utc (VDate (TimeValue 1677542400000)) = Some (1, 28)"
  by code_simp

lemma monthDayOf_2023_03_01: "monthDayOf utc (VDate (TimeValue 1677628800000)) = Some (2, 1)"
  by code_simp

text \<open>
  Claim C3. For every list of records and every valid target date,
  \<open>findBirthdaysOnDate\<close> returns exactly the records, in input order, whose birth
  (month, day) pair equals the target's pair. Only that pair is consulted: two records with
  the same pair are treated alike whatever their birth years. A record born on 29 February
  is returned only when the target is itself a 29 February.
\<close>

theorem findBirthdaysOnDate_month_day:
  "findBirthdaysOnDate tza (Some records) (VDate (TimeValue t)) =
     filter (\<lambda>r. monthDayOf tza (dateOfBirth r) = monthDayOf tza (VDate (TimeValue t))) records
   \<and> (\<forall>r r'. monthDayOf tza (dateOfBirth r) = monthDayOf tza (dateOfBirth r') \<longrightarrow>
         (findBirthdaysOnDate tza (Some [r]) (VDate (TimeValue t)) = [r]) =
         (findBirthdaysOnDate tza (Some [r']) (VDate (TimeValue t)) = [r']))
   \<and> (\<forall>r \<in> set (findBirthdaysOnDate tza (Some records) (VDate (TimeValue t))).
         monthDayOf tza (dateOfBirth r) = Some (1, 29) \<longrightarrow>
         monthDayOf tza (VDate (TimeValue t)) = Some (1, 29))"
  unfolding findBirthdaysOnDate_filter by auto

text \<open>
  The leap rule of the specification at concrete dates (host in UTC): a record born
  2000-02-29 matches the target 2024-02-29, but neither 2023-02-28 nor 2023-03-01.
\<close>

theorem findBirthdaysOnDate_month_day_witness:
  "findBirthdaysOnDate utc (Some [leapBaby, feb28Birthday]) (VDate (newDate utc 2024 1 29))
     = [leapBaby]
   \<and> findBirthdaysOnDate utc (Some [leapBaby, feb28Birthday]) (VDate (newDate utc 2023 1 28))
     = [feb28Birthday]
   \<and> findBirthdaysOnDate utc (Some [leapBaby, feb28Birthday]) (VDate (newDate utc 2023 2 1))
     = []
   \<and> monthDayOf utc (dateOfBirth leapBaby) = Some (1, 29)
   \<and> monthDayOf utc (VDate (newDate utc 2024 1 29)) = Some (1, 29)"
  using findBirthdaysOnDate_month_day [of utc "[leapBaby, feb28Birthday]" 1709164800000]
        findBirthdaysOnDate_month_day [of utc "[leapBaby, feb28Birthday]" 1677542400000]
        findBirthdaysOnDate_month_day [of utc "[leapBaby, feb28Birthday]" 1677628800000]
  by (simp add: leapBaby_def feb28Birthday_def
        newDate_2000_02_29 newDate_1990_02_28 newDate_2024_02_29 newDate_2023_02_28
        newDate_2023_03_01 monthDayOf_2000_02_29 monthDayOf_1990_02_28 monthDayOf_2024_02_29
        monthDayOf_2023_02_28 monthDayOf_2023_03_01)


section \<open>DateNormalizer: month and day of year-last texts\<close>

text \<open>
  The month and the day that \<open>parseMatchedDate\<close> takes from the first two numbers of a
  year-last text, as a pair (month, day).
\<close>

definition disambiguate :: "int \<Rightarrow> int \<Rightarrow> int \<times> int" where
  "disambiguate first second =
     (if first > 12 then (second, first)
      else if second > 12 then (first, second)
      else (first, second))"

text \<open>
  The reading of the claim's second case as it is worded: when the second number exceeds 12
  "it is treated as the month (the first is the day)".
\<close>

definition disambiguateAsStated :: "int \<Rightarrow> int \<Rightarrow> int \<times> int" where
  "disambiguateAsStated first second =
     (if first > 12 then (second, first)
      else if second > 12 then (second, first)
      else (first, second))"

lemma isDigit_not_sep: "isDigit c \<Longrightarrow> c \<noteq> CHR ''-'' \<and> c \<noteq> CHR ''/''"
  by (auto simp: isDigit_def)

lemma slash_match_no_hyphen:
  assumes "regexMatch SlashYearLast s = Some m"
  shows "CHR ''-'' \<notin> set s"
proof
  assume h: "CHR ''-'' \<in> set s"
  from assms have "matchThree (CHR ''/'') (1, 2) (1, 2) (4, 4) s = Some m" by simp
  from matchThree_SomeD [OF this] obtain a b c where
    sp: "splitOn (CHR ''/'') s = [a, b, c]"
    and d: "list_all isDigit a" "list_all isDigit b" "list_all isDigit c"
    by (auto simp: digits_def)
  from splitOn_chars [of s "CHR ''/''"] sp h
  have "CHR ''-'' \<in> set a \<union> set b \<union> set c" by auto
  with d isDigit_not_sep [of "CHR ''-''"] show False
    by (auto simp: list_all_iff)
qed

lemma hyphen_match_has_hyphen:
  assumes "matchThree (CHR ''-'') r1 r2 r3 s = Some m"
  shows "CHR ''-'' \<in> set s"
proof (rule ccontr)
  assume "CHR ''-'' \<notin> set s"
  then have "splitOn (CHR ''-'') s = [s]" by (rule splitOn_no_sep)
  with matchThree_SomeD [OF assms] show False by auto
qed

lemma hyphen_year_last_exclusive:
  assumes "regexMatch HyphenYearLast s = Some m"
  shows "regexMatch SlashYearLast s = None" and "regexMatch HyphenYearFirst s = None"
proof -
  from assms have h: "CHR ''-'' \<in> set s" by (auto dest: hyphen_match_has_hyphen)
  show "regexMatch SlashYearLast s = None"
  proof (cases "regexMatch SlashYearLast s")
    case (Some m')
    from slash_match_no_hyphen [OF Some] h show ?thesis by simp
  qed simp
  show "regexMatch HyphenYearFirst s = None"
  proof (cases "regexMatch HyphenYearFirst s")
    case (Some m')
    then obtain a b c where 1: "splitOn (CHR ''-'') s = [a, b, c]" "digits 4 4 a"
      by (auto dest!: matchThree_SomeD)
    from assms obtain a' b' c' where 2: "splitOn (CHR ''-'') s = [a', b', c']" "digits 1 2 a'"
      by (auto dest!: matchThree_SomeD)
    from 1 2 show ?thesis by (simp add: digits_def)
  qed simp
qed

lemma tryPatterns_year_last:
  assumes p: "p = SlashYearLast \<or> p = HyphenYearLast"
    and m: "regexMatch p s = Some match" and tza: "\<forall>t isUTC. \<bar>tza t isUTC\<bar> \<le> msPerDay"
  shows "tryPatterns tza s datePatterns = parseMatchedDate tza match p"
proof -
  from parseMatchedDate_valid [OF m tza] obtain t where
    v: "parseMatchedDate tza match p = Some (TimeValue t)" by blast
  from p show ?thesis
  proof
    assume "p = SlashYearLast"
    with m v show ?thesis by (simp add: datePatterns_def)
  next
    assume "p = HyphenYearLast"
    with m v hyphen_year_last_exclusive [of s match] show ?thesis
      by (simp add: datePatterns_def)
  qed
qed

lemma regexMatch_nonempty: "regexMatch p s = Some m \<Longrightarrow> s \<noteq> []"
  by (cases p) (auto simp: matchThree_def)

lemma trim_Nil: "trim [] = []"
  by (simp add: trim_def)


lemma daysInMonth_le_31: "daysInMonth leap m \<le> 31"
  by (simp add: daysInMonth_def)

lemma newDate_fields:
  assumes y: "0 \<le> year" "year \<le> 9999" and m: "0 \<le> m" "m \<le> 11"
    and d: "1 \<le> d" "d \<le> daysInMonth (leapYear (fullYear year)) m"
    and tza: "\<forall>t isUTC. \<bar>tza t isUTC\<bar> \<le> msPerDay"
    and same: "tza (UTC tza (MakeDate (MakeDay (fullYear year) m d) 0)) True
                 = tza (MakeDate (MakeDay (fullYear year) m d) 0) False"
  shows "getFullYear tza (newDate tza year m d) = Some (fullYear year)
       \<and> getMonth tza (newDate tza year m d) = Some m
       \<and> getDate tza (newDate tza year m d) = Some d"
proof -
  from d daysInMonth_le_31 [of "leapYear (fullYear year)" m] have d': "0 \<le> d" "d \<le> 9999"
    by simp_all
  from m have m': "- 1 \<le> m" "m \<le> 9999" by simp_all
  have nd: "newDate tza year m d
      = TimeValue (UTC tza (MakeDate (MakeDay (fullYear year) m d) 0))"
    by (rule newDate_TimeValue [OF y m' d' tza])
  have lt: "LocalTime tza (UTC tza (MakeDate (MakeDay (fullYear year) m d) 0))
      = MakeDate (MakeDay (fullYear year) m d) 0"
    unfolding LocalTime_def same by (simp add: UTC_def)
  from fields_of_MakeDay [OF m d] show ?thesis
    by (simp add: nd lt)
qed

text \<open>
  A host for concrete runs: its \<open>new Date(text)\<close> accepts the date form \<open>YYYY-MM-DD\<close>
  of the ISO format, read as midnight UTC, and rejects every other text. The theorems below
  hold for every host; this one only supplies closed examples.
\<close>

definition isoDateParse :: "string \<Rightarrow> jsdate" where
  "isoDateParse s =
     (case matchThree (CHR ''-'') (4, 4) (2, 2) (2, 2) s of
        None \<Rightarrow> InvalidDate
      | Some m \<Rightarrow>
          (let y = parseInt (m ! 1); mo = parseInt (m ! 2); d = parseInt (m ! 3) in
           if 1 \<le> mo \<and> mo \<le> 12 \<and> 1 \<le> d \<and> d \<le> daysInMonth (leapYear y) (mo - 1)
           then TimeClip (Fin (of_int (MakeDate (MakeDay y (mo - 1) d) 0)))
           else InvalidDate))"

lemma match_05_20_1990:
  "regexMatch SlashYearLast (trim ''05/20/1990'') = Some [''05/20/1990'', ''05'', ''20'', ''1990'']"
  by code_simp

lemma iso_rejects_05_20_1990: "isNaN (getTime (isoDateParse (trim ''05/20/1990'')))"
  by code_simp

lemma parseInt_05_20_1990:
  "parseInt ''05'' = 5" "parseInt ''20'' = 20" "parseInt ''1990'' = 1990"
  by code_simp+

lemma parseDate_05_20_1990:
  "parseDate utc isoDateParse (VStr ''05/20/1990'') = Some (TimeValue 643161600000)"
  by code_simp

lemma fields_05_20_1990:
  "getMonth utc (TimeValue 643161600000) = Some 4" "getDate utc (TimeValue 643161600000) = Some 20"
  by code_simp+

lemma newDate_as_stated: "newDate utc 1990 (20 - 1) 5 = TimeValue 681350400000"
  by code_simp

lemma as_stated_05_20: "disambiguateAsStated (parseInt ''05'') (parseInt ''20'') = (20, 5)"
  by (simp add: parseInt_05_20_1990 disambiguateAsStated_def)

lemma newDate_as_stated': "newDate utc (parseInt ''1990'') (20 - 1) 5 = TimeValue 681350400000"
  by (simp only: parseInt_05_20_1990 newDate_as_stated)

text \<open>
  Claim C7, as amended. For every text that, once trimmed, matches the slash pattern or the
  hyphen pattern with the year last, \<open>parseMatchedDate\<close> builds the date from the month and
  day chosen as follows: if the first number exceeds 12 it is the day and the second is the
  month; otherwise the first number is the month and the second is the day (also when the
  second exceeds 12). \<open>parseDate\<close> returns that date whenever the host's own parse rejects
  the text, and when month and day exist in the calendar the date has exactly that year,
  month and day, read with the offset the zone had for that local midnight (which is the
  offset in force at the resulting instant, unless the zone changes its offset at that
  very midnight).
\<close>

theorem parseDate_year_last_disambiguation:
  assumes p: "p = SlashYearLast \<or> p = HyphenYearLast"
    and mt: "regexMatch p (trim text) = Some match"
    and tza: "\<forall>t isUTC. \<bar>tza t isUTC\<bar> \<le> msPerDay"
  shows "(case disambiguate (parseInt (match ! 1)) (parseInt (match ! 2)) of
          (month, day) \<Rightarrow>
            let year = parseInt (match ! 3);
                result = newDate tza year (month - 1) day
            in parseMatchedDate tza match p = Some result
             \<and> (isNaN (getTime (dateParse (trim text))) \<longrightarrow>
                  parseDate tza dateParse (VStr text) = Some result)
             \<and> (1 \<le> month \<and> month \<le> 12 \<and> 1 \<le> day
                  \<and> day \<le> daysInMonth (leapYear (fullYear year)) (month - 1)
                  \<and> tza (UTC tza (MakeDate (MakeDay (fullYear year) (month - 1) day) 0)) True
                      = tza (MakeDate (MakeDay (fullYear year) (month - 1) day) 0) False \<longrightarrow>
                  getFullYear tza result = Some (fullYear year)
                  \<and> getMonth tza result = Some (month - 1)
                  \<and> getDate tza result = Some day))"
proof -
  obtain month day where md:
    "disambiguate (parseInt (match ! 1)) (parseInt (match ! 2)) = (month, day)"
    by (cases "disambiguate (parseInt (match ! 1)) (parseInt (match ! 2))") simp
  let ?year = "parseInt (match ! 3)"
  let ?result = "newDate tza ?year (month - 1) day"
  have pm: "parseMatchedDate tza match p = Some ?result"
    using md unfolding parseMatchedDate_eq disambiguate_def
    by (auto simp: Let_def split: if_splits)
  have pd: "parseDate tza dateParse (VStr text) = Some ?result"
    if nan: "isNaN (getTime (dateParse (trim text)))"
  proof -
    from regexMatch_nonempty [OF mt] have "text \<noteq> []"
      by (auto simp: trim_Nil)
    with nan show ?thesis
      by (simp add: parseDate_def Let_def tryPatterns_year_last [OF p mt tza] pm)
  qed
  from regexMatch_groups [OF mt] obtain a b c where
    "match = [trim text, a, b, c]" and dc: "digits 1 4 c" by blast
  then have "?year = parseInt c" by simp
  with digits_parseInt [OF dc] have yr: "0 \<le> ?year" "?year \<le> 9999" by simp_all
  have fl: "getFullYear tza ?result = Some (fullYear ?year)
      \<and> getMonth tza ?result = Some (month - 1) \<and> getDate tza ?result = Some day"
    if "1 \<le> month" "month \<le> 12" "1 \<le> day"
      "day \<le> daysInMonth (leapYear (fullYear ?year)) (month - 1)"
      "tza (UTC tza (MakeDate (MakeDay (fullYear ?year) (month - 1) day) 0)) True
         = tza (MakeDate (MakeDay (fullYear ?year) (month - 1) day) 0) False"
    by (rule newDate_fields [OF yr _ _ that(3,4) tza that(5)]) (use that in simp_all)
  show ?thesis
    unfolding md using pm pd fl by (simp add: Let_def)
qed

text \<open>
  The claim as worded fails at \<open>05/20/1990\<close>: the second number exceeds 12, the wording
  makes it the month and 5 the day (which would be 5 August 1991), while the code returns
  20 May 1990.
\<close>

theorem year_last_second_above_12_counterexample:
  "regexMatch SlashYearLast (trim ''05/20/1990'') = Some [''05/20/1990'', ''05'', ''20'', ''1990'']
   \<and> disambiguateAsStated (parseInt ''05'') (parseInt ''20'') = (20, 5)
   \<and> newDate utc (parseInt ''1990'') (20 - 1) 5 = TimeValue 681350400000
   \<and> parseDate utc isoDateParse (VStr ''05/20/1990'') = Some (TimeValue 643161600000)
   \<and> getMonth utc (TimeValue 643161600000) = Some 4
   \<and> getDate utc (TimeValue 643161600000) = Some 20"
  by (intro conjI match_05_20_1990 as_stated_05_20 newDate_as_stated' parseDate_05_20_1990
        fields_05_20_1990)

text \<open>The amended statement at the same text, on a host in UTC.\<close>

theorem parseDate_year_last_disambiguation_witness:
  "regexMatch SlashYearLast (trim ''05/20/1990'') = Some [''05/20/1990'', ''05'', ''20'', ''1990'']
   \<and> isNaN (getTime (isoDateParse (trim ''05/20/1990'')))
   \<and> parseDate utc isoDateParse (VStr ''05/20/1990'') = Some (newDate utc 1990 4 20)
   \<and> getFullYear utc (newDate utc 1990 4 20) = Some 1990
   \<and> getMonth utc (newDate utc 1990 4 20) = Some 4
   \<and> getDate utc (newDate utc 1990 4 20) = Some 20"
proof -
  note tz = utc_bounded
  have dis: "disambiguate 5 20 = (5, 20)" by (simp add: disambiguate_def)
  have yr: "fullYear 1990 = 1990" by (simp add: fullYear_def)
  have dim: "daysInMonth (leapYear 1990) 4 = 31" by (simp add: daysInMonth_def)
  from parseDate_year_last_disambiguation [OF _ match_05_20_1990 tz, of isoDateParse]
  have "parseDate utc isoDateParse (VStr ''05/20/1990'') = Some (newDate utc 1990 4 20)
      \<and> getFullYear utc (newDate utc 1990 4 20) = Some 1990
      \<and> getMonth utc (newDate utc 1990 4 20) = Some 4
      \<and> getDate utc (newDate utc 1990 4 20) = Some 20"
    by (simp add: iso_rejects_05_20_1990 parseInt_05_20_1990 dis yr dim Let_def utc_same)
  with match_05_20_1990 iso_rejects_05_20_1990 show ?thesis
    by (intro conjI) (erule conjE | assumption)+
qed


section \<open>Facts about the arithmetic of doubles\<close>











section \<open>DateNormalizer: unparseable values\<close>


lemma valid_date_TimeValue: "\<not> isNaN (getTime d) \<Longrightarrow> \<exists>t. d = TimeValue t"
  by (cases d) simp_all






























section \<open>DateNormalizer: numeric day offsets\<close>


























section \<open>DeliveryClient: retries of \<open>SMSService.sendWithRetry\<close>\<close>

text \<open>
  Surroundings for concrete runs: a host in UTC at 2024-02-29T00:00:00Z with no
  environment and no files, and a trace with nothing posted yet.
\<close>

definition quietHost :: host where
  "quietHost =
     \<lparr>environment = (\<lambda>v. None), existsSync = (\<lambda>p. False), resolvePath = (\<lambda>p. p),
      extname = (\<lambda>p. []), readWorkbook = (\<lambda>p. Inl ''unreadable''), localTZA = utc,
      dateParser = isoDateParse, clock = 1709164800000,
      responses = (\<lambda>k. RejectedNoResponse)\<rparr>"

definition emptyTrace :: trace where
  "emptyTrace = \<lparr>events = [], notifications = [], logged = []\<rparr>"

definition failTwiceThenSucceed :: "nat \<Rightarrow> axiosOutcome" where
  "failTwiceThenSucceed k =
     (if k = 0 then RejectedNoResponse
      else if k = 1 then RejectedResponse 401 None
      else Resolved 200 (Some \<lparr>data_messageId = Some ''msg-1'', data_id = None,
                                data_status = None\<rparr>))"

definition alwaysFail :: "nat \<Rightarrow> axiosOutcome" where
  "alwaysFail k =
     (if k = 0 then RejectedResponse 400 None
      else if k = 1 then RejectedResponse 503 None
      else RejectedNoResponse)"

definition exampleService :: smsService where
  "exampleService =
     \<lparr>apiUrl = ''https://api.example.com/sms'', apiKey = ''test-api-key'',
      senderId = ''BirthdayBot'', recipientNumber = ''+1234567890''\<rparr>"

lemma events_emptyTrace: "events emptyTrace = []"
  by (simp add: emptyTrace_def)

lemma responses_quiet: "responses (quietHost\<lparr>responses := f\<rparr>) = f"
  by simp

lemma posted_append: "posted (es @ es') = posted es @ posted es'"
  by (induction es rule: posted.induct) simp_all

lemma sendSMS_eq:
  "sendSMS svc message h tr =
     (tr\<lparr>events := events tr @ [Posted (request svc message)]\<rparr>,
      handleOutcome (responses h (length (posted (events tr)))))"
  by (simp add: sendSMS_def Let_def)

lemma sendWithRetry_success:
  assumes "handleOutcome (responses h (length (posted (events tr)))) = Inr result"
  shows "sendWithRetry svc message ts attempt h tr =
     (tr\<lparr>events := events tr @ [Posted (request svc message)]\<rparr>,
      \<lparr>success = True, messageId = Some (api_messageId result), error = None,
       timestamp = ts, attempts = Some attempt\<rparr>)"
  by (subst sendWithRetry.simps) (simp add: sendSMS_eq assms)

lemma sendWithRetry_exhausted:
  assumes "handleOutcome (responses h (length (posted (events tr)))) = Inl e" "3 \<le> attempt"
  shows "sendWithRetry svc message ts attempt h tr =
     (tr\<lparr>events := events tr @ [Posted (request svc message)]\<rparr>,
      \<lparr>success = False, messageId = None, error = Some e,
       timestamp = ts, attempts = Some attempt\<rparr>)"
  by (subst sendWithRetry.simps) (simp add: sendSMS_eq assms)

lemma sendWithRetry_retry:
  assumes "handleOutcome (responses h (length (posted (events tr)))) = Inl e" "attempt < 3"
  shows "sendWithRetry svc message ts attempt h tr =
     sendWithRetry svc message ts (attempt + 1) h
       (tr\<lparr>events := events tr @ [Posted (request svc message), Slept (2 ^ attempt * 1000)]\<rparr>)"
  using assms by (subst sendWithRetry.simps) (simp add: sendSMS_eq delay_def)


lemma sendWithRetry_first:
  assumes "handleOutcome (responses h (length (posted (events tr)))) = Inl e"
  shows "sendWithRetry svc message ts 1 h tr =
     sendWithRetry svc message ts 2 h
       (tr\<lparr>events := events tr @ [Posted (request svc message), Slept 2000]\<rparr>)"
  by (subst sendWithRetry.simps) (simp add: sendSMS_eq delay_def assms numeral_2_eq_2)

lemma sendWithRetry_second:
  assumes "handleOutcome (responses h (length (posted (events tr)))) = Inl e"
  shows "sendWithRetry svc message ts 2 h tr =
     sendWithRetry svc message ts 3 h
       (tr\<lparr>events := events tr @ [Posted (request svc message), Slept 4000]\<rparr>)"
  by (subst sendWithRetry.simps) (simp add: sendSMS_eq delay_def assms numeral_3_eq_3)

text \<open>
  Claim C4. Starting with the first attempt: when the first two requests fail, whatever
  the failure, and the third succeeds, the outcome is a success with attempt count 3; when
  the third fails too, the outcome is a failure with attempt count 3 and the last error's
  text. In both cases three requests are posted, with a pause of 2000 ms before the second
  and of 4000 ms before the third. Rejections for authentication (401, 403), for a
  malformed request (400), with any other status, and without a response are all failures
  of a request, so they are retried alike.
\<close>

theorem sendWithRetry_three_attempts:
  assumes f1: "handleOutcome (responses h (length (posted (events tr)))) = Inl e1"
    and f2: "handleOutcome (responses h (length (posted (events tr)) + 1)) = Inl e2"
  shows "(\<forall>result. handleOutcome (responses h (length (posted (events tr)) + 2)) = Inr result \<longrightarrow>
            snd (sendWithRetry svc message ts 1 h tr) =
              \<lparr>success = True, messageId = Some (api_messageId result), error = None,
               timestamp = ts, attempts = Some 3\<rparr>
            \<and> events (fst (sendWithRetry svc message ts 1 h tr)) =
                events tr @ [Posted (request svc message), Slept 2000,
                            Posted (request svc message), Slept 4000,
                            Posted (request svc message)])
       \<and> (\<forall>e3. handleOutcome (responses h (length (posted (events tr)) + 2)) = Inl e3 \<longrightarrow>
            snd (sendWithRetry svc message ts 1 h tr) =
              \<lparr>success = False, messageId = None, error = Some e3,
               timestamp = ts, attempts = Some 3\<rparr>
            \<and> events (fst (sendWithRetry svc message ts 1 h tr)) =
                events tr @ [Posted (request svc message), Slept 2000,
                            Posted (request svc message), Slept 4000,
                            Posted (request svc message)])
       \<and> (\<forall>body. handleOutcome (RejectedResponse 401 body) =
                      Inl (''Authentication failed: '' @ errorText body)
                  \<and> handleOutcome (RejectedResponse 403 body) =
                      Inl (''Authentication failed: '' @ errorText body)
                  \<and> handleOutcome (RejectedResponse 400 body) =
                      Inl (''Invalid request: '' @ errorText body))
       \<and> (\<forall>status body. status \<noteq> 401 \<and> status \<noteq> 403 \<and> status \<noteq> 400 \<longrightarrow>
             handleOutcome (RejectedResponse status body) =
               Inl (''API error ('' @ showInt status @ ''): '' @ errorText body))
       \<and> handleOutcome RejectedNoResponse = Inl ''Network error: Unable to reach SMS API''"
proof -
  let ?k = "length (posted (events tr))"
  let ?r = "request svc message"
  let ?t1 = "tr\<lparr>events := events tr @ [Posted ?r, Slept 2000]\<rparr>"
  let ?t2 = "?t1\<lparr>events := events ?t1 @ [Posted ?r, Slept 4000]\<rparr>"
  have k1: "length (posted (events ?t1)) = ?k + 1" by (simp add: posted_append)
  have k2: "length (posted (events ?t2)) = ?k + 2" by (simp add: posted_append)
  have s1: "sendWithRetry svc message ts 1 h tr = sendWithRetry svc message ts 2 h ?t1"
    by (rule sendWithRetry_first [OF f1])
  have f2': "handleOutcome (responses h (length (posted (events ?t1)))) = Inl e2"
    unfolding k1 by (rule f2)
  have s2: "sendWithRetry svc message ts 2 h ?t1 = sendWithRetry svc message ts 3 h ?t2"
    by (rule sendWithRetry_second [OF f2'])
  have ev: "events (?t2\<lparr>events := events ?t2 @ [Posted ?r]\<rparr>) =
      events tr @ [Posted ?r, Slept 2000, Posted ?r, Slept 4000, Posted ?r]"
    by simp
  have ok: "snd (sendWithRetry svc message ts 1 h tr) =
        \<lparr>success = True, messageId = Some (api_messageId result), error = None,
         timestamp = ts, attempts = Some 3\<rparr>
      \<and> events (fst (sendWithRetry svc message ts 1 h tr)) =
          events tr @ [Posted ?r, Slept 2000, Posted ?r, Slept 4000, Posted ?r]"
    if "handleOutcome (responses h (?k + 2)) = Inr result" for result
  proof -
    from that have "handleOutcome (responses h (length (posted (events ?t2)))) = Inr result"
      unfolding k2 .
    from sendWithRetry_success [OF this, of svc message ts 3] show ?thesis
      unfolding s1 s2 by (simp only: fst_conv snd_conv ev simp_thms)
  qed
  have bad: "snd (sendWithRetry svc message ts 1 h tr) =
        \<lparr>success = False, messageId = None, error = Some e3,
         timestamp = ts, attempts = Some 3\<rparr>
      \<and> events (fst (sendWithRetry svc message ts 1 h tr)) =
          events tr @ [Posted ?r, Slept 2000, Posted ?r, Slept 4000, Posted ?r]"
    if "handleOutcome (responses h (?k + 2)) = Inl e3" for e3
  proof -
    from that have "handleOutcome (responses h (length (posted (events ?t2)))) = Inl e3"
      unfolding k2 .
    from sendWithRetry_exhausted [OF this, of 3 svc message ts] show ?thesis
      unfolding s1 s2 by (simp only: fst_conv snd_conv ev simp_thms order_refl)
  qed
  have classes: "handleOutcome (RejectedResponse 401 body) =
          Inl (''Authentication failed: '' @ errorText body)
      \<and> handleOutcome (RejectedResponse 403 body) =
          Inl (''Authentication failed: '' @ errorText body)
      \<and> handleOutcome (RejectedResponse 400 body) =
          Inl (''Invalid request: '' @ errorText body)" for body
    by (simp add: Let_def)
  have other: "handleOutcome (RejectedResponse status body) =
      Inl (''API error ('' @ showInt status @ ''): '' @ errorText body)"
    if "status \<noteq> 401 \<and> status \<noteq> 403 \<and> status \<noteq> 400" for status body
    using that by (simp add: Let_def)
  have net: "handleOutcome RejectedNoResponse = Inl ''Network error: Unable to reach SMS API''"
    by simp
  from ok bad classes other net show ?thesis by blast
qed


text \<open>
  Two runs: a transport failure and an authentication rejection followed by a success;
  a malformed-request rejection, a 503 and a transport failure.
\<close>

theorem sendWithRetry_three_attempts_witness:
  "handleOutcome (failTwiceThenSucceed 0) = Inl ''Network error: Unable to reach SMS API''
   \<and> handleOutcome (failTwiceThenSucceed 1) = Inl ''Authentication failed: Unknown error''
   \<and> handleOutcome (failTwiceThenSucceed 2) = Inr \<lparr>api_messageId = ''msg-1'', api_status = ''sent''\<rparr>
   \<and> snd (sendWithRetry exampleService ''hello'' 7 1
            (quietHost\<lparr>responses := failTwiceThenSucceed\<rparr>) emptyTrace)
       = \<lparr>success = True, messageId = Some ''msg-1'', error = None, timestamp = 7,
          attempts = Some 3\<rparr>
   \<and> handleOutcome (alwaysFail 0) = Inl ''Invalid request: Unknown error''
   \<and> handleOutcome (alwaysFail 1) = Inl ''API error (503): Unknown error''
   \<and> handleOutcome (alwaysFail 2) = Inl ''Network error: Unable to reach SMS API''
   \<and> snd (sendWithRetry exampleService ''hello'' 7 1
            (quietHost\<lparr>responses := alwaysFail\<rparr>) emptyTrace)
       = \<lparr>success = False, messageId = None,
          error = Some ''Network error: Unable to reach SMS API'', timestamp = 7,
          attempts = Some 3\<rparr>
   \<and> events (fst (sendWithRetry exampleService ''hello'' 7 1
                    (quietHost\<lparr>responses := alwaysFail\<rparr>) emptyTrace))
       = [Posted (request exampleService ''hello''), Slept 2000,
          Posted (request exampleService ''hello''), Slept 4000,
          Posted (request exampleService ''hello'')]"
proof -
  let ?ha = "quietHost\<lparr>responses := failTwiceThenSucceed\<rparr>"
  let ?hb = "quietHost\<lparr>responses := alwaysFail\<rparr>"
  have a0: "handleOutcome (failTwiceThenSucceed 0) = Inl ''Network error: Unable to reach SMS API''"
    and a1: "handleOutcome (failTwiceThenSucceed 1) = Inl ''Authentication failed: Unknown error''"
    and a2: "handleOutcome (failTwiceThenSucceed 2)
        = Inr \<lparr>api_messageId = ''msg-1'', api_status = ''sent''\<rparr>"
    by (simp_all add: failTwiceThenSucceed_def errorText_def orElse_def Let_def)
  have s503: "showInt 503 = ''503''" by code_simp
  have b0: "handleOutcome (alwaysFail 0) = Inl ''Invalid request: Unknown error''"
    and b1: "handleOutcome (alwaysFail 1) = Inl ''API error (503): Unknown error''"
    and b2: "handleOutcome (alwaysFail 2) = Inl ''Network error: Unable to reach SMS API''"
    by (simp_all add: alwaysFail_def errorText_def orElse_def Let_def s503)
  have k: "length (posted (events emptyTrace)) = 0"
    by (simp add: emptyTrace_def)
  have ra: "responses ?ha = failTwiceThenSucceed" and rb: "responses ?hb = alwaysFail"
    by simp_all
  have fa1: "handleOutcome (responses ?ha (length (posted (events emptyTrace))))
      = Inl ''Network error: Unable to reach SMS API''"
    unfolding ra k by (rule a0)
  have fa2: "handleOutcome (responses ?ha (length (posted (events emptyTrace)) + 1))
      = Inl ''Authentication failed: Unknown error''"
    unfolding ra k add_0 by (rule a1)
  have fa3: "handleOutcome (responses ?ha (length (posted (events emptyTrace)) + 2))
      = Inr \<lparr>api_messageId = ''msg-1'', api_status = ''sent''\<rparr>"
    unfolding ra k add_0 by (rule a2)
  have fb1: "handleOutcome (responses ?hb (length (posted (events emptyTrace))))
      = Inl ''Invalid request: Unknown error''"
    unfolding rb k by (rule b0)
  have fb2: "handleOutcome (responses ?hb (length (posted (events emptyTrace)) + 1))
      = Inl ''API error (503): Unknown error''"
    unfolding rb k add_0 by (rule b1)
  have fb3: "handleOutcome (responses ?hb (length (posted (events emptyTrace)) + 2))
      = Inl ''Network error: Unable to reach SMS API''"
    unfolding rb k add_0 by (rule b2)
  note Ta = sendWithRetry_three_attempts [OF fa1 fa2, of exampleService "''hello''" 7]
  note Tb = sendWithRetry_three_attempts [OF fb1 fb2, of exampleService "''hello''" 7]
  from Ta [THEN conjunct1, rule_format, OF fa3]
  have A: "snd (sendWithRetry exampleService ''hello'' 7 1 ?ha emptyTrace)
      = \<lparr>success = True, messageId = Some ''msg-1'', error = None, timestamp = 7,
         attempts = Some 3\<rparr>"
    by simp
  from Tb [THEN conjunct2, THEN conjunct1, rule_format, OF fb3]
  have B: "snd (sendWithRetry exampleService ''hello'' 7 1 ?hb emptyTrace)
      = \<lparr>success = False, messageId = None,
         error = Some ''Network error: Unable to reach SMS API'', timestamp = 7,
         attempts = Some 3\<rparr>
    \<and> events (fst (sendWithRetry exampleService ''hello'' 7 1 ?hb emptyTrace))
      = [Posted (request exampleService ''hello''), Slept 2000,
         Posted (request exampleService ''hello''), Slept 4000,
         Posted (request exampleService ''hello'')]"
    by (simp add: events_emptyTrace)
  from a0 a1 a2 A b0 b1 b2 B show ?thesis by (intro conjI) simp_all
qed

section \<open>DeliveryClient: \<open>SMSService.sendBirthdayNotification\<close> without associates\<close>

text \<open>
  What \<open>sendWithRetry\<close> leaves in the trace: the first request and then pauses and further
  requests, all carrying the message it was given and at most \<open>3 - attempt\<close> of them after
  the first; the recorded notifications and log lines are untouched. The outcome carries
  an attempt count not below the attempt it started with.
\<close>

lemma sendWithRetry_trace:
  "\<exists>n es. attempts (snd (sendWithRetry svc message ts attempt h tr)) = Some n \<and> attempt \<le> n
     \<and> fst (sendWithRetry svc message ts attempt h tr)
         = tr\<lparr>events := events tr @ Posted (request svc message) # es\<rparr>
     \<and> set (posted es) \<subseteq> {request svc message}
     \<and> length (posted es) \<le> 3 - attempt"
proof (induction svc message ts attempt h tr rule: sendWithRetry.induct)
  case (1 svc message ts attempt h tr)
  let ?o = "handleOutcome (responses h (length (posted (events tr))))"
  let ?P = "\<lambda>n es. attempts (snd (sendWithRetry svc message ts attempt h tr)) = Some n
      \<and> attempt \<le> n
      \<and> fst (sendWithRetry svc message ts attempt h tr)
          = tr\<lparr>events := events tr @ Posted (request svc message) # es\<rparr>
      \<and> set (posted es) \<subseteq> {request svc message}
      \<and> length (posted es) \<le> 3 - attempt"
  show ?case
  proof (cases ?o)
    case (Inr result)
    from sendWithRetry_success [OF Inr, of svc message ts attempt]
    have "?P attempt []" by simp
    then show ?thesis by blast
  next
    case (Inl e)
    show ?thesis
    proof (cases "3 \<le> attempt")
      case True
      from sendWithRetry_exhausted [OF Inl True, of svc message ts]
      have "?P attempt []" by simp
      then show ?thesis by blast
    next
      case False
      then have lt: "attempt < 3" by simp
      let ?t' = "tr\<lparr>events := events tr @ [Posted (request svc message)]\<rparr>"
      let ?t'' = "delay (2 ^ attempt * 1000) ?t'"
      have "sendSMS svc message h tr = (?t', Inl e)" by (simp add: sendSMS_eq Inl)
      from "1.IH" [OF refl this [symmetric] refl False refl]
      obtain n es where ih:
        "attempts (snd (sendWithRetry svc message ts (attempt + 1) h ?t'')) = Some n"
        "attempt + 1 \<le> n"
        "fst (sendWithRetry svc message ts (attempt + 1) h ?t'')
           = ?t''\<lparr>events := events ?t'' @ Posted (request svc message) # es\<rparr>"
        "set (posted es) \<subseteq> {request svc message}"
        "length (posted es) \<le> 3 - (attempt + 1)"
        by blast
      have step: "sendWithRetry svc message ts attempt h tr
          = sendWithRetry svc message ts (attempt + 1) h ?t''"
        using sendWithRetry_retry [OF Inl lt, of svc message ts] by (simp add: delay_def)
      from ih lt have "?P n (Slept (2 ^ attempt * 1000) # Posted (request svc message) # es)"
        unfolding step by (simp add: delay_def)
      then show ?thesis by blast
    qed
  qed
qed

text \<open>
  Claim C10. For an absent or empty list of associates \<open>sendBirthdayNotification\<close> posts no
  request and takes no pause, and returns a failure with the text
  \<open>No associates provided for notification\<close>, the time of the call and no attempt count.
  For any other list a request is posted and the outcome carries an attempt count of at
  least 1; every outcome of \<open>sendWithRetry\<close> carries a count not below the attempt it
  started with.
\<close>

theorem sendBirthdayNotification_no_associates:
  "(associates = None \<or> associates = Some [] \<longrightarrow>
      snd (sendBirthdayNotification svc associates h tr) =
        \<lparr>success = False, messageId = None,
         error = Some ''No associates provided for notification'',
         timestamp = clock h, attempts = None\<rparr>
      \<and> events (fst (sendBirthdayNotification svc associates h tr)) = events tr)
   \<and> (associates \<noteq> None \<and> associates \<noteq> Some [] \<longrightarrow>
      (\<exists>n es. attempts (snd (sendBirthdayNotification svc associates h tr)) = Some n \<and> 1 \<le> n
         \<and> events (fst (sendBirthdayNotification svc associates h tr)) =
             events tr @ Posted (request svc (formatMessage associates)) # es))
   \<and> (\<exists>n. attempts (snd (sendWithRetry svc message ts attempt h tr)) = Some n \<and> attempt \<le> n)"
proof -
  have none: "snd (sendBirthdayNotification svc associates h tr) =
        \<lparr>success = False, messageId = None,
         error = Some ''No associates provided for notification'',
         timestamp = clock h, attempts = None\<rparr>
      \<and> events (fst (sendBirthdayNotification svc associates h tr)) = events tr"
    if "associates = None \<or> associates = Some []"
    using that by (auto simp: sendBirthdayNotification_def Let_def)
  have some: "\<exists>n es. attempts (snd (sendBirthdayNotification svc associates h tr)) = Some n \<and> 1 \<le> n
         \<and> events (fst (sendBirthdayNotification svc associates h tr)) =
             events tr @ Posted (request svc (formatMessage associates)) # es"
    if "associates \<noteq> None \<and> associates \<noteq> Some []"
  proof -
    let ?t = "tr\<lparr>notifications := notifications tr @ [associates]\<rparr>"
    from that have eq: "sendBirthdayNotification svc associates h tr =
        sendWithRetry svc (formatMessage associates) (clock h) 1 h ?t"
      by (auto simp: sendBirthdayNotification_def Let_def)
    from sendWithRetry_trace [of svc "formatMessage associates" "clock h" 1 h ?t]
    obtain n es where
      "attempts (snd (sendWithRetry svc (formatMessage associates) (clock h) 1 h ?t)) = Some n"
      "1 \<le> n"
      "fst (sendWithRetry svc (formatMessage associates) (clock h) 1 h ?t)
         = ?t\<lparr>events := events ?t @ Posted (request svc (formatMessage associates)) # es\<rparr>"
      by blast
    then show ?thesis unfolding eq by simp
  qed
  from sendWithRetry_trace [of svc message ts attempt h tr]
  have any: "\<exists>n. attempts (snd (sendWithRetry svc message ts attempt h tr)) = Some n \<and> attempt \<le> n"
    by blast
  from none some any show ?thesis by blast
qed

text \<open>The statement for \<open>null\<close>, for the empty list and for a list of one associate.\<close>

theorem sendBirthdayNotification_no_associates_witness:
  "snd (sendBirthdayNotification exampleService None quietHost emptyTrace) =
     \<lparr>success = False, messageId = None,
      error = Some ''No associates provided for notification'',
      timestamp = 1709164800000, attempts = None\<rparr>
   \<and> events (fst (sendBirthdayNotification exampleService None quietHost emptyTrace)) = []
   \<and> snd (sendBirthdayNotification exampleService (Some []) quietHost emptyTrace) =
     \<lparr>success = False, messageId = None,
      error = Some ''No associates provided for notification'',
      timestamp = 1709164800000, attempts = None\<rparr>
   \<and> (\<exists>n es. attempts (snd (sendBirthdayNotification exampleService (Some [leapBaby]) quietHost
                               emptyTrace))
              = Some n \<and> 1 \<le> n
         \<and> events (fst (sendBirthdayNotification exampleService (Some [leapBaby]) quietHost
                          emptyTrace)) =
             Posted (request exampleService (formatMessage (Some [leapBaby]))) # es)"
proof -
  have c: "clock quietHost = 1709164800000" and e: "events emptyTrace = []"
    by (simp_all add: quietHost_def emptyTrace_def)
  note T1 = sendBirthdayNotification_no_associates [of None exampleService quietHost emptyTrace]
  note T2 = sendBirthdayNotification_no_associates [of "Some []" exampleService quietHost emptyTrace]
  note T3 = sendBirthdayNotification_no_associates
    [of "Some [leapBaby]" exampleService quietHost emptyTrace]
  from T1 have a: "snd (sendBirthdayNotification exampleService None quietHost emptyTrace) =
     \<lparr>success = False, messageId = None,
      error = Some ''No associates provided for notification'',
      timestamp = 1709164800000, attempts = None\<rparr>
   \<and> events (fst (sendBirthdayNotification exampleService None quietHost emptyTrace)) = []"
    by (simp add: c e)
  from T2 have b: "snd (sendBirthdayNotification exampleService (Some []) quietHost emptyTrace) =
     \<lparr>success = False, messageId = None,
      error = Some ''No associates provided for notification'',
      timestamp = 1709164800000, attempts = None\<rparr>"
    by (simp add: c e)
  from T3 have d: "\<exists>n es. attempts (snd (sendBirthdayNotification exampleService (Some [leapBaby])
                                           quietHost emptyTrace))
              = Some n \<and> 1 \<le> n
         \<and> events (fst (sendBirthdayNotification exampleService (Some [leapBaby]) quietHost
                          emptyTrace)) =
             Posted (request exampleService (formatMessage (Some [leapBaby]))) # es"
    by (simp add: e)
  from a b d show ?thesis by simp
qed

section \<open>RecordIngestor: empty rows and rows without a name\<close>

text \<open>
  A parser with a logger, the initial values of the loop's variables, and the third row
  of the fixture \<open>invalid-data.xlsx\<close> of the tests (an empty name and a date).
\<close>

definition loggingParser :: excelParser where
  "loggingParser = \<lparr>parser_logger = True\<rparr>"

definition noRows :: ingestion where
  "noRows = \<lparr>collected = [], validRows = 0, skippedRows = 0\<rparr>"

definition missingNameRow :: row where
  "missingNameRow = Some [VStr [], VStr ''03/22/1985'']"

lemma showNat_3: "showNat 3 = ''3''"
  by code_simp

lemma missingNameRow_first_cell: "falsy (cell [VStr [], VStr ''03/22/1985''] 0)"
  by (simp add: cell_def)

lemma parseRow_missingNameRow:
  "parseRow utc isoDateParse loggingParser 2 missingNameRow noRows =
     (\<lparr>collected = [], validRows = 0, skippedRows = 1\<rparr>,
      [(''WARN'', ''Row 3: Missing or invalid name, skipping row'')])"
  by (simp add: parseRow_def missingNameRow_def loggingParser_def noRows_def cell_def
        invalidName_def logIf_def Let_def showNat_3 trim_def)

lemma parseRows_append:
  "parseRows tza hostParse parser i (before @ row # after) acc =
     (case parseRows tza hostParse parser i before acc of
        (a1, l1) \<Rightarrow>
          (case parseRow tza hostParse parser (i + length before) row a1 of
             (a2, l2) \<Rightarrow>
               (case parseRows tza hostParse parser (i + length before + 1) after a2 of
                  (a3, l3) \<Rightarrow> (a3, l1 @ l2 @ l3))))"
proof (induction before arbitrary: i acc)
  case Nil
  show ?case by (simp split: prod.splits)
next
  case (Cons r rs)
  show ?case
    by (simp add: Cons.IH split: prod.splits)
qed

lemma parseRow_silent:
  assumes "row = None \<or> row = Some [] \<or> (\<exists>c. row = Some [c] \<and> falsy c)"
  shows "parseRow tza hostParse parser i row acc = (acc, [])"
  using assms by (auto simp: parseRow_def cell_def)

lemma parseRow_missing_name:
  assumes "row = Some cells"
    and "\<not> (length cells = 0 \<or> (length cells = 1 \<and> falsy (cell cells 0)))"
    and "invalidName (cell cells 0)"
  shows "parseRow tza hostParse parser i row acc =
     (acc\<lparr>skippedRows := skippedRows acc + 1\<rparr>,
      logIf (parser_logger parser) ''WARN''
        (''Row '' @ showNat (i + 1) @ '': Missing or invalid name, skipping row''))"
  using assms by (auto simp: parseRow_def Let_def)

lemma parseFile_first_sheet:
  assumes "existsSync h (resolvePath h filePath)"
    and "toLowerCase (extname h (resolvePath h filePath)) = ''.xlsx''
         \<or> toLowerCase (extname h (resolvePath h filePath)) = ''.xls''"
    and "readWorkbook h (resolvePath h filePath) = Inr ((sheet, rows) # others)"
    and "sheet \<noteq> []"
  shows "snd (parseFile parser filePath h) =
     Inr (collected (fst (parseRows (localTZA h) (dateParser h) parser 0 rows
                            \<lparr>collected = [], validRows = 0, skippedRows = 0\<rparr>)))"
  using assms
  by (auto simp: parseFile_def parseFileTry_def Let_def split: prod.splits)

text \<open>
  Claim C9, as amended. In \<open>parseFile\<close>, for every row of the first sheet: a row that is
  absent, has no cell, or consists of one empty cell is skipped silently, without a line
  written and without being counted. Every other row whose first cell is empty, blank or
  not a text is skipped with the line \<open>Row N: Missing or invalid name, skipping row\<close>,
  where \<open>N\<close> is the 1-based number of the row, and is counted as skipped; this includes a
  row with an empty first cell followed by further cells. The row at position \<open>k\<close> of the
  sheet is handled with index \<open>k\<close>, and only the rows of the first sheet are read.
\<close>

theorem parseRow_empty_and_missing_name:
  "(row = None \<or> row = Some [] \<or> (\<exists>c. row = Some [c] \<and> falsy c) \<longrightarrow>
      parseRow tza hostParse parser i row acc = (acc, []))
   \<and> ((\<exists>cells. row = Some cells
          \<and> \<not> (length cells = 0 \<or> (length cells = 1 \<and> falsy (cell cells 0)))
          \<and> invalidName (cell cells 0)) \<longrightarrow>
      parseRow tza hostParse parser i row acc =
        (acc\<lparr>skippedRows := skippedRows acc + 1\<rparr>,
         logIf (parser_logger parser) ''WARN''
           (''Row '' @ showNat (i + 1) @ '': Missing or invalid name, skipping row'')))
   \<and> parseRows tza hostParse parser 0 (before @ row # after) acc =
       (case parseRows tza hostParse parser 0 before acc of
          (a1, l1) \<Rightarrow>
            (case parseRow tza hostParse parser (length before) row a1 of
               (a2, l2) \<Rightarrow>
                 (case parseRows tza hostParse parser (length before + 1) after a2 of
                    (a3, l3) \<Rightarrow> (a3, l1 @ l2 @ l3))))
   \<and> (existsSync h (resolvePath h filePath)
        \<and> (toLowerCase (extname h (resolvePath h filePath)) = ''.xlsx''
             \<or> toLowerCase (extname h (resolvePath h filePath)) = ''.xls'')
        \<and> readWorkbook h (resolvePath h filePath) = Inr ((sheet, rows) # others)
        \<and> sheet \<noteq> [] \<longrightarrow>
      snd (parseFile parser filePath h) =
        Inr (collected (fst (parseRows (localTZA h) (dateParser h) parser 0 rows
                               \<lparr>collected = [], validRows = 0, skippedRows = 0\<rparr>))))"
proof -
  note silent = parseRow_silent [of row tza hostParse parser i acc]
  note missing = parseRow_missing_name [of row _ tza hostParse parser i acc]
  note app = parseRows_append [of tza hostParse parser 0 before row after acc]
  note sheet1 = parseFile_first_sheet [of h filePath sheet rows others parser]
  from silent missing app sheet1 show ?thesis
    by (simp only: add_0) blast
qed


text \<open>
  The claim as stated fails at the row \<open>['', '03/22/1985']\<close>: its first cell is empty, yet
  the row is not skipped silently; it is counted and reported as row 3.
\<close>

theorem parseRow_empty_first_cell_counterexample:
  "falsy (cell [VStr [], VStr ''03/22/1985''] 0)
   \<and> parseRow utc isoDateParse loggingParser 2 missingNameRow noRows =
       (\<lparr>collected = [], validRows = 0, skippedRows = 1\<rparr>,
        [(''WARN'', ''Row 3: Missing or invalid name, skipping row'')])"
  by (intro conjI missingNameRow_first_cell parseRow_missingNameRow)

text \<open>The amended statement at an empty row, a single empty cell, an absent row and that row.\<close>

theorem parseRow_empty_and_missing_name_witness:
  "parseRow utc isoDateParse loggingParser 4 (Some []) noRows = (noRows, [])
   \<and> parseRow utc isoDateParse loggingParser 5 (Some [VStr []]) noRows = (noRows, [])
   \<and> parseRow utc isoDateParse loggingParser 6 None noRows = (noRows, [])
   \<and> invalidName (cell [VStr [], VStr ''03/22/1985''] 0)
   \<and> parseRow utc isoDateParse loggingParser 2 (Some [VStr [], VStr ''03/22/1985'']) noRows =
       (noRows\<lparr>skippedRows := 1\<rparr>,
        [(''WARN'', ''Row 3: Missing or invalid name, skipping row'')])"
proof -
  note T = parseRow_empty_and_missing_name
  from T [of "Some []" utc isoDateParse loggingParser 4 noRows]
  have a: "parseRow utc isoDateParse loggingParser 4 (Some []) noRows = (noRows, [])" by simp
  from T [of "Some [VStr []]" utc isoDateParse loggingParser 5 noRows]
  have b: "parseRow utc isoDateParse loggingParser 5 (Some [VStr []]) noRows = (noRows, [])"
    by simp
  from T [of None utc isoDateParse loggingParser 6 noRows]
  have c: "parseRow utc isoDateParse loggingParser 6 None noRows = (noRows, [])" by simp
  have d: "invalidName (cell [VStr [], VStr ''03/22/1985''] 0)"
    by (simp add: invalidName_def cell_def)
  from T [of "Some [VStr [], VStr ''03/22/1985'']" utc isoDateParse loggingParser 2 noRows] d
  have e: "parseRow utc isoDateParse loggingParser 2 (Some [VStr [], VStr ''03/22/1985'']) noRows =
       (noRows\<lparr>skippedRows := 1\<rparr>,
        [(''WARN'', ''Row 3: Missing or invalid name, skipping row'')])"
    by (simp add: logIf_def loggingParser_def showNat_3 noRows_def)
  from a b c d e show ?thesis by (intro conjI)
qed

section \<open>Orchestrator: \<open>BirthdayCheckService.performDailyCheck\<close>\<close>

subsection \<open>What a run leaves in the trace\<close>

lemma events_logs: "events (logs ls tr) = events tr"
  by (simp add: logs_def)

lemma notifications_logs: "notifications (logs ls tr) = notifications tr"
  by (simp add: logs_def)

lemma logs_logs: "logs b (logs a tr) = logs (a @ b) tr"
  by (simp add: logs_def)

lemma sendWithRetry_three_failures:
  assumes f1: "handleOutcome (responses h (length (posted (events tr)))) = Inl e1"
    and f2: "handleOutcome (responses h (length (posted (events tr)) + 1)) = Inl e2"
    and f3: "handleOutcome (responses h (length (posted (events tr)) + 2)) = Inl e3"
  shows "sendWithRetry sms message ts 1 h tr =
     (tr\<lparr>events := events tr @ [Posted (request sms message), Slept 2000,
                                  Posted (request sms message), Slept 4000,
                                  Posted (request sms message)]\<rparr>,
      \<lparr>success = False, messageId = None, error = Some e3, timestamp = ts,
       attempts = Some 3\<rparr>)"
proof -
  let ?r = "request sms message"
  let ?t1 = "tr\<lparr>events := events tr @ [Posted ?r, Slept 2000]\<rparr>"
  let ?t2 = "?t1\<lparr>events := events ?t1 @ [Posted ?r, Slept 4000]\<rparr>"
  have k1: "length (posted (events ?t1)) = length (posted (events tr)) + 1"
    by (simp add: posted_append)
  have k2: "length (posted (events ?t2)) = length (posted (events tr)) + 2"
    by (simp add: posted_append)
  have s1: "sendWithRetry sms message ts 1 h tr = sendWithRetry sms message ts 2 h ?t1"
    by (rule sendWithRetry_first [OF f1])
  have f2': "handleOutcome (responses h (length (posted (events ?t1)))) = Inl e2"
    unfolding k1 by (rule f2)
  have s2: "sendWithRetry sms message ts 2 h ?t1 = sendWithRetry sms message ts 3 h ?t2"
    by (rule sendWithRetry_second [OF f2'])
  have f3': "handleOutcome (responses h (length (posted (events ?t2)))) = Inl e3"
    unfolding k2 by (rule f3)
  from sendWithRetry_exhausted [OF f3' order_refl, of sms message ts]
  show ?thesis unfolding s1 s2 by simp
qed

lemma sendBirthdayNotification_trace:
  "\<exists>es. fst (sendBirthdayNotification sms associates h tr)
       = tr\<lparr>events := events tr @ es, notifications := notifications tr @ [associates]\<rparr>
     \<and> set (posted es) \<subseteq> {request sms (formatMessage associates)}
     \<and> length (posted es) \<le> 3
     \<and> (associates = None \<or> associates = Some [] \<or> posted es \<noteq> [])"
proof (cases "associates = None \<or> associates = Some []")
  case True
  then have "fst (sendBirthdayNotification sms associates h tr)
      = tr\<lparr>events := events tr @ [], notifications := notifications tr @ [associates]\<rparr>
    \<and> set (posted []) \<subseteq> {request sms (formatMessage associates)}
    \<and> length (posted []) \<le> 3"
    by (auto simp: sendBirthdayNotification_def Let_def)
  with True show ?thesis by blast
next
  case False
  let ?t = "tr\<lparr>notifications := notifications tr @ [associates]\<rparr>"
  let ?m = "formatMessage associates"
  from False have eq: "sendBirthdayNotification sms associates h tr =
      sendWithRetry sms ?m (clock h) 1 h ?t"
    by (auto simp: sendBirthdayNotification_def Let_def)
  from sendWithRetry_trace [of sms ?m "clock h" 1 h ?t]
  obtain es where es: "fst (sendWithRetry sms ?m (clock h) 1 h ?t)
        = ?t\<lparr>events := events ?t @ Posted (request sms ?m) # es\<rparr>"
      "set (posted es) \<subseteq> {request sms ?m}" "length (posted es) \<le> 3 - 1"
    by blast
  then have "fst (sendBirthdayNotification sms associates h tr)
      = tr\<lparr>events := events tr @ (Posted (request sms ?m) # es),
            notifications := notifications tr @ [associates]\<rparr>
    \<and> set (posted (Posted (request sms ?m) # es)) \<subseteq> {request sms ?m}
    \<and> length (posted (Posted (request sms ?m) # es)) \<le> 3
    \<and> posted (Posted (request sms ?m) # es) \<noteq> []"
    unfolding eq by simp
  then show ?thesis by blast
qed

text \<open>
  Step 4 calls \<open>sendBirthdayNotification\<close> once when there is an SMS service, and otherwise
  not at all; it reports a notification as sent only without an error message, and
  pushes exactly one message otherwise.
\<close>

lemma deliver_trace:
  "\<exists>es. events (fst (deliver svc cfg found h tr)) = events tr @ es
     \<and> (case smsService svc of
           None \<Rightarrow> es = []
              \<and> notifications (fst (deliver svc cfg found h tr)) = notifications tr
         | Some sms \<Rightarrow>
             notifications (fst (deliver svc cfg found h tr)) = notifications tr @ [Some found]
             \<and> set (posted es) \<subseteq> {request sms (formatMessage (Some found))}
             \<and> length (posted es) \<le> 3
             \<and> (found = [] \<or> posted es \<noteq> []))"
proof (cases "smsService svc")
  case None
  then have "events (fst (deliver svc cfg found h tr)) = events tr @ []
      \<and> notifications (fst (deliver svc cfg found h tr)) = notifications tr"
    by (simp add: deliver_def Let_def events_logs notifications_logs)
  with None show ?thesis by simp
next
  case (Some sms)
  let ?t1 = "logs (logIf (logger svc) ''INFO'' ''Sending birthday notification SMS...'') tr"
  obtain tr2 res where sb: "sendBirthdayNotification sms (Some found) h ?t1 = (tr2, res)"
    by (cases "sendBirthdayNotification sms (Some found) h ?t1")
  from sendBirthdayNotification_trace [of sms "Some found" h ?t1] sb
  obtain es where es: "tr2 = ?t1\<lparr>events := events ?t1 @ es,
        notifications := notifications ?t1 @ [Some found]\<rparr>"
      "set (posted es) \<subseteq> {request sms (formatMessage (Some found))}"
      "length (posted es) \<le> 3" "found = [] \<or> posted es \<noteq> []"
    by auto
  have "\<exists>L. fst (deliver svc cfg found h tr) = logs L tr2"
    using Some sb by (simp add: deliver_def Let_def) blast
  then obtain L where "fst (deliver svc cfg found h tr) = logs L tr2" ..
  with es have "events (fst (deliver svc cfg found h tr)) = events tr @ es
      \<and> notifications (fst (deliver svc cfg found h tr)) = notifications tr @ [Some found]"
    by (simp add: events_logs notifications_logs)
  with es Some show ?thesis by auto
qed

lemma deliver_outcome:
  "(fst (snd (deliver svc cfg found h tr)) \<longrightarrow> snd (snd (deliver svc cfg found h tr)) = [])
   \<and> (\<not> fst (snd (deliver svc cfg found h tr))
        \<longrightarrow> length (snd (snd (deliver svc cfg found h tr))) = 1)"
  by (simp add: deliver_def Let_def split: option.splits prod.splits)

lemma deliver_three_failures:
  assumes sms: "smsService svc = Some sms"
    and found: "found \<noteq> []"
    and f1: "handleOutcome (responses h (length (posted (events tr)))) = Inl e1"
    and f2: "handleOutcome (responses h (length (posted (events tr)) + 1)) = Inl e2"
    and f3: "handleOutcome (responses h (length (posted (events tr)) + 2)) = Inl e3"
  shows "snd (deliver svc cfg found h tr) = (False, [''SMS notification failed: '' @ e3])"
    and "events (fst (deliver svc cfg found h tr)) =
           events tr @ [Posted (request sms (formatMessage (Some found))), Slept 2000,
                        Posted (request sms (formatMessage (Some found))), Slept 4000,
                        Posted (request sms (formatMessage (Some found)))]"
proof -
  let ?t1 = "logs (logIf (logger svc) ''INFO'' ''Sending birthday notification SMS...'') tr"
  let ?t = "?t1\<lparr>notifications := notifications ?t1 @ [Some found]\<rparr>"
  let ?m = "formatMessage (Some found)"
  have ev: "events ?t = events tr" by (simp add: events_logs)
  from found have eq: "sendBirthdayNotification sms (Some found) h ?t1 =
      sendWithRetry sms ?m (clock h) 1 h ?t"
    unfolding sendBirthdayNotification_def Let_def by simp
  have sw: "sendWithRetry sms ?m (clock h) 1 h ?t =
     (?t\<lparr>events := events ?t @ [Posted (request sms ?m), Slept 2000,
                                  Posted (request sms ?m), Slept 4000,
                                  Posted (request sms ?m)]\<rparr>,
      \<lparr>success = False, messageId = None, error = Some e3, timestamp = clock h,
       attempts = Some 3\<rparr>)"
    by (rule sendWithRetry_three_failures [where ?e1.0 = e1 and ?e2.0 = e2])
       (simp_all only: ev f1 f2 f3)
  note sb = eq [unfolded sw]
  show "snd (deliver svc cfg found h tr) = (False, [''SMS notification failed: '' @ e3])"
    by (simp add: deliver_def Let_def sms sb)
  show "events (fst (deliver svc cfg found h tr)) =
           events tr @ [Posted (request sms ?m), Slept 2000,
                        Posted (request sms ?m), Slept 4000,
                        Posted (request sms ?m)]"
    by (simp add: deliver_def Let_def sms sb events_logs)
qed

lemma deliver_first_success:
  assumes sms: "smsService svc = Some sms"
    and found: "found \<noteq> []"
    and ok: "handleOutcome (responses h (length (posted (events tr)))) = Inr result"
  shows "snd (deliver svc cfg found h tr) = (True, [])"
    and "events (fst (deliver svc cfg found h tr)) =
           events tr @ [Posted (request sms (formatMessage (Some found)))]"
proof -
  let ?t1 = "logs (logIf (logger svc) ''INFO'' ''Sending birthday notification SMS...'') tr"
  let ?t = "?t1\<lparr>notifications := notifications ?t1 @ [Some found]\<rparr>"
  let ?m = "formatMessage (Some found)"
  have ev: "events ?t = events tr" by (simp add: events_logs)
  from found have eq: "sendBirthdayNotification sms (Some found) h ?t1 =
      sendWithRetry sms ?m (clock h) 1 h ?t"
    unfolding sendBirthdayNotification_def Let_def by simp
  have ok': "handleOutcome (responses h (length (posted (events ?t)))) = Inr result"
    unfolding ev by (rule ok)
  note sb = eq [unfolded sendWithRetry_success [OF ok', of sms ?m "clock h" 1]]
  show "snd (deliver svc cfg found h tr) = (True, [])"
    by (simp add: deliver_def Let_def sms sb)
  show "events (fst (deliver svc cfg found h tr)) = events tr @ [Posted (request sms ?m)]"
    by (simp add: deliver_def Let_def sms sb events_logs)
qed

subsection \<open>The ways through \<open>performDailyCheck\<close>\<close>

text \<open>
  A run ends in the outer \<open>catch\<close> (initialisation fails, or there is no configuration to
  read the path from), in the \<open>catch\<close> of step 2 or of step 3, or it reaches the summary,
  without a delivery when no birthday was found and after one otherwise. \<open>L\<close> and \<open>L'\<close>
  stand for the lines written on the way.
\<close>

lemma performDailyCheck_init_failure:
  assumes "ensureInitialized svc h = (svc1, l1, Inl m)"
  shows "\<exists>L. performDailyCheck svc h tr =
     (svc1, logs L tr,
      Inr \<lparr>totalAssociatesChecked = 0, birthdaysFound = [], notificationSent = False,
           errors = [''Unexpected error during birthday check: '' @ m]\<rparr>)"
  using assms
  by (simp add: performDailyCheck_def Let_def catchUnexpected_def logs_logs) blast

lemma performDailyCheck_no_config:
  assumes "ensureInitialized svc h = (svc1, l1, Inr u)" and "config svc1 = None"
  shows "\<exists>L. performDailyCheck svc h tr =
     (svc1, logs L tr,
      Inr \<lparr>totalAssociatesChecked = 0, birthdaysFound = [], notificationSent = False,
           errors = [''Unexpected error during birthday check: ''
                       @ typeErrorNull ''excelFilePath'']\<rparr>)"
  using assms
  by (simp add: performDailyCheck_def Let_def catchUnexpected_def logs_logs) blast

lemma performDailyCheck_load_failure:
  assumes "ensureInitialized svc h = (svc1, l1, Inr u)" and "config svc1 = Some cfg"
    and "loadAssociates svc1 cfg h = (l2, Inl m)"
  shows "\<exists>L. performDailyCheck svc h tr =
     (svc1, logs L tr,
      Inr \<lparr>totalAssociatesChecked = 0, birthdaysFound = [], notificationSent = False,
           errors = [''Failed to parse Excel file: '' @ m]\<rparr>)"
  using assms by (simp add: performDailyCheck_def Let_def logs_logs) blast

lemma performDailyCheck_match_failure:
  assumes "ensureInitialized svc h = (svc1, l1, Inr u)" and "config svc1 = Some cfg"
    and "loadAssociates svc1 cfg h = (l2, Inr associates)"
    and "matchBirthdays svc1 associates h = (l3, Inl m)"
  shows "\<exists>L. performDailyCheck svc h tr =
     (svc1, logs L tr,
      Inr \<lparr>totalAssociatesChecked = length associates, birthdaysFound = [],
           notificationSent = False, errors = [''Failed to match birthdays: '' @ m]\<rparr>)"
  using assms by (simp add: performDailyCheck_def Let_def logs_logs) blast

lemma performDailyCheck_no_birthdays:
  assumes "ensureInitialized svc h = (svc1, l1, Inr u)" and "config svc1 = Some cfg"
    and "loadAssociates svc1 cfg h = (l2, Inr associates)"
    and "matchBirthdays svc1 associates h = (l3, Inr [])"
  shows "\<exists>L. performDailyCheck svc h tr =
     (svc1, logs L tr,
      Inr \<lparr>totalAssociatesChecked = length associates, birthdaysFound = [],
           notificationSent = False, errors = []\<rparr>)"
  using assms by (simp add: performDailyCheck_def Let_def summarize_def logs_logs) blast

lemma performDailyCheck_delivery:
  assumes "ensureInitialized svc h = (svc1, l1, Inr u)" and "config svc1 = Some cfg"
    and "loadAssociates svc1 cfg h = (l2, Inr associates)"
    and "matchBirthdays svc1 associates h = (l3, Inr found)" and "found \<noteq> []"
  shows "\<exists>L L'. performDailyCheck svc h tr =
     (svc1, logs L' (fst (deliver svc1 cfg found h (logs L tr))),
      Inr \<lparr>totalAssociatesChecked = length associates, birthdaysFound = found,
           notificationSent = fst (snd (deliver svc1 cfg found h (logs L tr))),
           errors = snd (snd (deliver svc1 cfg found h (logs L tr)))\<rparr>)"
  using assms
  by (simp add: performDailyCheck_def Let_def summarize_def logs_logs split: prod.splits)
     (metis fst_conv snd_conv)

lemma performDailyCheck_paths:
  "(\<exists>svc' L r. performDailyCheck svc h tr = (svc', logs L tr, Inr r)
       \<and> birthdaysFound r = [] \<and> \<not> notificationSent r)
   \<or> (\<exists>svc' cfg found L L' n. found \<noteq> []
       \<and> performDailyCheck svc h tr =
           (svc', logs L' (fst (deliver svc' cfg found h (logs L tr))),
            Inr \<lparr>totalAssociatesChecked = n, birthdaysFound = found,
                 notificationSent = fst (snd (deliver svc' cfg found h (logs L tr))),
                 errors = snd (snd (deliver svc' cfg found h (logs L tr)))\<rparr>))"
proof -
  obtain svc1 l1 out where ei: "ensureInitialized svc h = (svc1, l1, out)"
    by (cases "ensureInitialized svc h")
  show ?thesis
  proof (cases out)
    case (Inl m)
    from performDailyCheck_init_failure [OF ei [unfolded Inl], of tr]
    show ?thesis by fastforce
  next
    case (Inr u)
    note ei' = ei [unfolded Inr]
    show ?thesis
    proof (cases "config svc1")
      case None
      from performDailyCheck_no_config [OF ei' None, of tr]
      show ?thesis by fastforce
    next
      case (Some cfg)
      obtain l2 loaded where la: "loadAssociates svc1 cfg h = (l2, loaded)"
        by (cases "loadAssociates svc1 cfg h")
      show ?thesis
      proof (cases loaded)
        case (Inl m)
        from performDailyCheck_load_failure [OF ei' Some la [unfolded Inl], of tr]
        show ?thesis by fastforce
      next
        case associates: (Inr associates)
        note la' = la [unfolded associates]
        obtain l3 matched where mb: "matchBirthdays svc1 associates h = (l3, matched)"
          by (cases "matchBirthdays svc1 associates h")
        show ?thesis
        proof (cases matched)
          case (Inl m)
          from performDailyCheck_match_failure [OF ei' Some la' mb [unfolded Inl], of tr]
          show ?thesis by fastforce
        next
          case found: (Inr found)
          note mb' = mb [unfolded found]
          show ?thesis
          proof (cases "found = []")
            case True
            from performDailyCheck_no_birthdays [OF ei' Some la' mb' [unfolded True], of tr]
            show ?thesis by fastforce
          next
            case False
            from performDailyCheck_delivery [OF ei' Some la' mb' False, of tr] False
            show ?thesis by blast
          qed
        qed
      qed
    qed
  qed
qed

lemma performDailyCheck_three_failures:
  assumes init: "ensureInitialized svc h = (svc1, l1, Inr u)"
    and cfg: "config svc1 = Some cfg"
    and la: "loadAssociates svc1 cfg h = (l2, Inr associates)"
    and mb: "matchBirthdays svc1 associates h = (l3, Inr found)"
    and found: "found \<noteq> []"
    and sms: "smsService svc1 = Some sms"
    and f1: "handleOutcome (responses h (length (posted (events tr)))) = Inl e1"
    and f2: "handleOutcome (responses h (length (posted (events tr)) + 1)) = Inl e2"
    and f3: "handleOutcome (responses h (length (posted (events tr)) + 2)) = Inl e3"
  shows "performDailyCheck svc h tr =
           (svc1, fst (snd (performDailyCheck svc h tr)),
            Inr \<lparr>totalAssociatesChecked = length associates, birthdaysFound = found,
                 notificationSent = False,
                 errors = [''SMS notification failed: '' @ e3]\<rparr>)
         \<and> events (fst (snd (performDailyCheck svc h tr))) =
             events tr @ [Posted (request sms (formatMessage (Some found))), Slept 2000,
                          Posted (request sms (formatMessage (Some found))), Slept 4000,
                          Posted (request sms (formatMessage (Some found)))]
         \<and> notifications (fst (snd (performDailyCheck svc h tr))) =
             notifications tr @ [Some found]"
proof -
  from performDailyCheck_delivery [OF init cfg la mb found, of tr]
  obtain L L' where pd: "performDailyCheck svc h tr =
     (svc1, logs L' (fst (deliver svc1 cfg found h (logs L tr))),
      Inr \<lparr>totalAssociatesChecked = length associates, birthdaysFound = found,
           notificationSent = fst (snd (deliver svc1 cfg found h (logs L tr))),
           errors = snd (snd (deliver svc1 cfg found h (logs L tr)))\<rparr>)"
    by blast
  have ev: "events (logs L tr) = events tr" by (rule events_logs)
  note d = deliver_three_failures [OF sms found, of h "logs L tr" e1 e2 e3 cfg, unfolded ev,
      OF f1 f2 f3]
  from deliver_trace [of svc1 cfg found h "logs L tr"] sms
  have nt: "notifications (fst (deliver svc1 cfg found h (logs L tr))) =
      notifications tr @ [Some found]"
    by (auto simp: notifications_logs)
  from d nt show ?thesis unfolding pd by (simp add: events_logs notifications_logs)
qed

lemma performDailyCheck_first_success:
  assumes init: "ensureInitialized svc h = (svc1, l1, Inr u)"
    and cfg: "config svc1 = Some cfg"
    and la: "loadAssociates svc1 cfg h = (l2, Inr associates)"
    and mb: "matchBirthdays svc1 associates h = (l3, Inr found)"
    and found: "found \<noteq> []"
    and sms: "smsService svc1 = Some sms"
    and ok: "handleOutcome (responses h (length (posted (events tr)))) = Inr result"
  shows "performDailyCheck svc h tr =
           (svc1, fst (snd (performDailyCheck svc h tr)),
            Inr \<lparr>totalAssociatesChecked = length associates, birthdaysFound = found,
                 notificationSent = True, errors = []\<rparr>)
         \<and> events (fst (snd (performDailyCheck svc h tr))) =
             events tr @ [Posted (request sms (formatMessage (Some found)))]"
proof -
  from performDailyCheck_delivery [OF init cfg la mb found, of tr]
  obtain L L' where pd: "performDailyCheck svc h tr =
     (svc1, logs L' (fst (deliver svc1 cfg found h (logs L tr))),
      Inr \<lparr>totalAssociatesChecked = length associates, birthdaysFound = found,
           notificationSent = fst (snd (deliver svc1 cfg found h (logs L tr))),
           errors = snd (snd (deliver svc1 cfg found h (logs L tr)))\<rparr>)"
    by blast
  have ev: "events (logs L tr) = events tr" by (rule events_logs)
  note d = deliver_first_success [OF sms found, of h "logs L tr" result cfg, unfolded ev, OF ok]
  from d show ?thesis unfolding pd by (simp add: events_logs)
qed

lemma loadAssociates_parseFile:
  assumes "excelParser svc = Some parser"
    and "snd (parseFile parser (excelFilePath cfg) h) = Inr associates"
  shows "\<exists>l2. loadAssociates svc cfg h = (l2, Inr associates)"
proof -
  obtain lines where "parseFile parser (excelFilePath cfg) h = (lines, Inr associates)"
    using assms(2) by (cases "parseFile parser (excelFilePath cfg) h") simp
  with assms(1) show ?thesis by (simp add: loadAssociates_def Let_def)
qed

lemma matchBirthdays_findBirthdaysToday:
  assumes "dateMatcher svc"
  shows "\<exists>l3. matchBirthdays svc associates h =
           (l3, Inr (findBirthdaysToday (localTZA h) (clock h) (Some associates)))"
  using assms by (simp add: matchBirthdays_def Let_def)

lemma foldl_append_concat:
  "foldl (\<lambda>message a. message @ f a) acc arr = acc @ concat (map f arr)"
  by (induction arr arbitrary: acc) simp_all

lemma formatMessage_names:
  assumes "arr \<noteq> []"
  shows "formatMessage (Some arr) =
     trim (''Birthday Alert! Today'' @ [apostrophe] @ ''s birthdays:'' @ [newline]
             @ concat (map (\<lambda>a. ''- '' @ name a @ [newline]) arr))"
proof -
  have "foldl (\<lambda>message a. message @ ''- '' @ name a @ [newline])
          (''Birthday Alert! Today'' @ [apostrophe] @ ''s birthdays:'' @ [newline]) arr
        = (''Birthday Alert! Today'' @ [apostrophe] @ ''s birthdays:'' @ [newline])
            @ concat (map (\<lambda>a. ''- '' @ name a @ [newline]) arr)"
    by (rule foldl_append_concat)
  with assms show ?thesis by (simp add: formatMessage_def)
qed

subsection \<open>Concrete runs\<close>

text \<open>
  A workbook like the fixtures of the tests (a header, two valid rows and a row without a
  name), a host that has it and a complete environment but no reachable endpoint, and
  variants: the endpoint answers, the workbook cannot be read, the clock shows another
  day. \<open>newService\<close> is a service as the constructor leaves it, without a logger;
  \<open>readyService\<close> is what \<open>initialize\<close> makes of it on these hosts, and \<open>halfBuiltService\<close>
  lacks the date matcher.
\<close>

definition fixtureRows :: "row list" where
  "fixtureRows =
     [Some [VStr ''Name'', VStr ''Date of Birth''],
      Some [VStr ''Leap Year Baby'', VStr ''02/29/2000''],
      Some [VStr [], VStr ''03/22/1985''],
      Some [VStr ''Another Valid'', VStr ''12-05-1988'']]"

definition fixtureHost :: host where
  "fixtureHost =
     quietHost\<lparr>environment :=
                  [''EXCEL_FILE_PATH'' \<mapsto> ''/data/associates.xlsx'',
                   ''RECIPIENT_MOBILE_NUMBER'' \<mapsto> ''+1234567890'',
                   ''SMS_API_URL'' \<mapsto> ''https://api.example.com/sms'',
                   ''SMS_API_KEY'' \<mapsto> ''test-api-key'',
                   ''SMS_SENDER_ID'' \<mapsto> ''BirthdayBot''],
               existsSync := (\<lambda>p. p = ''/data/associates.xlsx''),
               extname := (\<lambda>p. ''.xlsx''),
               readWorkbook := (\<lambda>p. Inr [(''Associates'', fixtureRows)])\<rparr>"

definition unreadableHost :: host where
  "unreadableHost = fixtureHost\<lparr>readWorkbook := (\<lambda>p. Inl ''File is password-protected'')\<rparr>"

definition answeringHost :: host where
  "answeringHost =
     fixtureHost\<lparr>responses :=
                   (\<lambda>k. Resolved 200 (Some \<lparr>data_messageId = Some ''msg-1'', data_id = None,
                                               data_status = None\<rparr>))\<rparr>"

definition ordinaryDayHost :: host where
  "ordinaryDayHost = fixtureHost\<lparr>clock := 1709251200000\<rparr>"

definition newService :: birthdayCheckService where
  "newService =
     \<lparr>logger = False, config = None, excelParser = None, dateMatcher = False,
      smsService = None\<rparr>"

definition fixtureConfig :: configuration where
  "fixtureConfig =
     \<lparr>excelFilePath = ''/data/associates.xlsx'', recipientMobileNumber = ''+1234567890'',
      smsApiUrl = ''https://api.example.com/sms'', smsApiKey = ''test-api-key'',
      smsSenderId = ''BirthdayBot'', scheduledTime = ''09:00'', logLevel = ''INFO'',
      logFilePath = ''./logs/birthday-system.log''\<rparr>"

definition readyService :: birthdayCheckService where
  "readyService =
     \<lparr>logger = False, config = Some fixtureConfig,
      excelParser = Some \<lparr>parser_logger = False\<rparr>, dateMatcher = True,
      smsService = Some exampleService\<rparr>"

definition halfBuiltService :: birthdayCheckService where
  "halfBuiltService = readyService\<lparr>dateMatcher := False\<rparr>"

definition fixtureLeapBaby :: associate where
  "fixtureLeapBaby =
     \<lparr>name = ''Leap Year Baby'', dateOfBirth = VDate (TimeValue 951782400000),
      rowNumber = 2\<rparr>"

definition fixtureAssociates :: "associate list" where
  "fixtureAssociates =
     [fixtureLeapBaby,
      \<lparr>name = ''Another Valid'', dateOfBirth = VDate (TimeValue 597283200000),
       rowNumber = 4\<rparr>]"

lemma validate_quietHost:
  "validate quietHost (loadFromEnvironment quietHost) =
     [''Excel file path is required (EXCEL_FILE_PATH)'',
      ''Recipient mobile number is required (RECIPIENT_MOBILE_NUMBER)'',
      ''SMS API URL is required (SMS_API_URL)'',
      ''SMS API key is required (SMS_API_KEY)'',
      ''SMS sender ID is required (SMS_SENDER_ID)'']"
  by code_simp

lemma ensureInitialized_quietHost:
  "ensureInitialized newService quietHost =
     (newService\<lparr>config := Some (loadFromEnvironment quietHost)\<rparr>, [],
      Inl (''Configuration validation failed:'' @ [newline]
            @ bulletLines (validate quietHost (loadFromEnvironment quietHost))))"
  by code_simp

lemma ensureInitialized_fixtureHost:
  "ensureInitialized newService fixtureHost = (readyService, [], Inr ())"
  by code_simp

lemma ensureInitialized_unreadableHost:
  "ensureInitialized newService unreadableHost = (readyService, [], Inr ())"
  by code_simp

lemma ensureInitialized_answeringHost:
  "ensureInitialized newService answeringHost = (readyService, [], Inr ())"
  by code_simp

lemma ensureInitialized_ordinaryDayHost:
  "ensureInitialized newService ordinaryDayHost = (readyService, [], Inr ())"
  by code_simp

lemma ensureInitialized_halfBuiltService:
  "ensureInitialized halfBuiltService fixtureHost = (halfBuiltService, [], Inr ())"
  by code_simp

lemma config_readyService: "config readyService = Some fixtureConfig"
  by (simp add: readyService_def)

lemma config_halfBuiltService: "config halfBuiltService = Some fixtureConfig"
  by (simp add: halfBuiltService_def readyService_def)

lemma smsService_readyService: "smsService readyService = Some exampleService"
  by (simp add: readyService_def)

lemma parseFile_fixtureHost:
  "parseFile \<lparr>parser_logger = False\<rparr> ''/data/associates.xlsx'' fixtureHost
     = ([], Inr fixtureAssociates)"
  by code_simp

lemma findBirthdaysToday_fixture:
  "findBirthdaysToday utc 1709164800000 (Some fixtureAssociates) = [fixtureLeapBaby]"
  by code_simp

lemma loadAssociates_fixtureHost:
  "loadAssociates readyService fixtureConfig fixtureHost = ([], Inr fixtureAssociates)"
  by code_simp

lemma loadAssociates_answeringHost:
  "loadAssociates readyService fixtureConfig answeringHost = ([], Inr fixtureAssociates)"
  by code_simp

lemma loadAssociates_ordinaryDayHost:
  "loadAssociates readyService fixtureConfig ordinaryDayHost = ([], Inr fixtureAssociates)"
  by code_simp

lemma loadAssociates_halfBuiltService:
  "loadAssociates halfBuiltService fixtureConfig fixtureHost = ([], Inr fixtureAssociates)"
  by code_simp

lemma loadAssociates_unreadableHost:
  "loadAssociates readyService fixtureConfig unreadableHost
     = ([], Inl ''Failed to parse Excel file: File is password-protected'')"
  by code_simp

lemma matchBirthdays_fixtureHost:
  "matchBirthdays readyService fixtureAssociates fixtureHost = ([], Inr [fixtureLeapBaby])"
  by code_simp

lemma matchBirthdays_answeringHost:
  "matchBirthdays readyService fixtureAssociates answeringHost
     = ([], Inr [fixtureLeapBaby])"
  by code_simp

lemma matchBirthdays_ordinaryDayHost:
  "matchBirthdays readyService fixtureAssociates ordinaryDayHost = ([], Inr [])"
  by code_simp

lemma matchBirthdays_halfBuiltService:
  "matchBirthdays halfBuiltService fixtureAssociates fixtureHost
     = ([], Inl (typeErrorNull ''findBirthdaysToday''))"
  by code_simp

lemma responses_fixtureHost:
  "handleOutcome (responses fixtureHost (length (posted (events emptyTrace)) + k))
     = Inl ''Network error: Unable to reach SMS API''"
  by (simp add: fixtureHost_def quietHost_def)

lemma responses_answeringHost:
  "handleOutcome (responses answeringHost (length (posted (events emptyTrace))))
     = Inr \<lparr>api_messageId = ''msg-1'', api_status = ''sent''\<rparr>"
  by (simp add: answeringHost_def orElse_def)

lemma length_fixtureAssociates: "length fixtureAssociates = 2"
  by (simp add: fixtureAssociates_def)

lemma formatMessage_fixtureLeapBaby:
  "formatMessage (Some [fixtureLeapBaby]) =
     ''Birthday Alert! Today'' @ [apostrophe] @ ''s birthdays:'' @ [newline]
       @ ''- Leap Year Baby''"
  by code_simp

lemma run_fixtureHost:
  "performDailyCheck newService fixtureHost emptyTrace =
     (readyService, fst (snd (performDailyCheck newService fixtureHost emptyTrace)),
      Inr \<lparr>totalAssociatesChecked = 2, birthdaysFound = [fixtureLeapBaby],
           notificationSent = False,
           errors = [''SMS notification failed: Network error: Unable to reach SMS API'']\<rparr>)"
proof -
  have f1: "handleOutcome (responses fixtureHost (length (posted (events emptyTrace))))
      = Inl ''Network error: Unable to reach SMS API''"
    using responses_fixtureHost [of 0] by simp
  from performDailyCheck_three_failures [OF ensureInitialized_fixtureHost config_readyService
      loadAssociates_fixtureHost matchBirthdays_fixtureHost _ smsService_readyService
      f1 responses_fixtureHost responses_fixtureHost]
  show ?thesis by (simp add: length_fixtureAssociates)
qed

lemma run_answeringHost:
  "performDailyCheck newService answeringHost emptyTrace =
     (readyService, fst (snd (performDailyCheck newService answeringHost emptyTrace)),
      Inr \<lparr>totalAssociatesChecked = 2, birthdaysFound = [fixtureLeapBaby],
           notificationSent = True, errors = []\<rparr>)"
  using performDailyCheck_first_success [OF ensureInitialized_answeringHost config_readyService
      loadAssociates_answeringHost matchBirthdays_answeringHost _ smsService_readyService
      responses_answeringHost]
  by (simp add: length_fixtureAssociates)

lemma run_ordinaryDayHost:
  "snd (snd (performDailyCheck newService ordinaryDayHost emptyTrace)) =
     Inr \<lparr>totalAssociatesChecked = 2, birthdaysFound = [], notificationSent = False,
          errors = []\<rparr>"
  using performDailyCheck_no_birthdays [OF ensureInitialized_ordinaryDayHost config_readyService
      loadAssociates_ordinaryDayHost matchBirthdays_ordinaryDayHost, of emptyTrace]
  by (auto simp: length_fixtureAssociates)

subsection \<open>The run always returns a result\<close>

text \<open>
  Claim C1. For every state of the service, every host and every trace,
  \<open>performDailyCheck\<close> returns a result object with its four fields; no error leaves the
  method. When initialisation fails the result is all-zero with the one entry
  \<open>Unexpected error during birthday check: ...\<close>; when reading the workbook fails it is
  all-zero with the one entry \<open>Failed to parse Excel file: ...\<close>; when matching fails it
  carries the number of associates read, no birthdays and the one entry
  \<open>Failed to match birthdays: ...\<close>. A result that reports the notification as sent has no
  error entry, a result with birthdays and no notification sent has exactly one, and no
  result has more than one. The logger of the service is absent or the \<open>Logger\<close> of the
  repository, whose \<open>log\<close> returns for every level and message.
\<close>

theorem performDailyCheck_always_returns:
  "\<exists>svc' tr' r. performDailyCheck svc h tr = (svc', tr', Inr r)
     \<and> (\<forall>svc1 l1 m. ensureInitialized svc h = (svc1, l1, Inl m) \<longrightarrow>
          r = \<lparr>totalAssociatesChecked = 0, birthdaysFound = [], notificationSent = False,
               errors = [''Unexpected error during birthday check: '' @ m]\<rparr>)
     \<and> (\<forall>svc1 l1 u cfg l2 m.
          ensureInitialized svc h = (svc1, l1, Inr u) \<and> config svc1 = Some cfg
            \<and> loadAssociates svc1 cfg h = (l2, Inl m) \<longrightarrow>
          r = \<lparr>totalAssociatesChecked = 0, birthdaysFound = [], notificationSent = False,
               errors = [''Failed to parse Excel file: '' @ m]\<rparr>)
     \<and> (\<forall>svc1 l1 u cfg l2 associates l3 m.
          ensureInitialized svc h = (svc1, l1, Inr u) \<and> config svc1 = Some cfg
            \<and> loadAssociates svc1 cfg h = (l2, Inr associates)
            \<and> matchBirthdays svc1 associates h = (l3, Inl m) \<longrightarrow>
          r = \<lparr>totalAssociatesChecked = length associates, birthdaysFound = [],
               notificationSent = False, errors = [''Failed to match birthdays: '' @ m]\<rparr>)
     \<and> (notificationSent r \<longrightarrow> errors r = [])
     \<and> (birthdaysFound r \<noteq> [] \<and> \<not> notificationSent r \<longrightarrow> length (errors r) = 1)
     \<and> length (errors r) \<le> 1"
proof -
  obtain svc1 l1 out where ei: "ensureInitialized svc h = (svc1, l1, out)"
    by (cases "ensureInitialized svc h")
  show ?thesis
  proof (cases out)
    case (Inl m)
    from performDailyCheck_init_failure [OF ei [unfolded Inl], of tr]
    obtain L where "performDailyCheck svc h tr =
       (svc1, logs L tr,
        Inr \<lparr>totalAssociatesChecked = 0, birthdaysFound = [], notificationSent = False,
             errors = [''Unexpected error during birthday check: '' @ m]\<rparr>)" ..
    then show ?thesis by (simp add: ei Inl)
  next
    case (Inr u)
    note ei' = ei [unfolded Inr]
    show ?thesis
    proof (cases "config svc1")
      case None
      from performDailyCheck_no_config [OF ei' None, of tr]
      obtain L where "performDailyCheck svc h tr =
         (svc1, logs L tr,
          Inr \<lparr>totalAssociatesChecked = 0, birthdaysFound = [], notificationSent = False,
               errors = [''Unexpected error during birthday check: ''
                           @ typeErrorNull ''excelFilePath'']\<rparr>)" ..
      then show ?thesis by (simp add: ei Inr None)
    next
      case (Some cfg)
      obtain l2 loaded where la: "loadAssociates svc1 cfg h = (l2, loaded)"
        by (cases "loadAssociates svc1 cfg h")
      show ?thesis
      proof (cases loaded)
        case (Inl m)
        from performDailyCheck_load_failure [OF ei' Some la [unfolded Inl], of tr]
        obtain L where "performDailyCheck svc h tr =
           (svc1, logs L tr,
            Inr \<lparr>totalAssociatesChecked = 0, birthdaysFound = [], notificationSent = False,
                 errors = [''Failed to parse Excel file: '' @ m]\<rparr>)" ..
        then show ?thesis by (simp add: ei Inr Some la Inl)
      next
        case associates: (Inr associates)
        note la' = la [unfolded associates]
        obtain l3 matched where mb: "matchBirthdays svc1 associates h = (l3, matched)"
          by (cases "matchBirthdays svc1 associates h")
        show ?thesis
        proof (cases matched)
          case (Inl m)
          from performDailyCheck_match_failure [OF ei' Some la' mb [unfolded Inl], of tr]
          obtain L where "performDailyCheck svc h tr =
             (svc1, logs L tr,
              Inr \<lparr>totalAssociatesChecked = length associates, birthdaysFound = [],
                   notificationSent = False,
                   errors = [''Failed to match birthdays: '' @ m]\<rparr>)" ..
          then show ?thesis by (simp add: ei Inr Some la associates mb Inl)
        next
          case found: (Inr found)
          note mb' = mb [unfolded found]
          show ?thesis
          proof (cases "found = []")
            case True
            from performDailyCheck_no_birthdays [OF ei' Some la' mb' [unfolded True], of tr]
            obtain L where "performDailyCheck svc h tr =
               (svc1, logs L tr,
                Inr \<lparr>totalAssociatesChecked = length associates, birthdaysFound = [],
                     notificationSent = False, errors = []\<rparr>)" ..
            then show ?thesis by (simp add: ei Inr Some la associates mb found)
          next
            case False
            from performDailyCheck_delivery [OF ei' Some la' mb' False, of tr]
            obtain L L' where pd: "performDailyCheck svc h tr =
               (svc1, logs L' (fst (deliver svc1 cfg found h (logs L tr))),
                Inr \<lparr>totalAssociatesChecked = length associates, birthdaysFound = found,
                     notificationSent = fst (snd (deliver svc1 cfg found h (logs L tr))),
                     errors = snd (snd (deliver svc1 cfg found h (logs L tr)))\<rparr>)"
              by blast
            from deliver_outcome [of svc1 cfg found h "logs L tr"]
            show ?thesis unfolding pd by (auto simp: ei Inr Some la associates mb found)
          qed
        qed
      qed
    qed
  qed
qed

text \<open>
  The statement on five runs: without an environment, with an unreadable workbook, with a
  service that lacks its date matcher, with an endpoint that answers, and with an
  endpoint that cannot be reached.
\<close>

theorem performDailyCheck_always_returns_witness:
  "snd (snd (performDailyCheck newService quietHost emptyTrace)) =
     Inr \<lparr>totalAssociatesChecked = 0, birthdaysFound = [], notificationSent = False,
          errors = [''Unexpected error during birthday check: Configuration validation failed:''
                      @ [newline]
                      @ bulletLines
                          [''Excel file path is required (EXCEL_FILE_PATH)'',
                           ''Recipient mobile number is required (RECIPIENT_MOBILE_NUMBER)'',
                           ''SMS API URL is required (SMS_API_URL)'',
                           ''SMS API key is required (SMS_API_KEY)'',
                           ''SMS sender ID is required (SMS_SENDER_ID)'']]\<rparr>
   \<and> snd (snd (performDailyCheck newService unreadableHost emptyTrace)) =
     Inr \<lparr>totalAssociatesChecked = 0, birthdaysFound = [], notificationSent = False,
          errors = [''Failed to parse Excel file: Failed to parse Excel file: File is password-protected'']\<rparr>
   \<and> snd (snd (performDailyCheck halfBuiltService fixtureHost emptyTrace)) =
     Inr \<lparr>totalAssociatesChecked = 2, birthdaysFound = [], notificationSent = False,
          errors = [''Failed to match birthdays: '' @ typeErrorNull ''findBirthdaysToday'']\<rparr>
   \<and> (\<exists>r. snd (snd (performDailyCheck newService answeringHost emptyTrace)) = Inr r
          \<and> notificationSent r \<and> errors r = [])
   \<and> (\<exists>r. snd (snd (performDailyCheck newService fixtureHost emptyTrace)) = Inr r
          \<and> birthdaysFound r = [fixtureLeapBaby] \<and> notificationSent r = False
          \<and> length (errors r) = 1)"
proof -
  note T = performDailyCheck_always_returns
  have a: "snd (snd (performDailyCheck newService quietHost emptyTrace)) =
     Inr \<lparr>totalAssociatesChecked = 0, birthdaysFound = [], notificationSent = False,
          errors = [''Unexpected error during birthday check: Configuration validation failed:''
                      @ [newline]
                      @ bulletLines
                          [''Excel file path is required (EXCEL_FILE_PATH)'',
                           ''Recipient mobile number is required (RECIPIENT_MOBILE_NUMBER)'',
                           ''SMS API URL is required (SMS_API_URL)'',
                           ''SMS API key is required (SMS_API_KEY)'',
                           ''SMS sender ID is required (SMS_SENDER_ID)'']]\<rparr>"
  proof -
    from T [of newService quietHost emptyTrace] obtain svc' tr' r where
      pd: "performDailyCheck newService quietHost emptyTrace = (svc', tr', Inr r)"
      and c: "\<forall>svc1 l1 m. ensureInitialized newService quietHost = (svc1, l1, Inl m) \<longrightarrow>
          r = \<lparr>totalAssociatesChecked = 0, birthdaysFound = [], notificationSent = False,
               errors = [''Unexpected error during birthday check: '' @ m]\<rparr>"
      by blast
    from c ensureInitialized_quietHost
    have "r = \<lparr>totalAssociatesChecked = 0, birthdaysFound = [], notificationSent = False,
               errors = [''Unexpected error during birthday check: ''
                  @ (''Configuration validation failed:'' @ [newline]
                       @ bulletLines (validate quietHost (loadFromEnvironment quietHost)))]\<rparr>"
      by blast
    with pd show ?thesis by (simp add: validate_quietHost)
  qed
  have b: "snd (snd (performDailyCheck newService unreadableHost emptyTrace)) =
     Inr \<lparr>totalAssociatesChecked = 0, birthdaysFound = [], notificationSent = False,
          errors = [''Failed to parse Excel file: Failed to parse Excel file: File is password-protected'']\<rparr>"
  proof -
    from T [of newService unreadableHost emptyTrace] obtain svc' tr' r where
      pd: "performDailyCheck newService unreadableHost emptyTrace = (svc', tr', Inr r)"
      and c: "\<forall>svc1 l1 u cfg l2 m.
          ensureInitialized newService unreadableHost = (svc1, l1, Inr u) \<and> config svc1 = Some cfg
            \<and> loadAssociates svc1 cfg unreadableHost = (l2, Inl m) \<longrightarrow>
          r = \<lparr>totalAssociatesChecked = 0, birthdaysFound = [], notificationSent = False,
               errors = [''Failed to parse Excel file: '' @ m]\<rparr>"
      by blast
    from c ensureInitialized_unreadableHost config_readyService loadAssociates_unreadableHost
    have "r = \<lparr>totalAssociatesChecked = 0, birthdaysFound = [], notificationSent = False,
               errors = [''Failed to parse Excel file: ''
                  @ ''Failed to parse Excel file: File is password-protected'']\<rparr>"
      by blast
    with pd show ?thesis by simp
  qed
  have c: "snd (snd (performDailyCheck halfBuiltService fixtureHost emptyTrace)) =
     Inr \<lparr>totalAssociatesChecked = 2, birthdaysFound = [], notificationSent = False,
          errors = [''Failed to match birthdays: '' @ typeErrorNull ''findBirthdaysToday'']\<rparr>"
  proof -
    from T [of halfBuiltService fixtureHost emptyTrace] obtain svc' tr' r where
      pd: "performDailyCheck halfBuiltService fixtureHost emptyTrace = (svc', tr', Inr r)"
      and c: "\<forall>svc1 l1 u cfg l2 associates l3 m.
          ensureInitialized halfBuiltService fixtureHost = (svc1, l1, Inr u)
            \<and> config svc1 = Some cfg
            \<and> loadAssociates svc1 cfg fixtureHost = (l2, Inr associates)
            \<and> matchBirthdays svc1 associates fixtureHost = (l3, Inl m) \<longrightarrow>
          r = \<lparr>totalAssociatesChecked = length associates, birthdaysFound = [],
               notificationSent = False, errors = [''Failed to match birthdays: '' @ m]\<rparr>"
      by blast
    from c ensureInitialized_halfBuiltService config_halfBuiltService
      loadAssociates_halfBuiltService matchBirthdays_halfBuiltService
    have "r = \<lparr>totalAssociatesChecked = length fixtureAssociates, birthdaysFound = [],
               notificationSent = False,
               errors = [''Failed to match birthdays: '' @ typeErrorNull ''findBirthdaysToday'']\<rparr>"
      by blast
    with pd show ?thesis by (simp add: length_fixtureAssociates)
  qed
  have d: "\<exists>r. snd (snd (performDailyCheck newService answeringHost emptyTrace)) = Inr r
          \<and> notificationSent r \<and> errors r = []"
  proof -
    from T [of newService answeringHost emptyTrace] obtain svc' tr' r where
      pd: "performDailyCheck newService answeringHost emptyTrace = (svc', tr', Inr r)"
      and c: "notificationSent r \<longrightarrow> errors r = []"
      by blast
    from pd run_answeringHost have "notificationSent r" by simp
    with c pd show ?thesis by simp
  qed
  have e: "\<exists>r. snd (snd (performDailyCheck newService fixtureHost emptyTrace)) = Inr r
          \<and> birthdaysFound r = [fixtureLeapBaby] \<and> notificationSent r = False
          \<and> length (errors r) = 1"
  proof -
    from T [of newService fixtureHost emptyTrace] obtain svc' tr' r where
      pd: "performDailyCheck newService fixtureHost emptyTrace = (svc', tr', Inr r)"
      and c: "birthdaysFound r \<noteq> [] \<and> \<not> notificationSent r \<longrightarrow> length (errors r) = 1"
      by blast
    from pd run_fixtureHost
    have f: "birthdaysFound r = [fixtureLeapBaby]" "notificationSent r = False" by simp_all
    with c have "length (errors r) = 1" by simp
    with f pd show ?thesis by simp
  qed
  from a b c d e show ?thesis by (intro conjI)
qed

subsection \<open>At most one notification per run\<close>

text \<open>
  Claim C2. In every run \<open>sendBirthdayNotification\<close> is called at most once, and if so with
  the whole list of birthdays found: the calls recorded after the run are those before
  it, or those followed by the one call. When no birthday was found there is no call, no
  request and no pause, and the result reports no notification sent. When birthdays were
  found and the service has its SMS service, there is exactly one call; every request
  posted (one to three, the retries of the one call) carries the same message, the one
  text \<open>formatMessage\<close> folds the names of all birthdays found into.
\<close>

theorem performDailyCheck_one_notification:
  "\<exists>svc' tr' r es. performDailyCheck svc h tr = (svc', tr', Inr r)
     \<and> events tr' = events tr @ es
     \<and> (notifications tr' = notifications tr
          \<or> notifications tr' = notifications tr @ [Some (birthdaysFound r)])
     \<and> (birthdaysFound r = [] \<longrightarrow>
           notifications tr' = notifications tr \<and> es = [] \<and> \<not> notificationSent r)
     \<and> (birthdaysFound r \<noteq> [] \<longrightarrow>
           (case smsService svc' of
              None \<Rightarrow> notifications tr' = notifications tr \<and> es = []
            | Some sms \<Rightarrow>
                notifications tr' = notifications tr @ [Some (birthdaysFound r)]
                \<and> set (posted es) = {request sms (formatMessage (Some (birthdaysFound r)))}
                \<and> length (posted es) \<le> 3)
           \<and> formatMessage (Some (birthdaysFound r)) =
               trim (''Birthday Alert! Today'' @ [apostrophe] @ ''s birthdays:'' @ [newline]
                       @ concat (map (\<lambda>a. ''- '' @ name a @ [newline]) (birthdaysFound r))))"
proof -
  from performDailyCheck_paths [of svc h tr] show ?thesis
  proof (elim disjE exE conjE)
    fix svc' L r
    assume pd: "performDailyCheck svc h tr = (svc', logs L tr, Inr r)"
      and none: "birthdaysFound r = []" and unsent: "\<not> notificationSent r"
    have "events (logs L tr) = events tr @ []" by (simp add: events_logs)
    with none unsent show ?thesis unfolding pd
      by (simp add: notifications_logs events_logs)
  next
    fix svc' cfg found L L' n
    let ?d = "deliver svc' cfg found h (logs L tr)"
    assume found: "found \<noteq> []"
      and pd: "performDailyCheck svc h tr =
           (svc', logs L' (fst ?d),
            Inr \<lparr>totalAssociatesChecked = n, birthdaysFound = found,
                 notificationSent = fst (snd ?d), errors = snd (snd ?d)\<rparr>)"
    from deliver_trace [of svc' cfg found h "logs L tr", unfolded events_logs notifications_logs]
    obtain es where ev: "events (fst ?d) = events tr @ es"
      and nt: "case smsService svc' of
           None \<Rightarrow> es = [] \<and> notifications (fst ?d) = notifications tr
         | Some sms \<Rightarrow>
             notifications (fst ?d) = notifications tr @ [Some found]
             \<and> set (posted es) \<subseteq> {request sms (formatMessage (Some found))}
             \<and> length (posted es) \<le> 3
             \<and> (found = [] \<or> posted es \<noteq> [])"
      by blast
    have "events (logs L' (fst ?d)) = events tr @ es
        \<and> (notifications (logs L' (fst ?d)) = notifications tr
            \<or> notifications (logs L' (fst ?d)) = notifications tr @ [Some found])
        \<and> (case smsService svc' of
              None \<Rightarrow> notifications (logs L' (fst ?d)) = notifications tr \<and> es = []
            | Some sms \<Rightarrow>
                notifications (logs L' (fst ?d)) = notifications tr @ [Some found]
                \<and> set (posted es) = {request sms (formatMessage (Some found))}
                \<and> length (posted es) \<le> 3)"
    proof (cases "smsService svc'")
      case None
      with ev nt show ?thesis by (simp add: events_logs notifications_logs)
    next
      case (Some sms)
      with nt found have "set (posted es) \<subseteq> {request sms (formatMessage (Some found))}"
        and "posted es \<noteq> []" by simp_all
      then have "set (posted es) = {request sms (formatMessage (Some found))}"
        by (cases "posted es") auto
      with Some ev nt show ?thesis by (simp add: events_logs notifications_logs)
    qed
    with found formatMessage_names [OF found] show ?thesis unfolding pd
      by (simp split: option.splits)
  qed
qed

text \<open>
  The statement on a day without a birthday and on 29 February 2024 with an endpoint
  that cannot be reached.
\<close>

theorem performDailyCheck_one_notification_witness:
  "notifications (fst (snd (performDailyCheck newService ordinaryDayHost emptyTrace))) = []
   \<and> events (fst (snd (performDailyCheck newService ordinaryDayHost emptyTrace))) = []
   \<and> notifications (fst (snd (performDailyCheck newService fixtureHost emptyTrace))) =
       [Some [fixtureLeapBaby]]
   \<and> set (posted (events (fst (snd (performDailyCheck newService fixtureHost emptyTrace))))) =
       {request exampleService (formatMessage (Some [fixtureLeapBaby]))}
   \<and> length (posted (events (fst (snd (performDailyCheck newService fixtureHost emptyTrace)))))
       \<le> 3
   \<and> formatMessage (Some [fixtureLeapBaby]) =
       ''Birthday Alert! Today'' @ [apostrophe] @ ''s birthdays:'' @ [newline]
         @ ''- Leap Year Baby''"
proof -
  note T = performDailyCheck_one_notification
  have e0: "events emptyTrace = []" and n0: "notifications emptyTrace = []"
    by (simp_all add: emptyTrace_def)
  have a: "notifications (fst (snd (performDailyCheck newService ordinaryDayHost emptyTrace))) = []
      \<and> events (fst (snd (performDailyCheck newService ordinaryDayHost emptyTrace))) = []"
  proof -
    from T [of newService ordinaryDayHost emptyTrace] obtain svc' tr' r es where
      pd: "performDailyCheck newService ordinaryDayHost emptyTrace = (svc', tr', Inr r)"
      and ev: "events tr' = events emptyTrace @ es"
      and c: "birthdaysFound r = [] \<longrightarrow>
           notifications tr' = notifications emptyTrace \<and> es = [] \<and> \<not> notificationSent r"
      by blast
    from pd run_ordinaryDayHost have "birthdaysFound r = []" by simp
    with c ev pd show ?thesis by (simp add: e0 n0)
  qed
  have b: "notifications (fst (snd (performDailyCheck newService fixtureHost emptyTrace))) =
       [Some [fixtureLeapBaby]]
   \<and> set (posted (events (fst (snd (performDailyCheck newService fixtureHost emptyTrace))))) =
       {request exampleService (formatMessage (Some [fixtureLeapBaby]))}
   \<and> length (posted (events (fst (snd (performDailyCheck newService fixtureHost emptyTrace)))))
       \<le> 3"
  proof -
    from T [of newService fixtureHost emptyTrace] obtain svc' tr' r es where
      pd: "performDailyCheck newService fixtureHost emptyTrace = (svc', tr', Inr r)"
      and ev: "events tr' = events emptyTrace @ es"
      and c: "birthdaysFound r \<noteq> [] \<longrightarrow>
           (case smsService svc' of
              None \<Rightarrow> notifications tr' = notifications emptyTrace \<and> es = []
            | Some sms \<Rightarrow>
                notifications tr' = notifications emptyTrace @ [Some (birthdaysFound r)]
                \<and> set (posted es) = {request sms (formatMessage (Some (birthdaysFound r)))}
                \<and> length (posted es) \<le> 3)
           \<and> formatMessage (Some (birthdaysFound r)) =
               trim (''Birthday Alert! Today'' @ [apostrophe] @ ''s birthdays:'' @ [newline]
                       @ concat (map (\<lambda>a. ''- '' @ name a @ [newline]) (birthdaysFound r)))"
      by blast
    from pd run_fixtureHost
    have f: "birthdaysFound r = [fixtureLeapBaby]" "svc' = readyService" by simp_all
    with c smsService_readyService
    have "notifications tr' = notifications emptyTrace @ [Some [fixtureLeapBaby]]
        \<and> set (posted es) = {request exampleService (formatMessage (Some [fixtureLeapBaby]))}
        \<and> length (posted es) \<le> 3"
      by simp
    with ev pd show ?thesis by (simp add: e0 n0)
  qed
  from a b formatMessage_fixtureLeapBaby show ?thesis by (intro conjI) simp_all
qed

subsection \<open>A failed delivery keeps the counts\<close>

text \<open>
  Claim C8. When initialisation succeeds, the workbook is read, the matcher finds at least
  one birthday and all three attempts of the delivery fail, \<open>performDailyCheck\<close> still
  returns: the result carries the number of associates read and the full list of
  birthdays found, reports no notification sent, and its only error entry is
  \<open>SMS notification failed: \<close> followed by the text of the last failure. The run has made
  one call of \<open>sendBirthdayNotification\<close> and posted three requests, with pauses of 2000 ms
  and 4000 ms between them.
\<close>

theorem performDailyCheck_delivery_failure:
  assumes init: "ensureInitialized svc h = (svc1, l1, Inr u)"
    and cfg: "config svc1 = Some cfg"
    and parser: "excelParser svc1 = Some parser"
    and matcher: "dateMatcher svc1"
    and sms: "smsService svc1 = Some sms"
    and load: "snd (parseFile parser (excelFilePath cfg) h) = Inr associates"
    and found: "findBirthdaysToday (localTZA h) (clock h) (Some associates) \<noteq> []"
    and f1: "handleOutcome (responses h (length (posted (events tr)))) = Inl e1"
    and f2: "handleOutcome (responses h (length (posted (events tr)) + 1)) = Inl e2"
    and f3: "handleOutcome (responses h (length (posted (events tr)) + 2)) = Inl e3"
  shows "snd (snd (performDailyCheck svc h tr)) =
           Inr \<lparr>totalAssociatesChecked = length associates,
                birthdaysFound = findBirthdaysToday (localTZA h) (clock h) (Some associates),
                notificationSent = False,
                errors = [''SMS notification failed: '' @ e3]\<rparr>
         \<and> events (fst (snd (performDailyCheck svc h tr))) =
             events tr
               @ [Posted (request sms (formatMessage (Some (findBirthdaysToday (localTZA h)
                                                              (clock h) (Some associates))))),
                  Slept 2000,
                  Posted (request sms (formatMessage (Some (findBirthdaysToday (localTZA h)
                                                              (clock h) (Some associates))))),
                  Slept 4000,
                  Posted (request sms (formatMessage (Some (findBirthdaysToday (localTZA h)
                                                              (clock h) (Some associates)))))]
         \<and> notifications (fst (snd (performDailyCheck svc h tr))) =
             notifications tr
               @ [Some (findBirthdaysToday (localTZA h) (clock h) (Some associates))]"
proof -
  let ?found = "findBirthdaysToday (localTZA h) (clock h) (Some associates)"
  from loadAssociates_parseFile [OF parser load]
  obtain l2 where la: "loadAssociates svc1 cfg h = (l2, Inr associates)" ..
  from matchBirthdays_findBirthdaysToday [OF matcher, of associates h]
  obtain l3 where mb: "matchBirthdays svc1 associates h = (l3, Inr ?found)" ..
  note run = performDailyCheck_three_failures [OF init cfg la mb found sms f1 f2 f3]
  from run [THEN conjunct1]
  have "snd (snd (performDailyCheck svc h tr)) =
      Inr \<lparr>totalAssociatesChecked = length associates, birthdaysFound = ?found,
           notificationSent = False, errors = [''SMS notification failed: '' @ e3]\<rparr>"
    by (metis snd_conv)
  from this run [THEN conjunct2] show ?thesis by (rule conjI)
qed

text \<open>The statement on 29 February 2024 with an endpoint that cannot be reached.\<close>

theorem performDailyCheck_delivery_failure_witness:
  "ensureInitialized newService fixtureHost = (readyService, [], Inr ())
   \<and> snd (parseFile \<lparr>parser_logger = False\<rparr> (excelFilePath fixtureConfig) fixtureHost) =
       Inr fixtureAssociates
   \<and> findBirthdaysToday (localTZA fixtureHost) (clock fixtureHost) (Some fixtureAssociates) =
       [fixtureLeapBaby]
   \<and> handleOutcome (responses fixtureHost 0) = Inl ''Network error: Unable to reach SMS API''
   \<and> handleOutcome (responses fixtureHost 1) = Inl ''Network error: Unable to reach SMS API''
   \<and> handleOutcome (responses fixtureHost 2) = Inl ''Network error: Unable to reach SMS API''
   \<and> snd (snd (performDailyCheck newService fixtureHost emptyTrace)) =
       Inr \<lparr>totalAssociatesChecked = 2, birthdaysFound = [fixtureLeapBaby],
            notificationSent = False,
            errors = [''SMS notification failed: Network error: Unable to reach SMS API'']\<rparr>
   \<and> events (fst (snd (performDailyCheck newService fixtureHost emptyTrace))) =
       [Posted (request exampleService (formatMessage (Some [fixtureLeapBaby]))), Slept 2000,
        Posted (request exampleService (formatMessage (Some [fixtureLeapBaby]))), Slept 4000,
        Posted (request exampleService (formatMessage (Some [fixtureLeapBaby])))]
   \<and> notifications (fst (snd (performDailyCheck newService fixtureHost emptyTrace))) =
       [Some [fixtureLeapBaby]]"
proof -
  have pf: "snd (parseFile \<lparr>parser_logger = False\<rparr> (excelFilePath fixtureConfig) fixtureHost) =
       Inr fixtureAssociates"
    using parseFile_fixtureHost by (simp add: fixtureConfig_def)
  have fb: "findBirthdaysToday (localTZA fixtureHost) (clock fixtureHost)
      (Some fixtureAssociates) = [fixtureLeapBaby]"
    using findBirthdaysToday_fixture by (simp add: fixtureHost_def quietHost_def)
  then have ne: "findBirthdaysToday (localTZA fixtureHost) (clock fixtureHost)
      (Some fixtureAssociates) \<noteq> []" by simp
  have parser: "excelParser readyService = Some \<lparr>parser_logger = False\<rparr>"
    and matcher: "dateMatcher readyService"
    by (simp_all add: readyService_def)
  have k: "length (posted (events emptyTrace)) = 0" by (simp add: emptyTrace_def)
  have r0: "handleOutcome (responses fixtureHost 0) = Inl ''Network error: Unable to reach SMS API''"
    and r1: "handleOutcome (responses fixtureHost 1) = Inl ''Network error: Unable to reach SMS API''"
    and r2: "handleOutcome (responses fixtureHost 2) = Inl ''Network error: Unable to reach SMS API''"
    by (simp_all add: fixtureHost_def quietHost_def)
  have f1: "handleOutcome (responses fixtureHost (length (posted (events emptyTrace))))
      = Inl ''Network error: Unable to reach SMS API''"
    unfolding k by (rule r0)
  have f2: "handleOutcome (responses fixtureHost (length (posted (events emptyTrace)) + 1))
      = Inl ''Network error: Unable to reach SMS API''"
    unfolding k add_0 by (rule r1)
  have f3: "handleOutcome (responses fixtureHost (length (posted (events emptyTrace)) + 2))
      = Inl ''Network error: Unable to reach SMS API''"
    unfolding k add_0 by (rule r2)
  from performDailyCheck_delivery_failure [OF ensureInitialized_fixtureHost config_readyService
      parser matcher smsService_readyService pf ne f1 f2 f3]
  have "snd (snd (performDailyCheck newService fixtureHost emptyTrace)) =
       Inr \<lparr>totalAssociatesChecked = 2, birthdaysFound = [fixtureLeapBaby],
            notificationSent = False,
            errors = [''SMS notification failed: Network error: Unable to reach SMS API'']\<rparr>
   \<and> events (fst (snd (performDailyCheck newService fixtureHost emptyTrace))) =
       [Posted (request exampleService (formatMessage (Some [fixtureLeapBaby]))), Slept 2000,
        Posted (request exampleService (formatMessage (Some [fixtureLeapBaby]))), Slept 4000,
        Posted (request exampleService (formatMessage (Some [fixtureLeapBaby])))]
   \<and> notifications (fst (snd (performDailyCheck newService fixtureHost emptyTrace))) =
       [Some [fixtureLeapBaby]]"
    by (simp add: fb length_fixtureAssociates emptyTrace_def)
  with ensureInitialized_fixtureHost pf fb r0 r1 r2 show ?thesis by (intro conjI) simp_all
qed

end
